theory Spec2Isabelle
  imports Main "HOL-Library.Word" "HOL-Library.Signed_Division"
begin

section \<open>Values, errors and results\<close>

text \<open>
  The driver is written in Go. A Go function returns a tuple, here mostly a value paired
  with an \<open>error\<close> (\<open>None\<close> is Go's \<open>nil\<close> error), or it panics. A panic is the left
  summand of a sum type, a normal return the right one.
\<close>

datatype panic = IndexOutOfRange | NilDereference

datatype error =
    ErrInvalidQuery
  | ErrQueryUnknownType
  | ErrQueryBufferOF
  | ErrQueryTimeout
  | ErrPseudoCommand string
  | ErrWriteViolation
  | ErrWGDoesNotExist string
  | ErrWGDisabled string
  | ErrAthenaNilClient
  | ContextCanceled
  | ContextDeadlineExceeded
  | ErrorsNew string
  | ErrPlain string
  | ResponseError string string
  | ErrWrap string error
  | ErrTestMockGeneric
  | ErrTestMockFailedByAthena

text \<open>
  \<open>ErrorsNew r\<close> is \<open>errors.New(r)\<close>; \<open>ErrPlain m\<close> is any other error value with
  message \<open>m\<close> (\<open>fmt.Errorf\<close> in the mock client); \<open>ResponseError rid m\<close> is an
  \<open>awshttp.ResponseError\<close> whose \<open>ServiceRequestID()\<close> is \<open>rid\<close>; \<open>ErrWrap\<close> wraps an
  error; the last two are the errors of the mock client. \<open>errors.As\<close> walks the chain
  of wrapped errors.
\<close>

fun errors_As_ResponseError :: "error \<Rightarrow> string option" where
  "errors_As_ResponseError (ResponseError rid m) = Some rid"
| "errors_As_ResponseError (ErrWrap m e) = errors_As_ResponseError e"
| "errors_As_ResponseError _ = None"

subsection \<open>Go's time.Time\<close>

text \<open>
  The part of the standard library's \<open>time.Time\<close> that the driver uses. A time is an
  instant, counted in seconds since January 1 of year 1, 00:00:00 UTC, with a nanosecond
  part from 0 to 999999999, shown in a location that is a fixed offset from UTC in seconds.
  The calendar is the proleptic Gregorian one, years before year 1 included.
\<close>

record time =
  t_sec :: int
  t_nsec :: int
  t_offset :: int

definition IsZero :: "time \<Rightarrow> bool" where
  "IsZero t \<longleftrightarrow> t_sec t = 0 \<and> t_nsec t = 0"

definition In_UTC :: "time \<Rightarrow> time" where
  "In_UTC t = t\<lparr>t_offset := 0\<rparr>"

definition Add_ns :: "time \<Rightarrow> int \<Rightarrow> time" where
  "Add_ns t d =
     (let n = t_nsec t + d
      in t\<lparr>t_sec := t_sec t + n div 1000000000, t_nsec := n mod 1000000000\<rparr>)"

definition local_sec :: "time \<Rightarrow> int" where
  "local_sec t = t_sec t + t_offset t"

definition Hour :: "time \<Rightarrow> int" where
  "Hour t = (local_sec t mod 86400) div 3600"

definition Minute :: "time \<Rightarrow> int" where
  "Minute t = (local_sec t mod 3600) div 60"

definition Second :: "time \<Rightarrow> int" where
  "Second t = local_sec t mod 60"

definition Nanosecond :: "time \<Rightarrow> int" where
  "Nanosecond t = t_nsec t"

definition isLeap :: "int \<Rightarrow> bool" where
  "isLeap y \<longleftrightarrow> y mod 4 = 0 \<and> (y mod 100 \<noteq> 0 \<or> y mod 400 = 0)"

text \<open>
  The year and the day of the year of a day number (day 0 is January 1 of year 1):
  cycles of 400, 100, 4 and 1 years are cut off in turn; the last of four centuries and the
  last of four years is one day longer, so a quotient of 4 counts as 3.
\<close>

definition year_yday :: "int \<Rightarrow> int \<times> nat" where
  "year_yday d =
     (let n400 = d div 146097;
          d1 = d mod 146097;
          n100 = min 3 (d1 div 36524);
          d2 = d1 - 36524 * n100;
          n4 = d2 div 1461;
          d3 = d2 mod 1461;
          n1 = min 3 (d3 div 365);
          yday = d3 - 365 * n1
      in (400 * n400 + 100 * n100 + 4 * n4 + n1 + 1, nat yday))"

definition month_lengths :: "bool \<Rightarrow> nat list" where
  "month_lengths leap = [31, if leap then 29 else 28, 31, 30, 31, 30, 31, 31, 30, 31, 30, 31]"

fun month_day :: "nat list \<Rightarrow> nat \<Rightarrow> nat \<Rightarrow> nat \<times> nat" where
  "month_day [] m yd = (m, yd + 1)"
| "month_day (len # ls) m yd =
     (if yd < len then (m, yd + 1) else month_day ls (m + 1) (yd - len))"

definition Date :: "time \<Rightarrow> int \<times> nat \<times> nat" where
  "Date t =
     (let (y, yd) = year_yday (local_sec t div 86400)
      in (y, month_day (month_lengths (isLeap y)) 1 yd))"

definition Year :: "time \<Rightarrow> int" where
  "Year t = fst (Date t)"

definition Month :: "time \<Rightarrow> int" where
  "Month t = int (fst (snd (Date t)))"

definition Day :: "time \<Rightarrow> int" where
  "Day t = int (snd (snd (Date t)))"

subsection \<open>Decimal text\<close>

text \<open>The apostrophe, which a string literal cannot hold.\<close>

abbreviation squote :: char where
  "squote \<equiv> CHR 0x27"

definition digit_char :: "nat \<Rightarrow> char" where
  "digit_char n = ''0123456789'' ! (n mod 10)"

function dec_nat :: "nat \<Rightarrow> string" where
  "dec_nat n = (if n < 10 then [digit_char n] else dec_nat (n div 10) @ [digit_char (n mod 10)])"
  by pat_completeness auto
termination
  by (relation "measure id") auto

declare dec_nat.simps [simp del]

definition dec_int :: "int \<Rightarrow> string" where
  "dec_int i = (if i < 0 then CHR ''-'' # dec_nat (nat (- i)) else dec_nat (nat i))"

text \<open>\<open>strconv.FormatInt(v, 10)\<close> and \<open>strconv.FormatUint(v, 10)\<close> on 64-bit values.\<close>

definition FormatInt :: "64 word \<Rightarrow> string" where
  "FormatInt v = dec_int (sint v)"

definition FormatUint :: "64 word \<Rightarrow> string" where
  "FormatUint v = dec_nat (unat v)"

text \<open>
  The standard library's zero-padded integer of \<open>Time.Format\<close>: at least \<open>w\<close> digits, a
  minus sign in front of a negative number.
\<close>

definition pad_nat :: "nat \<Rightarrow> nat \<Rightarrow> string" where
  "pad_nat w n = replicate (w - length (dec_nat n)) CHR ''0'' @ dec_nat n"

definition appendInt :: "int \<Rightarrow> nat \<Rightarrow> string" where
  "appendInt x w = (if x < 0 then CHR ''-'' # pad_nat w (nat (- x)) else pad_nat w (nat x))"

text \<open>
  The two layouts the driver formats with: \<open>timestampFormatDriverMicro\<close>, which is
  \<open>2006-01-02 15:04:05.000000\<close>, and \<open>time.DateTime\<close>, which is \<open>2006-01-02 15:04:05\<close>.
  The fraction \<open>.000000\<close> prints the microseconds of the nanosecond part, truncated.
\<close>

datatype layout = timestampFormatDriverMicro | DateTime

definition Format :: "time \<Rightarrow> layout \<Rightarrow> string" where
  "Format t l =
     appendInt (Year t) 4 @ ''-'' @ appendInt (Month t) 2 @ ''-'' @ appendInt (Day t) 2 @ '' '' @
     appendInt (Hour t) 2 @ '':'' @ appendInt (Minute t) 2 @ '':'' @ appendInt (Second t) 2 @
     (case l of
        DateTime \<Rightarrow> []
      | timestampFormatDriverMicro \<Rightarrow> CHR ''.'' # pad_nat 6 (nat (Nanosecond t div 1000)))"

subsection \<open>Query arguments\<close>

text \<open>
  A \<open>driver.Value\<close> is a dynamically typed value. The eight cases the driver tells apart
  are constructors; \<open>VOther\<close> stands for a value of any other type. A \<open>float64\<close> is its
  64 bits; a byte slice and a string are both byte sequences.
\<close>

datatype driver_Value =
    VNil
  | VInt64 "64 word"
  | VUint64 "64 word"
  | VFloat64 "64 word"
  | VBool bool
  | VTime time
  | VBytes string
  | VString string
  | VOther

text \<open>
  What \<open>connection.go\<close> uses and the sources at hand do not declare is a parameter:
  the constant \<open>MAXQueryStringLength\<close>, the two backslash escaping functions, which
  take the buffer and the value and return the extended buffer, and the standard
  library's \<open>strconv.FormatFloat(v, 'g', -1, 64)\<close>.
\<close>

record deps =
  MAXQueryStringLength :: nat
  escapeBytesBackslash :: "string \<Rightarrow> string \<Rightarrow> string"
  escapeStringBackslash :: "string \<Rightarrow> string \<Rightarrow> string"
  FormatFloat :: "64 word \<Rightarrow> string"

section \<open>buildExecutionParams\<close>

text \<open>
  The text of one argument, as the body of the loop of \<open>buildExecutionParams\<close> computes it;
  \<open>None\<close> is the \<open>default\<close> branch of the type switch.
\<close>

definition execution_time_literal :: "time \<Rightarrow> string" where
  "execution_time_literal v =
     (if \<not> IsZero v then
        (let v = In_UTC v;
             v = Add_ns v 500;
             dateFormat = (if Nanosecond v sdiv 1000 = 0 then DateTime
                           else timestampFormatDriverMicro)
         in squote # Format v dateFormat @ [squote])
      else squote # ''0000-00-00'' @ [squote])"

definition execution_literal :: "deps \<Rightarrow> driver_Value \<Rightarrow> string option" where
  "execution_literal d arg =
     (case arg of
        VInt64 v \<Rightarrow> Some (FormatInt v)
      | VUint64 v \<Rightarrow> Some (FormatUint v)
      | VFloat64 v \<Rightarrow> Some (FormatFloat d v)
      | VBool v \<Rightarrow> Some (if v then ''1'' else ''0'')
      | VTime v \<Rightarrow> Some (execution_time_literal v)
      | VBytes v \<Rightarrow> Some v
      | VString v \<Rightarrow> Some v
      | _ \<Rightarrow> None)"

text \<open>
  The loop over the arguments, with \<open>executionParams\<close> as accumulator. The function
  returns a slice and an error; a \<open>nil\<close> slice and an empty one are both the empty list.
\<close>

fun buildExecutionParams_loop ::
  "deps \<Rightarrow> string list \<Rightarrow> driver_Value list \<Rightarrow> string list \<times> error option" where
  "buildExecutionParams_loop d executionParams [] = (executionParams, None)"
| "buildExecutionParams_loop d executionParams (arg # args) =
     (if arg = VNil then buildExecutionParams_loop d (executionParams @ [''NULL'']) args
      else (case execution_literal d arg of
              None \<Rightarrow> ([], Some ErrQueryUnknownType)
            | Some val \<Rightarrow> buildExecutionParams_loop d (executionParams @ [val]) args))"

definition buildExecutionParams :: "deps \<Rightarrow> driver_Value list \<Rightarrow> string list \<times> error option" where
  "buildExecutionParams d args =
     (if length args = 0 then ([], None) else buildExecutionParams_loop d [] args)"

section \<open>interpolateParams\<close>

text \<open>
  Modelled from the spec: the lookup tables \<open>digits10\<close> and \<open>digits01\<close>, constants that
  \<open>connection.go\<close> indexes and the sources at hand do not declare. Rendering
  \<open>YYYY-MM-DD HH:MM:SS\<close> two digits at a time needs, for every number from 0 to 99, its
  tens digit in the one table and its ones digit in the other.
\<close>

definition digits10 :: string where
  "digits10 = ''0000000000111111111122222222223333333333444444444455555555556666666666777777777788888888889999999999''"

definition digits01 :: string where
  "digits01 = ''0123456789012345678901234567890123456789012345678901234567890123456789012345678901234567890123456789''"

text \<open>Indexing a Go string panics outside of \<open>0 \<le> i < len(s)\<close>.\<close>

definition index_byte :: "string \<Rightarrow> int \<Rightarrow> panic + char" where
  "index_byte s i = (if 0 \<le> i \<and> i < int (length s) then Inr (s ! nat i) else Inl IndexOutOfRange)"

definition bind_panic :: "panic + 'a \<Rightarrow> ('a \<Rightarrow> panic + 'b) \<Rightarrow> panic + 'b" where
  "bind_panic r f = (case r of Inl p \<Rightarrow> Inl p | Inr x \<Rightarrow> f x)"

text \<open>The two bytes \<open>digits10[n], digits01[n]\<close>.\<close>

definition two_digits :: "int \<Rightarrow> panic + string" where
  "two_digits n =
     bind_panic (index_byte digits10 n) (\<lambda>a. bind_panic (index_byte digits01 n) (\<lambda>b. Inr [a, b]))"

text \<open>
  The \<open>time.Time\<close> case of the type switch. Go's \<open>/\<close> and \<open>%\<close> on integers truncate
  towards zero. The bytes of a slice literal are all computed before they are appended.
\<close>

definition appendTime :: "string \<Rightarrow> time \<Rightarrow> panic + string" where
  "appendTime queryBuffer v =
     (if IsZero v then Inr (queryBuffer @ squote # ''0000-00-00'' @ [squote])
      else
        (let v = In_UTC v;
             v = Add_ns v 500;
             year = Year v;
             year100 = year sdiv 100;
             year1 = year smod 100;
             month = Month v;
             day = Day v;
             hour = Hour v;
             minute = Minute v;
             second = Second v;
             micro = Nanosecond v sdiv 1000
         in
           bind_panic (two_digits year100) (\<lambda>yy100.
           bind_panic (two_digits year1) (\<lambda>yy1.
           bind_panic (two_digits month) (\<lambda>mm.
           bind_panic (two_digits day) (\<lambda>dd.
           bind_panic (two_digits hour) (\<lambda>hh.
           bind_panic (two_digits minute) (\<lambda>mi.
           bind_panic (two_digits second) (\<lambda>ss.
             (let queryBuffer = queryBuffer @ squote # yy100 @ yy1 @ ''-'' @ mm @ ''-'' @ dd @
                                '' '' @ hh @ '':'' @ mi @ '':'' @ ss
              in
                if micro \<noteq> 0 then
                  (let micro10000 = micro sdiv 10000;
                       micro100 = (micro sdiv 100) smod 100;
                       micro1 = micro smod 100
                   in
                     bind_panic (two_digits micro10000) (\<lambda>f1.
                     bind_panic (two_digits micro100) (\<lambda>f2.
                     bind_panic (two_digits micro1) (\<lambda>f3.
                       Inr (queryBuffer @ CHR ''.'' # f1 @ f2 @ f3 @ [squote])))))
                else Inr (queryBuffer @ [squote])))))))))))"

text \<open>
  The type switch on one argument that is not \<open>nil\<close>, appending to the buffer;
  \<open>Inr None\<close> is the \<open>default\<close> branch, which returns \<open>ErrQueryUnknownType\<close>.
\<close>

definition appendArg :: "deps \<Rightarrow> string \<Rightarrow> driver_Value \<Rightarrow> panic + string option" where
  "appendArg d queryBuffer arg =
     (case arg of
        VInt64 v \<Rightarrow> Inr (Some (queryBuffer @ FormatInt v))
      | VUint64 v \<Rightarrow> Inr (Some (queryBuffer @ FormatUint v))
      | VFloat64 v \<Rightarrow> Inr (Some (queryBuffer @ FormatFloat d v))
      | VBool v \<Rightarrow> Inr (Some (queryBuffer @ (if v then ''1'' else ''0'')))
      | VTime v \<Rightarrow> bind_panic (appendTime queryBuffer v) (\<lambda>b. Inr (Some b))
      | VBytes v \<Rightarrow>
          Inr (Some (escapeBytesBackslash d (queryBuffer @ ''_binary'' @ [squote]) v @ [squote]))
      | VString v \<Rightarrow> Inr (Some (escapeStringBackslash d (queryBuffer @ [squote]) v @ [squote]))
      | _ \<Rightarrow> Inr None)"

text \<open>\<open>strings.IndexByte\<close>: the index of the first occurrence, or \<open>-1\<close>.\<close>

definition IndexByte :: "string \<Rightarrow> char \<Rightarrow> int" where
  "IndexByte s c = (if c \<in> set s then int (length (takeWhile (\<lambda>x. x \<noteq> c) s)) else - 1)"

text \<open>
  The loop \<open>for i := 0; i < len(query); i++\<close>. The index \<open>i\<close> only ever selects the
  rest \<open>query[i:]\<close> of the query, and \<open>argPos\<close> the arguments not yet used: the model
  carries the rest of the query and the rest of the arguments. Taking \<open>args[argPos]\<close>
  panics when no argument is left.
\<close>

function interpolate_loop ::
  "deps \<Rightarrow> string \<Rightarrow> driver_Value list \<Rightarrow> string \<Rightarrow> panic + (string \<times> error option)" where
  "interpolate_loop d rest args queryBuffer =
     (if rest = [] then Inr (queryBuffer, None)
      else
        (let q = IndexByte rest CHR ''?''
         in if q = - 1 then Inr (queryBuffer @ rest, None)
            else
              (let queryBuffer = queryBuffer @ take (nat q) rest;
                   rest = drop (nat q + 1) rest
               in case args of
                    [] \<Rightarrow> Inl IndexOutOfRange
                  | arg # args \<Rightarrow>
                      if arg = VNil then interpolate_loop d rest args (queryBuffer @ ''NULL'')
                      else
                        (case appendArg d queryBuffer arg of
                           Inl p \<Rightarrow> Inl p
                         | Inr None \<Rightarrow> Inr ([], Some ErrQueryUnknownType)
                         | Inr (Some queryBuffer) \<Rightarrow>
                             if length queryBuffer + 4 > 10 * MAXQueryStringLength d
                             then Inr ([], Some ErrQueryBufferOF)
                             else interpolate_loop d rest args queryBuffer))))"
  by pat_completeness auto
termination
  by (relation "measure (\<lambda>(d, rest, args, queryBuffer). length rest)") auto

declare interpolate_loop.simps [simp del]

text \<open>
  \<open>strings.Count(query, "?")\<close> counts the bytes \<open>?\<close>. The assignment to \<open>c.numInput\<close>
  is made by the caller's model, \<open>QueryContext\<close> below.
\<close>

definition interpolateParams ::
  "deps \<Rightarrow> string \<Rightarrow> driver_Value list \<Rightarrow> panic + (string \<times> error option)" where
  "interpolateParams d query args =
     (if count_list query CHR ''?'' \<noteq> length args then Inr ([], Some ErrInvalidQuery)
      else interpolate_loop d query args [])"

section \<open>The rules of the specification\<close>

text \<open>
  The rendering rule for timestamps in the words of the specification: the zero time is
  the literal \<open>'0000-00-00'\<close>; any other time is taken to UTC, half a microsecond is
  added, and year, month, day, hour, minute and second are written as
  \<open>'YYYY-MM-DD HH:MM:SS'\<close>, zero-padded, followed by the six digits of the microseconds
  exactly when these are not zero.
\<close>

definition spec_timestamp :: "time \<Rightarrow> string" where
  "spec_timestamp t =
     (if IsZero t then squote # ''0000-00-00'' @ [squote]
      else
        (let u = Add_ns (In_UTC t) 500;
             micro = Nanosecond u div 1000
         in squote # appendInt (Year u) 4 @ ''-'' @ appendInt (Month u) 2 @ ''-'' @
            appendInt (Day u) 2 @ '' '' @ appendInt (Hour u) 2 @ '':'' @
            appendInt (Minute u) 2 @ '':'' @ appendInt (Second u) 2 @
            (if micro \<noteq> 0 then CHR ''.'' # pad_nat 6 (nat micro) else []) @ [squote]))"

text \<open>
  The text of one argument by the rules of the specification for native parameter binding,
  which are those of interpolation with the quotes around byte sequences and texts left
  out: \<open>NULL\<close> for nil, decimal text for integers, the shortest decimal text that reads
  back as the same value for a float (the standard library's), \<open>1\<close> or \<open>0\<close> for a
  boolean, the timestamp rule, \<open>_binary\<close> and the escaped bytes for a byte sequence, and
  the escaped text for a text.
\<close>

fun spec_fragment :: "deps \<Rightarrow> driver_Value \<Rightarrow> string" where
  "spec_fragment d VNil = ''NULL''"
| "spec_fragment d (VInt64 v) = dec_int (sint v)"
| "spec_fragment d (VUint64 v) = dec_nat (unat v)"
| "spec_fragment d (VFloat64 v) = FormatFloat d v"
| "spec_fragment d (VBool v) = (if v then ''1'' else ''0'')"
| "spec_fragment d (VTime v) = spec_timestamp v"
| "spec_fragment d (VBytes v) = ''_binary'' @ escapeBytesBackslash d [] v"
| "spec_fragment d (VString v) = escapeStringBackslash d [] v"
| "spec_fragment d VOther = []"

text \<open>
  The same rules with byte sequences and texts taken as they are: no quotes, no escaping
  and no \<open>_binary\<close> in front.
\<close>

fun execution_fragment :: "deps \<Rightarrow> driver_Value \<Rightarrow> string" where
  "execution_fragment d (VBytes v) = v"
| "execution_fragment d (VString v) = v"
| "execution_fragment d arg = spec_fragment d arg"

text \<open>
  Where the length guard of \<open>interpolateParams\<close> looks: \<open>checked_args\<close> is the number
  of arguments up to the last one that is not nil (0 when all are nil),
  \<open>after_placeholders k\<close> the query text behind its \<open>k\<close>-th placeholder, and \<open>null_fill\<close>
  a text with \<open>NULL\<close> for each placeholder.
\<close>

fun checked_args :: "driver_Value list \<Rightarrow> nat" where
  "checked_args [] = 0"
| "checked_args (a # args) =
     (if a = VNil \<and> checked_args args = 0 then 0 else Suc (checked_args args))"

fun after_placeholders :: "nat \<Rightarrow> string \<Rightarrow> string" where
  "after_placeholders 0 q = q"
| "after_placeholders (Suc k) q = after_placeholders k (drop 1 (dropWhile (\<lambda>c. c \<noteq> CHR ''?'') q))"

definition null_fill :: "string \<Rightarrow> string" where
  "null_fill q = concat (map (\<lambda>c. if c = CHR ''?'' then ''NULL'' else [c]) q)"

section \<open>The remote service and the session\<close>

text \<open>
  The responses of the Athena API, with every pointer that \<open>QueryContext\<close> follows as an
  option: \<open>None\<close> is a \<open>nil\<close> pointer, and following it panics.
\<close>

datatype QueryExecutionState = Queued | Running | Succeeded | Failed | Cancelled | OtherState string

record QueryExecutionStatus =
  State :: QueryExecutionState
  StateChangeReason :: "string option"

record QueryExecution =
  Status :: "QueryExecutionStatus option"
  StatementType :: string

record GetQueryExecutionOutput =
  QueryExecution :: "QueryExecution option"

record StartQueryExecutionOutput =
  QueryExecutionId :: "string option"

record StartQueryExecutionInput =
  QueryString :: string
  ExecutionParameters :: "string list"
  Database :: string
  OutputLocation :: string
  WorkGroup :: string

datatype WorkGroupState = WorkGroupStateEnabled | WorkGroupStateDisabled

record WorkGroup =
  WorkGroup_State :: WorkGroupState

record GetWorkGroupOutput =
  out_WorkGroup :: "WorkGroup option"

text \<open>
  The interface \<open>AthenaClient\<close>. A method returns its output and an error, both of which
  can be there or not. What a poll returns changes over time: \<open>GetQueryExecution n\<close> is the
  answer to the call that \<open>n\<close> earlier polls of this query precede.
\<close>

record AthenaClient =
  GetWorkGroup :: "string \<Rightarrow> GetWorkGroupOutput option \<times> error option"
  CreateWorkGroup :: "string \<Rightarrow> error option"
  StartQueryExecution :: "StartQueryExecutionInput \<Rightarrow> StartQueryExecutionOutput option \<times> error option"
  GetQueryExecution :: "nat \<Rightarrow> string \<Rightarrow> GetQueryExecutionOutput option \<times> error option"
  StopQueryExecution :: "string \<Rightarrow> error option"

text \<open>The remote calls a session makes are logged in the order they are made.\<close>

datatype remote_call =
    CallGetWorkGroup string
  | CallCreateWorkGroup string
  | CallStartQueryExecution StartQueryExecutionInput
  | CallGetQueryExecution string
  | CallStopQueryExecution string
  | CallNewRows string

text \<open>
  A result page, which is column names, column types, rows of nullable cells and an
  update count that can be missing, and the rows object that \<open>QueryContext\<close> returns.
\<close>

record ResultPage =
  columnNames :: "string list"
  columnTypes :: "string list"
  page_rows :: "string option list list"
  has_header :: bool
  UpdateCount :: "64 word option"

record Rows =
  rows_queryID :: string
  ResultOutput :: "ResultPage option"

text \<open>
  Modelled from the spec: \<open>newHeaderlessResultPage\<close> and \<open>NewNonOpsRows\<close>, which
  \<open>connection.go\<close> calls and the sources at hand do not declare. The first builds a
  page of the given column names, column types and rows, without a header row and
  without an update count; the second builds the rows object of a result that needs no remote operation: it calls
  nothing and returns no error.
\<close>

definition newHeaderlessResultPage ::
  "string list \<Rightarrow> string list \<Rightarrow> string option list list \<Rightarrow> ResultPage" where
  "newHeaderlessResultPage names types data =
     \<lparr>columnNames = names, columnTypes = types, page_rows = data, has_header = False,
      UpdateCount = None\<rparr>"

definition NewNonOpsRows :: "string \<Rightarrow> Rows option \<times> error option" where
  "NewNonOpsRows queryID = (Some \<lparr>rows_queryID = queryID, ResultOutput = None\<rparr>, None)"

text \<open>What a call returns: it panics, or it returns rows and an error.\<close>

type_synonym outcome = "panic + (Rows option \<times> error option)"

definition getHeaderlessSingleRowResultPage :: "string \<Rightarrow> outcome" where
  "getHeaderlessSingleRowResultPage qid =
     (case NewNonOpsRows qid of
        (None, err) \<Rightarrow> Inl NilDereference
      | (Some r, err) \<Rightarrow>
          (let colName = ''_col0'';
               columnNames = [colName];
               columnTypes = [''string''];
               data = [[Some qid]]
           in Inr (Some (r\<lparr>ResultOutput := Some (newHeaderlessResultPage columnNames columnTypes data)\<rparr>),
                   err)))"

text \<open>
  The configuration of the connector, as far as \<open>QueryContext\<close> reads it, and the service
  limits a session can override.
\<close>

record ServiceLimitOverride =
  DDLQueryTimeout :: nat
  DMLQueryTimeout :: nat

record Config =
  IsReadOnly :: bool
  GetWorkgroup_Name :: string
  IsWGRemoteCreationAllowed :: bool
  IsMoneyWise :: bool
  GetDB :: string
  GetOutputBucket :: string
  GetServiceLimitOverride :: "ServiceLimitOverride option"

text \<open>
  The functions and constants of the repository that \<open>QueryContext\<close> uses and the sources
  at hand do not declare are parameters: the classification of a statement as read-only,
  the validity check of a query, the test for an execution identifier, the timeout policy
  (applied to the time since submission, the statement type and the override), \<open>NewRows\<close>,
  the driver version and the name of the default workgroup; and the parameters of
  interpolation above.
\<close>

record helpers =
  isReadOnlyStatement :: "string \<Rightarrow> bool"
  isQueryValid :: "string \<Rightarrow> bool"
  IsQID :: "string \<Rightarrow> bool"
  isQueryTimeOut :: "nat \<Rightarrow> string \<Rightarrow> ServiceLimitOverride option \<Rightarrow> bool"
  NewRows :: "string \<Rightarrow> Rows option \<times> error option"
  DriverVersion :: string
  DefaultWGName :: string
  interpolation :: deps

text \<open>
  The caller's context: whether, in the \<open>select\<close> of poll \<open>n\<close>, \<open>ctx.Done()\<close> is received
  rather than the timer of the poll interval, and what \<open>ctx.Err()\<close> is from then on.
\<close>

record Context =
  Done_received :: "nat \<Rightarrow> bool"
  ctx_Err :: error

text \<open>
  All that surrounds a call: the client, the parameters, the context, the clock (the time
  since submission when the timeout is looked at in poll \<open>n\<close>, and the time when the
  workgroup is looked up).
\<close>

record env =
  athenaClient :: AthenaClient
  hp :: helpers
  ctx :: Context
  elapsed :: "nat \<Rightarrow> nat"
  now :: nat

text \<open>
  What a call changes: the log of remote calls, the memoized workgroups of \<open>getWGGroup\<close>
  with the time each expires, and \<open>numInput\<close> of the connection. Logging and metrics are
  not modelled.
\<close>

record world =
  calls :: "remote_call list"
  getWGGroup :: "string \<Rightarrow> (WorkGroup option \<times> nat) option"
  numInput :: int

definition remote :: "remote_call \<Rightarrow> world \<Rightarrow> world" where
  "remote c w = w\<lparr>calls := calls w @ [c]\<rparr>"

section \<open>QueryContext\<close>

subsection \<open>Pseudo commands\<close>

text \<open>
  Modelled from the spec: the names of the four pseudo commands, constants that
  \<open>connection.go\<close> uses and the sources at hand do not declare, as the query-string
  control surface of the specification lists them.
\<close>

definition PCGetQID :: string where
  "PCGetQID = ''get_query_id''"

definition PCGetQIDStatus :: string where
  "PCGetQIDStatus = ''get_query_id_status''"

definition PCStopQID :: string where
  "PCStopQID = ''stop_query_id''"

definition PCGetDriverVersion :: string where
  "PCGetDriverVersion = ''get_driver_version''"

definition HasPrefix :: "string \<Rightarrow> string \<Rightarrow> bool" where
  "HasPrefix s p \<longleftrightarrow> take (length p) s = p"

text \<open>\<open>strings.Trim(s, " ")\<close> removes the spaces at both ends.\<close>

definition Trim_space :: "string \<Rightarrow> string" where
  "Trim_space s =
     rev (dropWhile (\<lambda>c. c = CHR '' '') (rev (dropWhile (\<lambda>c. c = CHR '' '') s)))"

text \<open>
  The head of \<open>QueryContext\<close>: the pseudo command and the query that is left, or one of
  the two early returns.
\<close>

datatype parsed = PCReturnVersion | PCUnknown string | PCParsed string string

definition strip_pseudo_command :: "string \<Rightarrow> parsed" where
  "strip_pseudo_command query =
     (if HasPrefix query ''pc:'' then
        (let query = Trim_space (drop 3 query)
         in if HasPrefix query (PCGetQID @ '' '')
            then PCParsed PCGetQID (Trim_space (drop (length PCGetQID) query))
            else if HasPrefix query (PCGetQIDStatus @ '' '')
            then PCParsed PCGetQIDStatus (Trim_space (drop (length PCGetQIDStatus) query))
            else if HasPrefix query (PCStopQID @ '' '')
            then PCParsed PCStopQID (Trim_space (drop (length PCStopQID) query))
            else if HasPrefix query PCGetDriverVersion then PCReturnVersion
            else PCUnknown query)
      else PCParsed [] query)"

subsection \<open>Workgroups\<close>

text \<open>
  \<open>getWG\<close> of \<open>wg.go\<close>: a memoized workgroup that has not expired is returned without a
  remote call; otherwise the workgroup is fetched, and a fetch that succeeds is kept for
  10 minutes (600 seconds). The client of a connection in use is never \<open>nil\<close>.
\<close>

definition getWG ::
  "env \<Rightarrow> world \<Rightarrow> string \<Rightarrow> (panic + (WorkGroup option \<times> error option)) \<times> world" where
  "getWG e w name =
     (let fetch =
        (let w1 = remote (CallGetWorkGroup name) w
         in case GetWorkGroup (athenaClient e) name of
              (out, Some err) \<Rightarrow> (Inr (None, Some err), w1)
            | (None, None) \<Rightarrow> (Inl NilDereference, w1)
            | (Some out, None) \<Rightarrow>
                (Inr (out_WorkGroup out, None),
                 w1\<lparr>getWGGroup := (getWGGroup w1)(name \<mapsto> (out_WorkGroup out, now e + 600))\<rparr>))
      in case getWGGroup w name of
           None \<Rightarrow> fetch
         | Some (wg, expiresAt) \<Rightarrow> if now e < expiresAt then (Inr (wg, None), w) else fetch)"

text \<open>\<open>CreateWGRemotely\<close>: one call of \<open>CreateWorkGroup\<close>, with or without tags.\<close>

definition CreateWGRemotely :: "env \<Rightarrow> world \<Rightarrow> string \<Rightarrow> error option \<times> world" where
  "CreateWGRemotely e w name =
     (CreateWorkGroup (athenaClient e) name, remote (CallCreateWorkGroup name) w)"

text \<open>The workgroup of the query: the name to submit with, or an early return.\<close>

definition resolve_workgroup :: "env \<Rightarrow> Config \<Rightarrow> world \<Rightarrow> (outcome + string) \<times> world" where
  "resolve_workgroup e cfg w =
     (let name = GetWorkgroup_Name cfg
      in if name = [] then (Inr (DefaultWGName (hp e)), w)
         else if name \<noteq> DefaultWGName (hp e) then
           (case getWG e w name of
              (Inl p, w1) \<Rightarrow> (Inl (Inl p), w1)
            | (Inr (athenaWG, Some err), w1) \<Rightarrow>
                if IsWGRemoteCreationAllowed cfg then
                  (case CreateWGRemotely e w1 name of
                     (Some err, w2) \<Rightarrow> (Inl (Inr (None, Some err)), w2)
                   | (None, w2) \<Rightarrow> (Inr name, w2))
                else (Inl (Inr (None, Some (ErrWGDoesNotExist name))), w1)
            | (Inr (athenaWG, None), w1) \<Rightarrow>
                (case athenaWG of
                   None \<Rightarrow> (Inl (Inl NilDereference), w1)
                 | Some g \<Rightarrow>
                     if WorkGroup_State g \<noteq> WorkGroupStateEnabled
                     then (Inl (Inr (None, Some (ErrWGDisabled name))), w1)
                     else (Inr name, w1)))
         else (Inr name, w))"

subsection \<open>Case 1: the query is an execution identifier\<close>

text \<open>
  \<open>NewRows\<close> fetches the first page of the results; what it calls remotely is one entry
  of the log. \<open>printCost\<close> only prints.
\<close>

definition cachedQuery :: "env \<Rightarrow> Config \<Rightarrow> world \<Rightarrow> string \<Rightarrow> outcome \<times> world" where
  "cachedQuery e cfg w QID = (Inr (NewRows (hp e) QID), remote (CallNewRows QID) w)"

definition state_string :: "QueryExecutionState \<Rightarrow> string" where
  "state_string st =
     (case st of Queued \<Rightarrow> ''QUEUED'' | Running \<Rightarrow> ''RUNNING'' | Succeeded \<Rightarrow> ''SUCCEEDED''
      | Failed \<Rightarrow> ''FAILED'' | Cancelled \<Rightarrow> ''CANCELLED'' | OtherState s \<Rightarrow> s)"

definition query_by_QID :: "env \<Rightarrow> Config \<Rightarrow> world \<Rightarrow> string \<Rightarrow> string \<Rightarrow> outcome \<times> world" where
  "query_by_QID e cfg w pseudoCommand query =
     (if pseudoCommand = PCGetQIDStatus then
        (let w1 = remote (CallGetQueryExecution query) w
         in case GetQueryExecution (athenaClient e) 0 query of
              (statusResp, Some err) \<Rightarrow> (Inr (None, Some err), w1)
            | (None, None) \<Rightarrow> (Inl NilDereference, w1)
            | (Some statusResp, None) \<Rightarrow>
                (case QueryExecution statusResp of
                   None \<Rightarrow> (Inl NilDereference, w1)
                 | Some qe \<Rightarrow>
                     (case Status qe of
                        None \<Rightarrow> (Inl NilDereference, w1)
                      | Some st \<Rightarrow>
                          (getHeaderlessSingleRowResultPage (state_string (State st)), w1))))
      else if pseudoCommand = PCStopQID then
        (let w1 = remote (CallStopQueryExecution query) w
         in case StopQueryExecution (athenaClient e) query of
              Some err \<Rightarrow> (Inr (None, Some err), w1)
            | None \<Rightarrow> (getHeaderlessSingleRowResultPage ''OK'', w1))
      else cachedQuery e cfg w query)"

subsection \<open>Up to the submission\<close>

text \<open>
  What the part of \<open>QueryContext\<close> before \<open>buildExecutionParams\<close> hands on: the pseudo
  command, the query with its arguments interpolated, the query as it was given, the
  arguments and the name of the workgroup. \<open>namedValueToValue\<close> takes the values out of
  the named arguments; the model is given the values.
\<close>

record prepared =
  p_pseudoCommand :: string
  p_query :: string
  p_queryWithPlaceholders :: string
  p_args :: "driver_Value list"
  p_wgName :: string

definition check_and_resolve ::
  "env \<Rightarrow> Config \<Rightarrow> world \<Rightarrow> string \<Rightarrow> string \<Rightarrow> string \<Rightarrow> driver_Value list
     \<Rightarrow> (outcome + prepared) \<times> world" where
  "check_and_resolve e cfg w pseudoCommand query queryWithPlaceholders args =
     (if \<not> isQueryValid (hp e) query then (Inl (Inr (None, Some ErrInvalidQuery)), w)
      else
        (case resolve_workgroup e cfg w of
           (Inl r, w1) \<Rightarrow> (Inl r, w1)
         | (Inr wgName, w1) \<Rightarrow>
             if IsQID (hp e) query
             then (case query_by_QID e cfg w1 pseudoCommand query of (r, w2) \<Rightarrow> (Inl r, w2))
             else (Inr \<lparr>p_pseudoCommand = pseudoCommand, p_query = query,
                        p_queryWithPlaceholders = queryWithPlaceholders, p_args = args,
                        p_wgName = wgName\<rparr>, w1)))"

definition interpolate_and_check ::
  "env \<Rightarrow> Config \<Rightarrow> world \<Rightarrow> string \<Rightarrow> string \<Rightarrow> driver_Value list
     \<Rightarrow> (outcome + prepared) \<times> world" where
  "interpolate_and_check e cfg w pseudoCommand query namedArgs =
     (let args = namedArgs;
          queryWithPlaceholders = query
      in if length namedArgs > 0 then
           (let w = w\<lparr>numInput := int (length args)\<rparr>
            in case interpolateParams (interpolation (hp e)) query args of
                 Inl p \<Rightarrow> (Inl (Inl p), w)
               | Inr (q, Some err) \<Rightarrow> (Inl (Inr (None, Some err)), w)
               | Inr (q, None) \<Rightarrow>
                   check_and_resolve e cfg w pseudoCommand q queryWithPlaceholders args)
         else check_and_resolve e cfg w pseudoCommand query queryWithPlaceholders args)"

definition prepare ::
  "env \<Rightarrow> Config \<Rightarrow> world \<Rightarrow> string \<Rightarrow> driver_Value list \<Rightarrow> (outcome + prepared) \<times> world" where
  "prepare e cfg w query namedArgs =
     (case strip_pseudo_command query of
        PCReturnVersion \<Rightarrow> (Inl (getHeaderlessSingleRowResultPage (DriverVersion (hp e))), w)
      | PCUnknown q \<Rightarrow> (Inl (Inr (None, Some (ErrPseudoCommand q))), w)
      | PCParsed pseudoCommand query \<Rightarrow>
          if IsReadOnly cfg \<and> \<not> isReadOnlyStatement (hp e) query
          then (Inl (Inr (None, Some ErrWriteViolation)), w)
          else interpolate_and_check e cfg w pseudoCommand query namedArgs)"

subsection \<open>Case 2: the submission\<close>

definition start_input :: "Config \<Rightarrow> prepared \<Rightarrow> string list \<Rightarrow> StartQueryExecutionInput" where
  "start_input cfg p executionParams =
     \<lparr>QueryString = p_queryWithPlaceholders p, ExecutionParameters = executionParams,
      Database = GetDB cfg, OutputLocation = GetOutputBucket cfg, WorkGroup = p_wgName p\<rparr>"

text \<open>The submission returns early, or it hands the execution identifier to the poll loop.\<close>

definition submit :: "env \<Rightarrow> Config \<Rightarrow> world \<Rightarrow> prepared \<Rightarrow> (outcome + string) \<times> world" where
  "submit e cfg w p =
     (case buildExecutionParams (interpolation (hp e)) (p_args p) of
        (executionParams, Some err) \<Rightarrow> (Inl (Inr (None, Some err)), w)
      | (executionParams, None) \<Rightarrow>
          (let w1 = remote (CallStartQueryExecution (start_input cfg p executionParams)) w
           in case StartQueryExecution (athenaClient e) (start_input cfg p executionParams) of
                (resp, Some err) \<Rightarrow>
                  (if p_pseudoCommand p = PCGetQID then
                     (case errors_As_ResponseError err of
                        Some rid \<Rightarrow> (Inl (getHeaderlessSingleRowResultPage rid), w1)
                      | None \<Rightarrow> (Inl (Inr (None, Some err)), w1))
                   else (Inl (Inr (None, Some err)), w1))
              | (None, None) \<Rightarrow> (Inl (Inl NilDereference), w1)
              | (Some resp, None) \<Rightarrow>
                  (case QueryExecutionId resp of
                     None \<Rightarrow> (Inl (Inl NilDereference), w1)
                   | Some queryID \<Rightarrow>
                       if p_pseudoCommand p = PCGetQID
                       then (Inl (getHeaderlessSingleRowResultPage queryID), w1)
                       else (Inr queryID, w1))))"

subsection \<open>The poll loop\<close>

text \<open>
  One pass through the loop \<open>WAITING_FOR_RESULT\<close>, poll number \<open>n\<close>: it returns, or it
  goes on to the next poll. In the \<open>select\<close>, either \<open>ctx.Done()\<close> is received or the
  timer of the poll interval.
\<close>

definition poll_once ::
  "env \<Rightarrow> Config \<Rightarrow> world \<Rightarrow> string \<Rightarrow> nat \<Rightarrow> (outcome \<times> world) + world" where
  "poll_once e cfg w queryID n =
     (let w1 = remote (CallGetQueryExecution queryID) w
      in case GetQueryExecution (athenaClient e) n queryID of
           (statusResp, Some err) \<Rightarrow> Inl (Inr (None, Some err), w1)
         | (None, None) \<Rightarrow> Inl (Inl NilDereference, w1)
         | (Some statusResp, None) \<Rightarrow>
             (case QueryExecution statusResp of
                None \<Rightarrow> Inl (Inl NilDereference, w1)
              | Some qe \<Rightarrow>
                  (case Status qe of
                     None \<Rightarrow> Inl (Inl NilDereference, w1)
                   | Some st \<Rightarrow>
                       (case State st of
                          Cancelled \<Rightarrow> Inl (Inr (None, Some ContextCanceled), w1)
                        | Failed \<Rightarrow>
                            (case StateChangeReason st of
                               None \<Rightarrow> Inl (Inl NilDereference, w1)
                             | Some reason \<Rightarrow> Inl (Inr (None, Some (ErrorsNew reason)), w1))
                        | Succeeded \<Rightarrow>
                            Inl (Inr (NewRows (hp e) queryID), remote (CallNewRows queryID) w1)
                        | _ \<Rightarrow>
                            if Done_received (ctx e) n then
                              (let w2 = remote (CallStopQueryExecution queryID) w1
                               in case StopQueryExecution (athenaClient e) queryID of
                                    Some err \<Rightarrow> Inl (Inr (None, Some err), w2)
                                  | None \<Rightarrow>
                                      Inl (Inr (None, Some (ctx_Err (ctx e))),
                                           if IsMoneyWise cfg
                                           then remote (CallGetQueryExecution queryID) w2
                                           else w2))
                            else if isQueryTimeOut (hp e) (elapsed e n) (StatementType qe)
                                      (GetServiceLimitOverride cfg)
                            then Inl (Inr (None, Some ErrQueryTimeout), w1)
                            else Inr w1))))"

text \<open>
  The loop has no bound of its own: a query that stays queued while neither the context is
  done nor the timeout reached is polled for ever. The model polls at most \<open>fuel\<close> times;
  \<open>None\<close> is a loop that is still polling then.
\<close>

fun WAITING_FOR_RESULT ::
  "nat \<Rightarrow> env \<Rightarrow> Config \<Rightarrow> world \<Rightarrow> string \<Rightarrow> nat \<Rightarrow> (outcome \<times> world) option" where
  "WAITING_FOR_RESULT 0 e cfg w queryID n = None"
| "WAITING_FOR_RESULT (Suc fuel) e cfg w queryID n =
     (case poll_once e cfg w queryID n of
        Inl r \<Rightarrow> Some r
      | Inr w1 \<Rightarrow> WAITING_FOR_RESULT fuel e cfg w1 queryID (Suc n))"

definition QueryContext ::
  "nat \<Rightarrow> env \<Rightarrow> Config \<Rightarrow> world \<Rightarrow> string \<Rightarrow> driver_Value list \<Rightarrow> (outcome \<times> world) option" where
  "QueryContext fuel e cfg w query namedArgs =
     (case prepare e cfg w query namedArgs of
        (Inl r, w1) \<Rightarrow> Some (r, w1)
      | (Inr p, w1) \<Rightarrow>
          (case submit e cfg w1 p of
             (Inl r, w2) \<Rightarrow> Some (r, w2)
           | (Inr queryID, w2) \<Rightarrow> WAITING_FOR_RESULT fuel e cfg w2 queryID 0))"

section \<open>ExecContext\<close>



section \<open>The mock client\<close>

text \<open>
  The methods of \<open>mockAthenaClient\<close> that \<open>QueryContext\<close> calls, with the three flags of
  the mock as arguments. Of a status the fields that \<open>QueryContext\<close> reads are kept.
\<close>

definition ToLower_byte :: "char \<Rightarrow> char" where
  "ToLower_byte c =
     (case map_of (zip ''ABCDEFGHIJKLMNOPQRSTUVWXYZ'' ''abcdefghijklmnopqrstuvwxyz'') c of
        Some l \<Rightarrow> l
      | None \<Rightarrow> c)"

definition ToLower :: "string \<Rightarrow> string" where
  "ToLower s = map ToLower_byte s"

definition started :: "string \<Rightarrow> StartQueryExecutionOutput option \<times> error option" where
  "started qid = (Some \<lparr>QueryExecutionId = Some qid\<rparr>, None)"

definition mock_StartQueryExecution ::
  "StartQueryExecutionInput \<Rightarrow> StartQueryExecutionOutput option \<times> error option" where
  "mock_StartQueryExecution s =
     (if ToLower (QueryString s) = ''select 1'' then started ''PING_OK_QID''
      else if QueryString s = ''SELECTExecContext_OK'' then started ''SELECTExecContext_OK_QID''
      else if QueryString s = ''SELECTQueryContext_OK''
              \<or> QueryString s = ''SELECTQueryContext_'' @ [squote] @ ''OK'' @ [squote]
              \<or> QueryString s = ''SELECTQueryContext_?''
      then started ''SELECTQueryContext_OK_QID''
      else if QueryString s = ''SELECTQueryContext_CANCEL_OK''
      then started ''SELECTQueryContext_CANCEL_OK_QID''
      else if QueryString s = ''SELECTQueryContext_AWS_CANCEL''
      then started ''SELECTQueryContext_AWS_CANCEL_QID''
      else if QueryString s = ''SELECTQueryContext_AWS_FAIL''
      then started ''SELECTQueryContext_AWS_FAIL_QID''
      else if QueryString s = ''SELECTQueryContext_CANCEL_FAIL''
      then started ''SELECTQueryContext_CANCEL_FAIL_QID''
      else if QueryString s = ''SELECTQueryContext_TIMEOUT''
      then started ''SELECTQueryContext_TIMEOUT_QID''
      else if QueryString s = ''StartQueryExecution_nil_error'' then (None, Some ErrTestMockGeneric)
      else if QueryString s =
        ''When_StartQueryExecution_Succeed_but_GetQueryExecutionWithContext_return_nil_and_error''
      then started
        ''When_StartQueryExecution_Succeed_but_GetQueryExecutionWithContext_return_nil_and_error_QID''
      else if QueryString s =
        ''StartQueryExecution_OK_GetQueryExecutionWithContext_QueryExecutionStateCancelled''
      then started ''QueryExecutionStateCancelled_QID''
      else if QueryString s =
        ''StartQueryExecution_OK_GetQueryExecutionWithContext_QueryExecutionStateFailed''
      then started ''QueryExecutionStateFailed_QID''
      else if QueryString s = ''FAILED_AFTER_GETQID''
      then (Some \<lparr>QueryExecutionId = Some ''FAILED_AFTER_GETQID_123''\<rparr>,
            Some (ErrPlain ''FAILED_AFTER_GETQID_FAILED''))
      else if QueryString s = ''FAILED_AFTER_GETQID2''
      then (Some \<lparr>QueryExecutionId = Some ''FAILED_AFTER_GETQID_123''\<rparr>,
            Some (ResponseError ''unk'' ''FAILED_AFTER_GETQID_FAILED''))
      else (None, None))"

definition status_of ::
  "QueryExecutionState \<Rightarrow> string option \<Rightarrow> string \<Rightarrow> GetQueryExecutionOutput option \<times> error option" where
  "status_of stat reason stt =
     (Some \<lparr>QueryExecution =
         Some \<lparr>Status = Some \<lparr>State = stat, StateChangeReason = reason\<rparr>, StatementType = stt\<rparr>\<rparr>,
      None)"

definition mock_GetQueryExecution :: "string \<Rightarrow> GetQueryExecutionOutput option \<times> error option" where
  "mock_GetQueryExecution qid =
     (if qid =
        ''When_StartQueryExecution_Succeed_but_GetQueryExecutionWithContext_return_nil_and_error_QID''
      then (None, Some ErrTestMockGeneric)
      else if qid = ''QueryExecutionStateCancelled_QID'' then (None, Some ContextCanceled)
      else if qid = ''QueryExecutionStateFailed_QID'' then (None, Some ErrTestMockFailedByAthena)
      else if qid = ''PING_OK_QID'' then status_of Succeeded None []
      else if qid = ''SELECTExecContext_OK_QID'' then status_of Succeeded None []
      else if qid = ''SELECTQueryContext_OK_QID'' then status_of Succeeded None ''DDL''
      else if qid = ''SELECTQueryContext_CANCEL_OK_QID'' then status_of Queued None ''DDL''
      else if qid = ''SELECTQueryContext_AWS_CANCEL_QID'' then status_of Cancelled None []
      else if qid = ''SELECTQueryContext_AWS_FAIL_QID''
      then status_of Failed (Some ''something_broken'') []
      else if qid = ''SELECTQueryContext_CANCEL_FAIL_QID'' then status_of Queued None []
      else if qid = ''SELECTQueryContext_TIMEOUT_QID'' then status_of Queued None ''TIMEOUT_NOW''
      else if qid = ''c89088ab-595d-4ee6-a9ce-73b55aeb8900'' then status_of Queued None ''DDL''
      else (None, Some ErrTestMockGeneric))"

definition mock_StopQueryExecution :: "string \<Rightarrow> error option" where
  "mock_StopQueryExecution qid =
     (if qid = ''SELECTQueryContext_CANCEL_OK_QID'' then None
      else if qid = ''SELECTQueryContext_CANCEL_FAIL_QID'' then Some ErrTestMockGeneric
      else if qid = ''c89088ab-595d-4ee6-a9ce-73b55aeb8954'' then None
      else if qid = ''c89088ab-595d-4ee6-a9ce-73b55aeb8955'' then Some ErrTestMockGeneric
      else Some ErrTestMockGeneric)"

definition mockAthenaClient :: "bool \<Rightarrow> bool \<Rightarrow> bool \<Rightarrow> AthenaClient" where
  "mockAthenaClient CreateWGStatus GetWGStatus WGDisabled =
     \<lparr>GetWorkGroup = (\<lambda>name.
        if GetWGStatus
        then (Some \<lparr>out_WorkGroup = Some \<lparr>WorkGroup_State =
                (if WGDisabled then WorkGroupStateDisabled else WorkGroupStateEnabled)\<rparr>\<rparr>, None)
        else (None, Some ErrTestMockGeneric)),
      CreateWorkGroup = (\<lambda>name. if \<not> CreateWGStatus then Some ErrTestMockGeneric else None),
      StartQueryExecution = mock_StartQueryExecution,
      GetQueryExecution = (\<lambda>n. mock_GetQueryExecution),
      StopQueryExecution = mock_StopQueryExecution\<rparr>"

section \<open>An instance of the parameters\<close>

text \<open>
  The closed instances of the theorems below are evaluated at these values of the
  parameters: a maximum query length of 262144 bytes; the backslash escaping below; a
  float printed as nothing; statements that begin with \<open>select\<close>, \<open>show\<close> or \<open>desc\<close>, in any case, as the read-only ones; queries from 1
  byte to the maximum length as the valid ones; texts of 36 bytes with hyphens at the
  places of a UUID as execution identifiers; a timeout for the statement type
  \<open>TIMEOUT_NOW\<close> of the mock at once and for any other after 1800 seconds, or after what
  the override says; \<open>NewRows\<close> that returns rows without a page; and the default
  workgroup \<open>primary\<close>. The theorems stated for every value of the parameters do not
  depend on these.
\<close>

text \<open>
  Modelled from the spec: the escaping of \<open>escapeBytesBackslash\<close> and
  \<open>escapeStringBackslash\<close>, which \<open>connection.go\<close> calls and the sources at hand do not
  declare. By the specification it is the standard backslash escaping of SQL, of the
  backslash, the apostrophe, NUL and the control characters that need it: a backslash goes
  in front of a backslash and of an apostrophe, NUL becomes a backslash and \<open>0\<close>, and
  line feed, carriage return and Ctrl-Z become a backslash and \<open>n\<close>, \<open>r\<close> and \<open>Z\<close>.
  The escaped value is appended to the buffer.
\<close>

definition escape_byte :: "char \<Rightarrow> string" where
  "escape_byte c =
     (if c = CHR 0x5C \<or> c = squote then [CHR 0x5C, c]
      else if c = CHR 0x00 then [CHR 0x5C, CHR ''0'']
      else if c = CHR 0x0A then [CHR 0x5C, CHR ''n'']
      else if c = CHR 0x0D then [CHR 0x5C, CHR ''r'']
      else if c = CHR 0x1A then [CHR 0x5C, CHR ''Z'']
      else [c])"

definition test_escape :: "string \<Rightarrow> string \<Rightarrow> string" where
  "test_escape buf v = buf @ concat (map escape_byte v)"

definition test_deps :: deps where
  "test_deps =
     \<lparr>MAXQueryStringLength = 262144, escapeBytesBackslash = test_escape,
      escapeStringBackslash = test_escape, FormatFloat = (\<lambda>v. [])\<rparr>"

definition test_helpers :: helpers where
  "test_helpers =
     \<lparr>isReadOnlyStatement = (\<lambda>q. HasPrefix (ToLower q) ''select'' \<or> HasPrefix (ToLower q) ''show''
                                  \<or> HasPrefix (ToLower q) ''desc''),
      isQueryValid = (\<lambda>q. 0 < length q \<and> length q < 262144),
      IsQID = (\<lambda>q. length q = 36 \<and> q ! 8 = CHR ''-'' \<and> q ! 13 = CHR ''-'' \<and> q ! 18 = CHR ''-''
                    \<and> q ! 23 = CHR ''-''),
      isQueryTimeOut = (\<lambda>t stt override.
        stt = ''TIMEOUT_NOW'' \<or>
        t > (case override of
               None \<Rightarrow> 1800
             | Some l \<Rightarrow> if stt = ''DDL'' then DDLQueryTimeout l else DMLQueryTimeout l)),
      NewRows = (\<lambda>qid. (Some \<lparr>rows_queryID = qid, ResultOutput = None\<rparr>, None)),
      DriverVersion = ''1.1.15'',
      DefaultWGName = ''primary'',
      interpolation = test_deps\<rparr>"

text \<open>
  A session against the mock client: the context is done in the polls that \<open>done\<close> says,
  with \<open>context.Canceled\<close> as its error, and poll \<open>n\<close> looks at the clock \<open>n\<close> seconds after
  the submission.
\<close>

definition test_env :: "(nat \<Rightarrow> bool) \<Rightarrow> env" where
  "test_env done =
     \<lparr>athenaClient = mockAthenaClient True True False, hp = test_helpers,
      ctx = \<lparr>Done_received = done, ctx_Err = ContextCanceled\<rparr>,
      elapsed = (\<lambda>n. n), now = 0\<rparr>"

definition test_config :: "bool \<Rightarrow> bool \<Rightarrow> Config" where
  "test_config readonly moneywise =
     \<lparr>IsReadOnly = readonly, GetWorkgroup_Name = ''primary'', IsWGRemoteCreationAllowed = False,
      IsMoneyWise = moneywise, GetDB = ''sampledb'', GetOutputBucket = ''s3://bucket/'',
      GetServiceLimitOverride = None\<rparr>"

definition empty_world :: world where
  "empty_world = \<lparr>calls = [], getWGGroup = (\<lambda>name. None), numInput = 0\<rparr>"

section \<open>What the claims about QueryContext speak of\<close>

text \<open>
  The remote calls that a call of \<open>QueryContext\<close> adds to the log, and the kinds of calls
  among them.
\<close>

definition new_calls :: "world \<Rightarrow> world \<Rightarrow> remote_call list" where
  "new_calls w w' = drop (length (calls w)) (calls w')"

fun is_workgroup_call :: "remote_call \<Rightarrow> bool" where
  "is_workgroup_call (CallGetWorkGroup name) = True"
| "is_workgroup_call (CallCreateWorkGroup name) = True"
| "is_workgroup_call _ = False"

fun is_stop_call :: "remote_call \<Rightarrow> bool" where
  "is_stop_call (CallStopQueryExecution qid) = True"
| "is_stop_call _ = False"

fun is_poll_call :: "remote_call \<Rightarrow> bool" where
  "is_poll_call (CallGetQueryExecution qid) = True"
| "is_poll_call _ = False"

text \<open>
  What poll \<open>n\<close> observes when the service answers with a status: the status and the
  statement type. A state is terminal when it is \<open>Succeeded\<close>, \<open>Failed\<close> or \<open>Cancelled\<close>.
\<close>

definition polled :: "env \<Rightarrow> string \<Rightarrow> nat \<Rightarrow> (QueryExecutionStatus \<times> string) option" where
  "polled e queryID n =
     (case GetQueryExecution (athenaClient e) n queryID of
        (Some statusResp, None) \<Rightarrow>
          (case QueryExecution statusResp of
             Some qe \<Rightarrow> (case Status qe of Some st \<Rightarrow> Some (st, StatementType qe) | None \<Rightarrow> None)
           | None \<Rightarrow> None)
      | _ \<Rightarrow> None)"

definition non_terminal :: "QueryExecutionState \<Rightarrow> bool" where
  "non_terminal s \<longleftrightarrow> s \<noteq> Succeeded \<and> s \<noteq> Failed \<and> s \<noteq> Cancelled"

text \<open>
  Poll \<open>n\<close> goes on to the next poll: it observes a state that is not terminal, the timer
  is received rather than \<open>ctx.Done()\<close>, and the timeout is not reached. The loop is
  still polling at poll \<open>n\<close> when every poll before went on.
\<close>

definition keeps_polling :: "env \<Rightarrow> Config \<Rightarrow> string \<Rightarrow> nat \<Rightarrow> bool" where
  "keeps_polling e cfg queryID n =
     (case polled e queryID n of
        Some (st, stt) \<Rightarrow>
          non_terminal (State st) \<and> \<not> Done_received (ctx e) n \<and>
          \<not> isQueryTimeOut (hp e) (elapsed e n) stt (GetServiceLimitOverride cfg)
      | None \<Rightarrow> False)"

fun polling_until :: "env \<Rightarrow> Config \<Rightarrow> string \<Rightarrow> nat \<Rightarrow> bool" where
  "polling_until e cfg queryID 0 = True"
| "polling_until e cfg queryID (Suc n) =
     (polling_until e cfg queryID n \<and> keeps_polling e cfg queryID n)"

text \<open>
  A result of one row and one column, the column \<open>_col0\<close> of type \<open>string\<close>, whose only
  cell holds \<open>v\<close>, returned without an error.
\<close>

definition one_cell_result :: "string \<Rightarrow> outcome" where
  "one_cell_result v =
     Inr (Some \<lparr>rows_queryID = v,
                ResultOutput = Some \<lparr>columnNames = [''_col0''], columnTypes = [''string''],
                                     page_rows = [[Some v]], has_header = False,
                                     UpdateCount = None\<rparr>\<rparr>,
          None)"

section \<open>Properties of buildExecutionParams and interpolateParams\<close>

lemma sdiv_nonneg: "0 \<le> a \<Longrightarrow> 0 < b \<Longrightarrow> a sdiv b = a div (b::int)"
  by (simp add: signed_divide_int_def sgn_if)

lemma smod_nonneg: "0 \<le> a \<Longrightarrow> 0 < b \<Longrightarrow> a smod b = a mod (b::int)"
  by (simp add: signed_modulo_int_def sgn_if)

lemma Nanosecond_Add_ns: "0 \<le> Nanosecond (Add_ns t d) \<and> Nanosecond (Add_ns t d) < 1000000000"
  by (simp add: Nanosecond_def Add_ns_def Let_def)

lemma execution_time_literal_spec: "execution_time_literal v = spec_timestamp v"
proof (cases "IsZero v")
  case True
  then show ?thesis by (simp add: execution_time_literal_def spec_timestamp_def)
next
  case False
  let ?u = "Add_ns (In_UTC v) 500"
  have n: "0 \<le> Nanosecond ?u" using Nanosecond_Add_ns by blast
  have "Nanosecond ?u sdiv 1000 = Nanosecond ?u div 1000"
    using n by (simp add: sdiv_nonneg)
  with False show ?thesis
    by (simp add: execution_time_literal_def spec_timestamp_def Let_def Format_def)
qed

lemma execution_literal_spec:
  "arg \<noteq> VNil \<Longrightarrow>
     execution_literal d arg = (if arg = VOther then None else Some (execution_fragment d arg))"
  by (cases arg) (simp_all add: execution_literal_def FormatInt_def FormatUint_def execution_time_literal_spec)

lemma buildExecutionParams_loop_spec:
  "buildExecutionParams_loop d acc args =
     (if VOther \<in> set args then ([], Some ErrQueryUnknownType)
      else (acc @ map (execution_fragment d) args, None))"
proof (induction args arbitrary: acc)
  case Nil
  then show ?case by simp
next
  case (Cons a args)
  show ?case
  proof (cases "a = VNil")
    case True
    then show ?thesis using Cons.IH [of "acc @ [''NULL'']"] by simp
  next
    case False
    then show ?thesis
      using Cons.IH [of "acc @ [execution_fragment d a]"] by (simp add: execution_literal_spec)
  qed
qed

lemma buildExecutionParams_eq:
  "buildExecutionParams d args =
     (if VOther \<in> set args then ([], Some ErrQueryUnknownType)
      else (map (execution_fragment d) args, None))"
  by (cases args) (simp_all add: buildExecutionParams_def buildExecutionParams_loop_spec del: buildExecutionParams_loop.simps)

lemma digit_char_mod: "digit_char (n mod 10) = digit_char n"
  by (simp add: digit_char_def)

lemma length_dec_nat_pos: "0 < length (dec_nat n)"
  by (subst dec_nat.simps) simp

lemma dec_nat_small: "n < 10 \<Longrightarrow> dec_nat n = [digit_char n]"
  by (subst dec_nat.simps) simp

lemma pad_nat_Suc:
  assumes "0 < w"
  shows "pad_nat (Suc w) n = pad_nat w (n div 10) @ [digit_char (n mod 10)]"
proof (cases "n < 10")
  case True
  then have z: "n div 10 = 0" by simp
  have "dec_nat 0 = [CHR ''0'']" by (simp add: dec_nat_small digit_char_def)
  moreover have "replicate w CHR ''0'' = replicate (w - 1) CHR ''0'' @ [CHR ''0'']"
    using assms by (cases w) (simp_all add: replicate_append_same)
  ultimately show ?thesis using True
    by (simp add: pad_nat_def z dec_nat_small digit_char_mod)
next
  case False
  then have "dec_nat n = dec_nat (n div 10) @ [digit_char (n mod 10)]"
    by (subst dec_nat.simps) simp
  then show ?thesis by (simp add: pad_nat_def)
qed

lemma pad_nat_1: "pad_nat (Suc 0) n = dec_nat n"
  using length_dec_nat_pos [of n] by (simp add: pad_nat_def Suc_le_eq)

lemma pad_nat_2: "n < 100 \<Longrightarrow> pad_nat 2 n = [digit_char (n div 10), digit_char (n mod 10)]"
proof -
  assume "n < 100"
  then have "n div 10 < 10" by simp
  then show ?thesis
    using pad_nat_Suc [of "Suc 0" n] by (simp add: pad_nat_1 dec_nat_small numeral_2_eq_2)
qed

lemma pad_nat_split:
  assumes "0 < w"
  shows "pad_nat (Suc (Suc w)) n = pad_nat w (n div 100) @ pad_nat 2 (n mod 100)"
proof -
  have a: "pad_nat (Suc (Suc w)) n = pad_nat w (n div 10 div 10) @ [digit_char (n div 10 mod 10), digit_char (n mod 10)]"
    using assms by (simp add: pad_nat_Suc)
  have c: "n mod 100 = 10 * (n div 10 mod 10) + n mod 10"
    using mod_mult2_eq [of n 10 10] by simp
  have b: "n mod 100 div 10 = n div 10 mod 10" "n mod 100 mod 10 = n mod 10" "n div 10 div 10 = n div 100"
    using div_mult2_eq [of n 10 10] by (simp_all add: c)
  have "pad_nat 2 (n mod 100) = [digit_char (n mod 100 div 10), digit_char (n mod 100 mod 10)]"
    by (rule pad_nat_2) simp
  with a b show ?thesis by simp
qed

lemma digits_tables:
  "\<forall>k \<in> set [2..<100]. digits10 ! k = digit_char (k div 10) \<and> digits01 ! k = digit_char (k mod 10)"
  by (simp add: digits10_def digits01_def digit_char_def del: set_upt)

lemma digits_tables_nth:
  assumes "k < 100"
  shows "digits10 ! k = digit_char (k div 10)" and "digits01 ! k = digit_char (k mod 10)"
proof -
  have small: "digits10 ! 0 = digit_char 0" "digits01 ! 0 = digit_char 0"
    "digits10 ! 1 = digit_char 0" "digits01 ! 1 = digit_char 1"
    by (simp_all add: digits10_def digits01_def digit_char_def)
  have "digits10 ! k = digit_char (k div 10) \<and> digits01 ! k = digit_char (k mod 10)"
  proof (cases "k < 2")
    case True
    then have "k = 0 \<or> k = 1" by auto
    then show ?thesis using small by auto
  next
    case False
    with assms have "k \<in> {2..<100}" by simp
    then have "k \<in> set [2..<100]" by (simp only: set_upt)
    then show ?thesis using digits_tables by blast
  qed
  then show "digits10 ! k = digit_char (k div 10)" and "digits01 ! k = digit_char (k mod 10)"
    by simp_all
qed

lemma two_digits_eq:
  "two_digits n = (if 0 \<le> n \<and> n < 100 then Inr (pad_nat 2 (nat n)) else Inl IndexOutOfRange)"
proof -
  have l: "length digits10 = 100" "length digits01 = 100"
    by (simp_all add: digits10_def digits01_def)
  show ?thesis
  proof (cases "0 \<le> n \<and> n < 100")
    case True
    then have k: "nat n < 100" by linarith
    show ?thesis using True k
      by (simp add: two_digits_def index_byte_def bind_panic_def l pad_nat_2 digits_tables_nth)
  next
    case False
    then show ?thesis
      by (auto simp add: two_digits_def index_byte_def bind_panic_def l)
  qed
qed


lemma fst_month_day_le: "fst (month_day ls m yd) \<le> m + length ls"
  by (induction ls m yd rule: month_day.induct) auto

lemma fst_month_day_ge: "m \<le> fst (month_day ls m yd)"
  by (induction ls m yd rule: month_day.induct) auto

lemma snd_month_day_pos: "0 < snd (month_day ls m yd)"
  by (induction ls m yd rule: month_day.induct) auto

lemma snd_month_day_bound:
  "\<forall>l \<in> set ls. l \<le> 31 \<Longrightarrow> yd < sum_list ls + 69 \<Longrightarrow> snd (month_day ls m yd) < 100"
  by (induction ls m yd rule: month_day.induct) auto

lemma yday_bound:
  assumes "0 \<le> d3" and "d3 < (1461::int)"
  shows "0 \<le> d3 - 365 * min 3 (d3 div 365)" and "d3 - 365 * min 3 (d3 div 365) \<le> 365"
  using assms by (auto simp add: min_def)

lemma snd_year_yday_le: "snd (year_yday d) \<le> 365"
proof -
  define d1 where "d1 = d mod 146097"
  define d2 where "d2 = d1 - 36524 * min 3 (d1 div 36524)"
  define d3 where "d3 = d2 mod 1461"
  have "0 \<le> d3" "d3 < 1461" by (simp_all add: d3_def)
  then have "d3 - 365 * min 3 (d3 div 365) \<le> 365" by (rule yday_bound)
  then have "nat (d3 - 365 * min 3 (d3 div 365)) \<le> 365" by linarith
  moreover have "snd (year_yday d) = nat (d3 - 365 * min 3 (d3 div 365))"
    unfolding year_yday_def Let_def d3_def d2_def d1_def by (simp only: snd_conv)
  ultimately show ?thesis by (simp only:)
qed

lemma Month_range: "1 \<le> Month t \<and> Month t < 100"
proof -
  obtain y yd where y: "year_yday (local_sec t div 86400) = (y, yd)" by force
  have "fst (month_day (month_lengths (isLeap y)) 1 yd) \<le> 1 + length (month_lengths (isLeap y))"
    by (rule fst_month_day_le)
  moreover have "1 \<le> fst (month_day (month_lengths (isLeap y)) 1 yd)"
    by (rule fst_month_day_ge)
  ultimately show ?thesis
    by (simp add: Month_def Date_def y month_lengths_def)
qed

lemma Day_range: "1 \<le> Day t \<and> Day t < 100"
proof -
  obtain y yd where y: "year_yday (local_sec t div 86400) = (y, yd)" by force
  have "yd \<le> 365" using snd_year_yday_le [of "local_sec t div 86400"] by (simp add: y)
  then have "snd (month_day (month_lengths (isLeap y)) 1 yd) < 100"
    by (intro snd_month_day_bound) (auto simp add: month_lengths_def)
  moreover have "0 < snd (month_day (month_lengths (isLeap y)) 1 yd)"
    by (rule snd_month_day_pos)
  ultimately show ?thesis
    by (simp add: Day_def Date_def y)
qed

lemma Hour_range: "0 \<le> Hour t \<and> Hour t < 100"
proof -
  have "local_sec t mod 86400 < 86400" "0 \<le> local_sec t mod 86400" by simp_all
  then show ?thesis unfolding Hour_def by (auto simp add: div_less_iff_less_mult pos_imp_zdiv_nonneg_iff)
qed

lemma Minute_range: "0 \<le> Minute t \<and> Minute t < 100"
proof -
  have "local_sec t mod 3600 < 3600" "0 \<le> local_sec t mod 3600" by simp_all
  then show ?thesis unfolding Minute_def by (auto simp add: div_less_iff_less_mult pos_imp_zdiv_nonneg_iff)
qed

lemma Second_range: "0 \<le> Second t \<and> Second t < 100"
proof -
  have "local_sec t mod 60 < 60" "0 \<le> local_sec t mod 60" by simp_all
  then show ?thesis unfolding Second_def by auto
qed


lemma two_digits_ok: "0 \<le> n \<Longrightarrow> n < 100 \<Longrightarrow> two_digits n = Inr (appendInt n 2)"
  by (simp add: two_digits_eq appendInt_def)

lemma bind_panic_simps [simp]:
  "bind_panic (Inl p) f = Inl p" "bind_panic (Inr x) f = f x"
  by (simp_all add: bind_panic_def)

lemma year_pairs:
  assumes "0 \<le> y" and "y < (10000::int)"
  shows "two_digits (y sdiv 100) = Inr (pad_nat 2 (nat y div 100))"
    and "two_digits (y smod 100) = Inr (pad_nat 2 (nat y mod 100))"
    and "pad_nat 2 (nat y div 100) @ pad_nat 2 (nat y mod 100) = appendInt y 4"
proof -
  have d: "y sdiv 100 = y div 100" "y smod 100 = y mod 100"
    using assms by (simp_all add: sdiv_nonneg smod_nonneg)
  have r: "0 \<le> y div 100" "y div 100 < 100" "0 \<le> y mod 100" "y mod 100 < 100"
    using assms by simp_all
  have n: "nat (y div 100) = nat y div 100" "nat (y mod 100) = nat y mod 100"
    using assms by (simp_all add: nat_div_distrib nat_mod_distrib)
  show "two_digits (y sdiv 100) = Inr (pad_nat 2 (nat y div 100))"
    using r by (simp add: d two_digits_eq n)
  show "two_digits (y smod 100) = Inr (pad_nat 2 (nat y mod 100))"
    using r by (simp add: d two_digits_eq n)
  have "pad_nat (Suc (Suc 2)) (nat y) = pad_nat 2 (nat y div 100) @ pad_nat 2 (nat y mod 100)"
    by (rule pad_nat_split) simp
  moreover have "Suc (Suc 2) = 4" by simp
  ultimately show "pad_nat 2 (nat y div 100) @ pad_nat 2 (nat y mod 100) = appendInt y 4"
    using assms by (simp add: appendInt_def)
qed

lemma year_out_of_range:
  assumes "\<not> (0 \<le> y \<and> y < (10000::int))"
  shows "bind_panic (two_digits (y sdiv 100)) (\<lambda>a. bind_panic (two_digits (y smod 100)) (f a)) = Inl IndexOutOfRange"
proof (cases "y < 0")
  case True
  then have s: "y sdiv 100 = - ((- y) div 100)" "y smod 100 = - ((- y) mod 100)"
    by (simp_all add: signed_divide_int_def signed_modulo_int_def sgn_if)
  show ?thesis
  proof (cases "(- y) div 100 = 0")
    case z: True
    with True have "(- y) mod 100 = - y" by (simp add: div_eq_0_iff split: if_splits)
    with True have "y smod 100 < 0" by (simp add: s)
    then show ?thesis by (simp add: two_digits_eq)
  next
    case False
    moreover have "0 \<le> (- y) div 100" using True by simp
    ultimately have "y sdiv 100 < 0" by (simp add: s)
    then show ?thesis by (simp add: two_digits_eq)
  qed
next
  case False
  with assms have "10000 \<le> y" by simp
  then have "100 \<le> y div 100" by simp
  moreover have "y sdiv 100 = y div 100" using False by (simp add: sdiv_nonneg)
  ultimately show ?thesis by (simp add: two_digits_eq)
qed

lemma micro_pairs:
  assumes "0 \<le> m" and "m < (1000000::int)"
  shows "two_digits (m sdiv 10000) = Inr (pad_nat 2 (nat m div 10000))"
    and "two_digits ((m sdiv 100) smod 100) = Inr (pad_nat 2 (nat m div 100 mod 100))"
    and "two_digits (m smod 100) = Inr (pad_nat 2 (nat m mod 100))"
    and "pad_nat 2 (nat m div 10000) @ pad_nat 2 (nat m div 100 mod 100) @ pad_nat 2 (nat m mod 100)
           = pad_nat 6 (nat m)"
proof -
  have d: "m sdiv 10000 = m div 10000" "(m sdiv 100) smod 100 = m div 100 mod 100"
    "m smod 100 = m mod 100"
    using assms by (simp_all add: sdiv_nonneg smod_nonneg)
  have r: "0 \<le> m div 10000" "m div 10000 < 100" using assms by simp_all
  have n: "nat (m div 10000) = nat m div 10000" "nat (m div 100 mod 100) = nat m div 100 mod 100"
    "nat (m mod 100) = nat m mod 100"
    using assms by (simp_all add: nat_div_distrib nat_mod_distrib)
  show "two_digits (m sdiv 10000) = Inr (pad_nat 2 (nat m div 10000))"
    using r by (simp add: d two_digits_eq n)
  show "two_digits ((m sdiv 100) smod 100) = Inr (pad_nat 2 (nat m div 100 mod 100))"
    by (simp add: d two_digits_eq n)
  show "two_digits (m smod 100) = Inr (pad_nat 2 (nat m mod 100))"
    by (simp add: d two_digits_eq n)
  have "pad_nat (Suc (Suc 4)) (nat m) = pad_nat 4 (nat m div 100) @ pad_nat 2 (nat m mod 100)"
    by (rule pad_nat_split) simp
  moreover have "pad_nat (Suc (Suc 2)) (nat m div 100)
      = pad_nat 2 (nat m div 100 div 100) @ pad_nat 2 (nat m div 100 mod 100)"
    by (rule pad_nat_split) simp
  moreover have "Suc (Suc 2) = 4" "Suc (Suc 4) = 6" by simp_all
  moreover have "nat m div 100 div 100 = nat m div 10000"
    using div_mult2_eq [of "nat m" 100 100] by simp
  ultimately show "pad_nat 2 (nat m div 10000) @ pad_nat 2 (nat m div 100 mod 100) @ pad_nat 2 (nat m mod 100)
           = pad_nat 6 (nat m)"
    by simp
qed

lemma appendTime_eq:
  "appendTime buf v =
     (if IsZero v \<or> (0 \<le> Year (Add_ns (In_UTC v) 500) \<and> Year (Add_ns (In_UTC v) 500) < 10000)
      then Inr (buf @ spec_timestamp v) else Inl IndexOutOfRange)"
proof (cases "IsZero v")
  case True
  then show ?thesis by (simp add: appendTime_def spec_timestamp_def)
next
  case nz: False
  define u where "u = Add_ns (In_UTC v) 500"
  define m where "m = Nanosecond u div 1000"
  have nano: "0 \<le> Nanosecond u" "Nanosecond u < 1000000000"
    using Nanosecond_Add_ns [of "In_UTC v" 500] by (simp_all add: u_def)
  then have mr: "0 \<le> m" "m < 1000000" by (simp_all add: m_def)
  have ms: "Nanosecond u sdiv 1000 = m" using nano by (simp add: m_def sdiv_nonneg)
  note fields = two_digits_ok [of "Month u"] two_digits_ok [of "Day u"] two_digits_ok [of "Hour u"]
    two_digits_ok [of "Minute u"] two_digits_ok [of "Second u"]
  have f: "two_digits (Month u) = Inr (appendInt (Month u) 2)"
    "two_digits (Day u) = Inr (appendInt (Day u) 2)"
    "two_digits (Hour u) = Inr (appendInt (Hour u) 2)"
    "two_digits (Minute u) = Inr (appendInt (Minute u) 2)"
    "two_digits (Second u) = Inr (appendInt (Second u) 2)"
    using Month_range [of u] Day_range [of u] Hour_range [of u] Minute_range [of u]
      Second_range [of u] by (simp_all add: two_digits_ok)
  show ?thesis
  proof (cases "0 \<le> Year u \<and> Year u < 10000")
    case False
    have "appendTime buf v = Inl IndexOutOfRange"
      using nz year_out_of_range [OF False]
      by (simp add: appendTime_def Let_def u_def [symmetric])
    with nz False show ?thesis by (simp add: u_def)
  next
    case True
    note y = year_pairs [of "Year u"]
    have y1: "two_digits (Year u sdiv 100) = Inr (pad_nat 2 (nat (Year u) div 100))"
      and y2: "two_digits (Year u smod 100) = Inr (pad_nat 2 (nat (Year u) mod 100))"
      and y3: "pad_nat 2 (nat (Year u) div 100) @ pad_nat 2 (nat (Year u) mod 100) = appendInt (Year u) 4"
      using True y by simp_all
    note mp = micro_pairs [OF mr]
    have "appendTime buf v = Inr (buf @ spec_timestamp v)"
    proof (cases "m = 0")
      case True
      then show ?thesis
        using nz y3 by (simp add: appendTime_def spec_timestamp_def Let_def u_def [symmetric] ms
            m_def [symmetric] f y1 y2)
    next
      case False
      then show ?thesis
        using nz y3 mp(4) by (simp add: appendTime_def spec_timestamp_def Let_def u_def [symmetric] ms
            m_def [symmetric] f y1 y2 mp(1,2,3))
    qed
    with nz True show ?thesis by (simp add: u_def)
  qed
qed

lemma IndexByte_absent: "c \<notin> set s \<Longrightarrow> IndexByte s c = - 1"
  by (simp add: IndexByte_def)

lemma IndexByte_present:
  "c \<in> set s \<Longrightarrow> IndexByte s c \<noteq> - 1 \<and> nat (IndexByte s c) = length (takeWhile (\<lambda>x. x \<noteq> c) s)"
  by (simp add: IndexByte_def)

lemma take_length_takeWhile: "take (length (takeWhile P s)) s = takeWhile P s"
  by (induction s) auto

lemma drop_length_takeWhile: "drop (length (takeWhile P s)) s = dropWhile P s"
  by (induction s) auto

lemma drop_Suc_length_takeWhile: "drop (length (takeWhile P s) + 1) s = drop 1 (dropWhile P s)"
  using drop_length_takeWhile [of P s] by (metis add.commute drop_drop)

lemma count_list_split:
  "c \<in> set s \<Longrightarrow> count_list s c = Suc (count_list (drop 1 (dropWhile (\<lambda>x. x \<noteq> c) s)) c)"
  by (induction s) auto

lemma null_fill_split:
  "CHR ''?'' \<in> set s \<Longrightarrow>
     null_fill s = takeWhile (\<lambda>x. x \<noteq> CHR ''?'') s @ ''NULL'' @
                   null_fill (drop 1 (dropWhile (\<lambda>x. x \<noteq> CHR ''?'') s))"
  by (induction s) (auto simp add: null_fill_def)

lemma null_fill_absent: "CHR ''?'' \<notin> set s \<Longrightarrow> null_fill s = s"
  by (induction s) (auto simp add: null_fill_def)

lemma count_list_0: "count_list s c = 0 \<longleftrightarrow> c \<notin> set s"
  by (induction s) auto

lemma checked_args_Cons:
  "checked_args (a # args) =
     (if a = VNil \<and> checked_args args = 0 then 0 else Suc (checked_args args))"
  by simp

lemma interpolate_loop_step:
  assumes "CHR ''?'' \<in> set rest"
  shows "interpolate_loop d rest (arg # args) buf =
     (let buf1 = buf @ takeWhile (\<lambda>x. x \<noteq> CHR ''?'') rest;
          rest1 = drop 1 (dropWhile (\<lambda>x. x \<noteq> CHR ''?'') rest)
      in if arg = VNil then interpolate_loop d rest1 args (buf1 @ ''NULL'')
         else (case appendArg d buf1 arg of
                 Inl p \<Rightarrow> Inl p
               | Inr None \<Rightarrow> Inr ([], Some ErrQueryUnknownType)
               | Inr (Some buf2) \<Rightarrow>
                   if length buf2 + 4 > 10 * MAXQueryStringLength d
                   then Inr ([], Some ErrQueryBufferOF)
                   else interpolate_loop d rest1 args buf2))"
proof -
  from assms have ne: "rest \<noteq> []" by auto
  show ?thesis
    using IndexByte_present [OF assms] ne
    by (subst interpolate_loop.simps)
      (simp add: Let_def take_length_takeWhile drop_Suc_length_takeWhile del: drop_Suc_Cons One_nat_def)
qed

lemma interpolate_loop_no_placeholder:
  "CHR ''?'' \<notin> set rest \<Longrightarrow> interpolate_loop d rest args buf = Inr (buf @ rest, None)"
  by (subst interpolate_loop.simps) (simp add: IndexByte_absent)

lemma interpolate_loop_bound:
  "interpolate_loop d rest args buf = Inr (s, None) \<Longrightarrow>
   count_list rest CHR ''?'' = length args \<Longrightarrow>
   \<exists>p. s = p @ null_fill (after_placeholders (checked_args args) rest) \<and>
       (if checked_args args = 0 then p = buf
        else length p + 4 \<le> 10 * MAXQueryStringLength d)"
proof (induction rest arbitrary: args buf rule: length_induct)
  case (1 rest)
  show ?case
  proof (cases "CHR ''?'' \<in> set rest")
    case False
    then have "args = []" using "1.prems"(2) by (simp add: count_list_0 [THEN iffD2])
    moreover have "s = buf @ rest"
      using "1.prems"(1) False by (simp add: interpolate_loop_no_placeholder)
    ultimately show ?thesis using False by (simp add: null_fill_absent)
  next
    case True
    define pre where "pre = takeWhile (\<lambda>x. x \<noteq> CHR ''?'') rest"
    define rest1 where "rest1 = drop 1 (dropWhile (\<lambda>x. x \<noteq> CHR ''?'') rest)"
    have cnt: "count_list rest CHR ''?'' = Suc (count_list rest1 CHR ''?'')"
      using count_list_split [OF True] by (simp add: rest1_def)
    then obtain arg args1 where args: "args = arg # args1"
      and cnt1: "count_list rest1 CHR ''?'' = length args1"
      using "1.prems"(2) by (cases args) auto
    have shorter: "length rest1 < length rest"
    proof -
      have "length (dropWhile (\<lambda>x. x \<noteq> CHR ''?'') rest) \<le> length rest"
        by (rule length_dropWhile_le)
      moreover have "rest \<noteq> []" using True by auto
      ultimately show ?thesis by (cases rest) (simp_all add: rest1_def)
    qed
    have nf: "null_fill rest = pre @ ''NULL'' @ null_fill rest1"
      using True unfolding pre_def rest1_def by (rule null_fill_split)
    have ap: "\<And>k. after_placeholders (Suc k) rest = after_placeholders k rest1"
      by (simp add: rest1_def)
    note IH = "1.IH" [rule_format, OF shorter _ cnt1]
    note step = interpolate_loop_step [OF True, of d arg args1 buf, folded pre_def rest1_def]
    show ?thesis
    proof (cases "arg = VNil")
      case nil: True
      then have "interpolate_loop d rest1 args1 ((buf @ pre) @ ''NULL'') = Inr (s, None)"
        using "1.prems"(1) step by (simp add: args Let_def)
      from IH [OF this] obtain p where
        p: "s = p @ null_fill (after_placeholders (checked_args args1) rest1)"
        "if checked_args args1 = 0 then p = (buf @ pre) @ ''NULL''
         else length p + 4 \<le> 10 * MAXQueryStringLength d"
        by blast
      show ?thesis
      proof (cases "checked_args args1 = 0")
        case True
        then show ?thesis using p nil by (simp add: args nf)
      next
        case False
        then show ?thesis using p nil by (simp add: args ap del: after_placeholders.simps)
      qed
    next
      case nn: False
      then obtain buf2 where a: "appendArg d (buf @ pre) arg = Inr (Some buf2)"
        and len: "length buf2 + 4 \<le> 10 * MAXQueryStringLength d"
        and rec: "interpolate_loop d rest1 args1 buf2 = Inr (s, None)"
        using "1.prems"(1) step
        by (auto simp add: args Let_def split: sum.splits option.splits if_splits)
      from IH [OF rec] obtain p where
        p: "s = p @ null_fill (after_placeholders (checked_args args1) rest1)"
        "if checked_args args1 = 0 then p = buf2
         else length p + 4 \<le> 10 * MAXQueryStringLength d"
        by blast
      show ?thesis
        using p nn len by (cases "checked_args args1 = 0") (auto simp add: args ap simp del: after_placeholders.simps)
    qed
  qed
qed

text \<open>
  The loop run on a query up to one of its placeholders, and from there on: when the part
  of the query before the placeholder is done without an error, the loop stands at the
  placeholder with the string made so far as its buffer.
\<close>

lemma takeWhile_before:
  "c \<notin> set q1 \<Longrightarrow> takeWhile (\<lambda>x. x \<noteq> c) (q1 @ c # q2) = q1"
  by (induction q1) auto

lemma dropWhile_before:
  "c \<notin> set q1 \<Longrightarrow> dropWhile (\<lambda>x. x \<noteq> c) (q1 @ c # q2) = c # q2"
  by (induction q1) auto

lemma takeWhile_within:
  "c \<in> set q1 \<Longrightarrow> takeWhile (\<lambda>x. x \<noteq> c) (q1 @ q2) = takeWhile (\<lambda>x. x \<noteq> c) q1"
  by (induction q1) auto

lemma drop_dropWhile_within:
  "c \<in> set q1 \<Longrightarrow>
     drop 1 (dropWhile (\<lambda>x. x \<noteq> c) (q1 @ q2)) = drop 1 (dropWhile (\<lambda>x. x \<noteq> c) q1) @ q2"
  by (induction q1) auto

lemma split_at_placeholder:
  "c \<in> set q \<Longrightarrow>
     q = takeWhile (\<lambda>x. x \<noteq> c) q @ c # drop 1 (dropWhile (\<lambda>x. x \<noteq> c) q)"
  by (induction q) auto

lemma interpolate_loop_at_placeholder:
  "interpolate_loop d (CHR ''?'' # q2) (arg # args2) s1 =
     (if arg = VNil then interpolate_loop d q2 args2 (s1 @ ''NULL'')
      else (case appendArg d s1 arg of
              Inl p \<Rightarrow> Inl p
            | Inr None \<Rightarrow> Inr ([], Some ErrQueryUnknownType)
            | Inr (Some b) \<Rightarrow>
                if length b + 4 > 10 * MAXQueryStringLength d
                then Inr ([], Some ErrQueryBufferOF)
                else interpolate_loop d q2 args2 b))"
  by (simp add: interpolate_loop_step)

lemma interpolate_loop_append:
  "interpolate_loop d q1 args1 buf = Inr (s1, None) \<Longrightarrow>
   count_list q1 CHR ''?'' = length args1 \<Longrightarrow>
   interpolate_loop d (q1 @ CHR ''?'' # q2) (args1 @ arg # args2) buf
     = interpolate_loop d (CHR ''?'' # q2) (arg # args2) s1"
proof (induction q1 arbitrary: args1 buf rule: length_induct)
  case (1 q1)
  show ?case
  proof (cases "CHR ''?'' \<in> set q1")
    case False
    then have a: "args1 = []" using "1.prems"(2) by (simp add: count_list_0 [THEN iffD2])
    have s: "s1 = buf @ q1"
      using "1.prems"(1) False by (simp add: interpolate_loop_no_placeholder)
    have m: "CHR ''?'' \<in> set (q1 @ CHR ''?'' # q2)" by simp
    show ?thesis
      by (simp add: a s interpolate_loop_step [OF m] interpolate_loop_at_placeholder
          takeWhile_before [OF False] dropWhile_before [OF False])
  next
    case True
    define pre where "pre = takeWhile (\<lambda>x. x \<noteq> CHR ''?'') q1"
    define rest1 where "rest1 = drop 1 (dropWhile (\<lambda>x. x \<noteq> CHR ''?'') q1)"
    have cnt: "count_list q1 CHR ''?'' = Suc (count_list rest1 CHR ''?'')"
      using count_list_split [OF True] by (simp add: rest1_def)
    then obtain a args1' where args: "args1 = a # args1'"
      and cnt1: "count_list rest1 CHR ''?'' = length args1'"
      using "1.prems"(2) by (cases args1) auto
    have shorter: "length rest1 < length q1"
    proof -
      have "length (dropWhile (\<lambda>x. x \<noteq> CHR ''?'') q1) \<le> length q1"
        by (rule length_dropWhile_le)
      moreover have "q1 \<noteq> []" using True by auto
      ultimately show ?thesis by (cases q1) (simp_all add: rest1_def)
    qed
    have m: "CHR ''?'' \<in> set (q1 @ CHR ''?'' # q2)" by simp
    note IH = "1.IH" [rule_format, OF shorter _ cnt1]
    note step1 = interpolate_loop_step [OF True, of d a args1' buf, folded pre_def rest1_def]
    have tw: "takeWhile (\<lambda>x. x \<noteq> CHR ''?'') (q1 @ CHR ''?'' # q2) = pre"
      using takeWhile_within [OF True] by (simp add: pre_def)
    have dw: "drop 1 (dropWhile (\<lambda>x. x \<noteq> CHR ''?'') (q1 @ CHR ''?'' # q2)) = rest1 @ CHR ''?'' # q2"
      using drop_dropWhile_within [OF True] by (simp add: rest1_def)
    have step2: "interpolate_loop d (q1 @ CHR ''?'' # q2) (a # args1' @ arg # args2) buf =
       (if a = VNil then interpolate_loop d (rest1 @ CHR ''?'' # q2) (args1' @ arg # args2) ((buf @ pre) @ ''NULL'')
         else (case appendArg d (buf @ pre) a of
                 Inl p \<Rightarrow> Inl p
               | Inr None \<Rightarrow> Inr ([], Some ErrQueryUnknownType)
               | Inr (Some buf2) \<Rightarrow>
                   if length buf2 + 4 > 10 * MAXQueryStringLength d
                   then Inr ([], Some ErrQueryBufferOF)
                   else interpolate_loop d (rest1 @ CHR ''?'' # q2) (args1' @ arg # args2) buf2))"
      using interpolate_loop_step [OF m, of d a "args1' @ arg # args2" buf]
      unfolding tw dw by (simp add: Let_def)
    show ?thesis
    proof (cases "a = VNil")
      case nil: True
      then have "interpolate_loop d rest1 args1' ((buf @ pre) @ ''NULL'') = Inr (s1, None)"
        using "1.prems"(1) step1 by (simp add: args Let_def)
      from IH [OF this] show ?thesis using nil step2 by (simp add: args)
    next
      case nn: False
      then obtain buf2 where a: "appendArg d (buf @ pre) a = Inr (Some buf2)"
        and len: "length buf2 + 4 \<le> 10 * MAXQueryStringLength d"
        and rec: "interpolate_loop d rest1 args1' buf2 = Inr (s1, None)"
        using "1.prems"(1) step1
        by (auto simp add: args Let_def split: sum.splits option.splits if_splits)
      from IH [OF rec] show ?thesis using nn step2 a len by (simp add: args)
    qed
  qed
qed

lemma interpolate_loop_overflow:
  "interpolate_loop d q args buf = Inr (s, Some ErrQueryBufferOF) \<Longrightarrow>
   count_list q CHR ''?'' = length args \<Longrightarrow>
   s = [] \<and>
   (\<exists>q1 q2 args1 arg args2 s1 b.
      q = q1 @ CHR ''?'' # q2 \<and> args = args1 @ arg # args2 \<and>
      count_list q1 CHR ''?'' = length args1 \<and>
      interpolate_loop d q1 args1 buf = Inr (s1, None) \<and> arg \<noteq> VNil \<and>
      appendArg d s1 arg = Inr (Some b) \<and> 10 * MAXQueryStringLength d < length b + 4)"
proof (induction q arbitrary: args buf rule: length_induct)
  case (1 q)
  show ?case
  proof (cases "CHR ''?'' \<in> set q")
    case False
    then show ?thesis using "1.prems"(1) by (simp add: interpolate_loop_no_placeholder)
  next
    case True
    define pre where "pre = takeWhile (\<lambda>x. x \<noteq> CHR ''?'') q"
    define rest1 where "rest1 = drop 1 (dropWhile (\<lambda>x. x \<noteq> CHR ''?'') q)"
    have q: "q = pre @ CHR ''?'' # rest1"
      using split_at_placeholder [OF True] by (simp add: pre_def rest1_def)
    have np: "CHR ''?'' \<notin> set pre"
      unfolding pre_def by (metis (mono_tags, lifting) set_takeWhileD)
    have cnt: "count_list q CHR ''?'' = Suc (count_list rest1 CHR ''?'')"
      using count_list_split [OF True] by (simp add: rest1_def)
    then obtain a args' where args: "args = a # args'"
      and cnt1: "count_list rest1 CHR ''?'' = length args'"
      using "1.prems"(2) by (cases args) auto
    have shorter: "length rest1 < length q"
      using arg_cong [OF q, of length] by simp
    note IH = "1.IH" [rule_format, OF shorter _ cnt1]
    note step = interpolate_loop_step [OF True, of d a args' buf, folded pre_def rest1_def]
    have pre0: "interpolate_loop d pre [] buf = Inr (buf @ pre, None)"
      using np by (rule interpolate_loop_no_placeholder)
    have cpre: "count_list pre CHR ''?'' = 0" using np by (simp add: count_list_0)
    show ?thesis
    proof (cases "a = VNil")
      case nil: True
      then have "interpolate_loop d rest1 args' ((buf @ pre) @ ''NULL'') = Inr (s, Some ErrQueryBufferOF)"
        using "1.prems"(1) step by (simp add: args Let_def)
      from IH [OF this] obtain q1 q2 args1 arg args2 s1 b where
        s: "s = []" and r: "rest1 = q1 @ CHR ''?'' # q2" "args' = args1 @ arg # args2"
        "count_list q1 CHR ''?'' = length args1"
        "interpolate_loop d q1 args1 ((buf @ pre) @ ''NULL'') = Inr (s1, None)" "arg \<noteq> VNil"
        "appendArg d s1 arg = Inr (Some b)" "10 * MAXQueryStringLength d < length b + 4"
        by blast
      have m: "CHR ''?'' \<in> set (pre @ CHR ''?'' # q1)" by simp
      have l: "interpolate_loop d (pre @ CHR ''?'' # q1) (VNil # args1) buf = Inr (s1, None)"
        using r(4)
        by (simp add: interpolate_loop_step [OF m] takeWhile_before [OF np] dropWhile_before [OF np])
      have c: "count_list (pre @ CHR ''?'' # q1) CHR ''?'' = length (VNil # args1)"
        using r(3) cpre by simp
      have "q = (pre @ CHR ''?'' # q1) @ CHR ''?'' # q2" by (subst q) (simp add: r(1))
      moreover have "args = (VNil # args1) @ arg # args2" by (simp add: args nil r(2))
      ultimately show ?thesis using s l c r(5,6,7) by blast
    next
      case nn: False
      then obtain buf2 where a: "appendArg d (buf @ pre) a = Inr (Some buf2)"
        using "1.prems"(1) step
        by (auto simp add: args Let_def split: sum.splits option.splits if_splits)
      show ?thesis
      proof (cases "10 * MAXQueryStringLength d < length buf2 + 4")
        case True
        then have "s = []" using "1.prems"(1) step nn a by (simp add: args Let_def)
        moreover have "args = [] @ a # args'" by (simp add: args)
        ultimately show ?thesis using q pre0 cpre nn a True by (metis list.size(3))
      next
        case False
        then have rec: "interpolate_loop d rest1 args' buf2 = Inr (s, Some ErrQueryBufferOF)"
          using "1.prems"(1) step nn a by (simp add: args Let_def)
        from IH [OF this] obtain q1 q2 args1 arg args2 s1 b where
          s: "s = []" and r: "rest1 = q1 @ CHR ''?'' # q2" "args' = args1 @ arg # args2"
          "count_list q1 CHR ''?'' = length args1"
          "interpolate_loop d q1 args1 buf2 = Inr (s1, None)" "arg \<noteq> VNil"
          "appendArg d s1 arg = Inr (Some b)" "10 * MAXQueryStringLength d < length b + 4"
          by blast
        have m: "CHR ''?'' \<in> set (pre @ CHR ''?'' # q1)" by simp
        have l: "interpolate_loop d (pre @ CHR ''?'' # q1) (a # args1) buf = Inr (s1, None)"
          using r(4) nn a False
          by (simp add: interpolate_loop_step [OF m] takeWhile_before [OF np] dropWhile_before [OF np])
        have c: "count_list (pre @ CHR ''?'' # q1) CHR ''?'' = length (a # args1)"
          using r(3) cpre by simp
        have "q = (pre @ CHR ''?'' # q1) @ CHR ''?'' # q2" by (subst q) (simp add: r(1))
        moreover have "args = (a # args1) @ arg # args2" by (simp add: args r(2))
        ultimately show ?thesis using s l c r(5,6,7) by blast
      qed
    qed
  qed
qed

lemmas dec_eval = FormatInt_def FormatUint_def dec_int_def dec_nat.simps digit_char_def
  pad_nat_def appendInt_def

lemmas interpolate_eval = interpolateParams_def interpolate_loop_step
  interpolate_loop_no_placeholder appendArg_def Let_def

lemmas time_eval = Year_def Month_def Day_def Hour_def Minute_def Second_def Nanosecond_def
  Date_def year_yday_def month_lengths_def isLeap_def local_sec_def Add_ns_def In_UTC_def IsZero_def

lemma interpolateParams_one:
  "interpolateParams d ''?'' [arg] =
     (if arg = VNil then Inr (''NULL'', None)
      else (case appendArg d [] arg of
              Inl p \<Rightarrow> Inl p
            | Inr None \<Rightarrow> Inr ([], Some ErrQueryUnknownType)
            | Inr (Some b) \<Rightarrow>
                if length b + 4 > 10 * MAXQueryStringLength d
                then Inr ([], Some ErrQueryBufferOF)
                else Inr (b, None)))"
  by (simp add: interpolateParams_def interpolate_loop_at_placeholder
      interpolate_loop.simps [of _ "[]"] split: sum.splits option.splits)

lemma appendArg_fragment:
  assumes "arg \<noteq> VNil" and "arg \<noteq> VOther" and "\<forall>v. arg \<noteq> VBytes v \<and> arg \<noteq> VString v"
    and "\<forall>t. arg = VTime t \<longrightarrow>
           IsZero t \<or> (0 \<le> Year (Add_ns (In_UTC t) 500) \<and> Year (Add_ns (In_UTC t) 500) < 10000)"
  shows "appendArg d buf arg = Inr (Some (buf @ execution_fragment d arg))"
  using assms
  by (cases arg) (simp_all add: appendArg_def appendTime_eq FormatInt_def FormatUint_def)

text \<open>
  Claim C3 says that \<open>buildExecutionParams\<close> follows the rules of \<open>interpolateParams\<close>
  but for the quotes around byte sequences and texts. As stated it is false: for these
  two types it leaves out the escaping and the \<open>_binary\<close> in front as well. For the text
  \<open>a'b\<close> and the bytes \<open>ab\<close> it returns \<open>a'b\<close> and \<open>ab\<close>, where the rules of
  interpolation without the quotes give the text with a backslash in front of the
  apostrophe, and \<open>_binaryab\<close>.
\<close>

theorem byte_text_fragment_counterexample:
  "buildExecutionParams test_deps [VString [CHR ''a'', squote, CHR ''b''], VBytes ''ab'']
     = ([[CHR ''a'', squote, CHR ''b''], ''ab''], None) \<and>
   map (spec_fragment test_deps) [VString [CHR ''a'', squote, CHR ''b''], VBytes ''ab'']
     = [[CHR ''a'', CHR 0x5C, squote, CHR ''b''], ''_binaryab''] \<and>
   interpolateParams test_deps ''?'' [VString [CHR ''a'', squote, CHR ''b'']]
     = Inr ([squote, CHR ''a'', CHR 0x5C, squote, CHR ''b'', squote], None) \<and>
   interpolateParams test_deps ''?'' [VBytes ''ab'']
     = Inr (''_binary'' @ [squote] @ ''ab'' @ [squote], None)"
  by (simp add: buildExecutionParams_eq interpolateParams_one appendArg_def test_deps_def
      test_escape_def escape_byte_def)

text \<open>
  Claim C3, amended. For arguments of supported types, \<open>buildExecutionParams\<close> returns
  one text for each argument: \<open>NULL\<close> for nil, decimal text for \<open>int64\<close> and \<open>uint64\<close>,
  the standard library's shortest decimal text for \<open>float64\<close>, \<open>1\<close> or \<open>0\<close> for
  \<open>bool\<close>, the timestamp rule for \<open>time.Time\<close>, and a byte sequence or a text as it
  is, with no quotes, no escaping and no \<open>_binary\<close>. If an argument is of another type,
  it fails with \<open>ErrQueryUnknownType\<close>. For every type other than byte sequences and
  texts these are the rules of the specification, and what the type switch of
  \<open>interpolateParams\<close> appends, except for a time whose year is not from 0 to 9999,
  where it panics. A byte sequence and a text \<open>interpolateParams\<close> escapes and quotes.
\<close>

theorem buildExecutionParams_rules:
  "(VOther \<notin> set args \<longrightarrow> buildExecutionParams d args = (map (execution_fragment d) args, None)) \<and>
   (VOther \<in> set args \<longrightarrow> buildExecutionParams d args = ([], Some ErrQueryUnknownType)) \<and>
   execution_fragment d (VBytes v) = v \<and> execution_fragment d (VString v) = v \<and>
   ((\<forall>v. arg \<noteq> VBytes v \<and> arg \<noteq> VString v) \<longrightarrow>
      execution_fragment d arg = spec_fragment d arg) \<and>
   (arg \<noteq> VNil \<and> arg \<noteq> VOther \<and> (\<forall>v. arg \<noteq> VBytes v \<and> arg \<noteq> VString v) \<and>
    (\<forall>t. arg = VTime t \<longrightarrow>
       IsZero t \<or> (0 \<le> Year (Add_ns (In_UTC t) 500) \<and> Year (Add_ns (In_UTC t) 500) < 10000)) \<longrightarrow>
      appendArg d buf arg = Inr (Some (buf @ execution_fragment d arg))) \<and>
   (\<not> IsZero t \<and> \<not> (0 \<le> Year (Add_ns (In_UTC t) 500) \<and> Year (Add_ns (In_UTC t) 500) < 10000) \<longrightarrow>
      appendArg d buf (VTime t) = Inl IndexOutOfRange) \<and>
   interpolateParams d ''?'' [VNil] = Inr (execution_fragment d VNil, None) \<and>
   appendArg d buf (VBytes v)
     = Inr (Some (escapeBytesBackslash d (buf @ ''_binary'' @ [squote]) v @ [squote])) \<and>
   appendArg d buf (VString v) = Inr (Some (escapeStringBackslash d (buf @ [squote]) v @ [squote]))"
proof -
  have "execution_fragment d arg = spec_fragment d arg"
    if "\<forall>v. arg \<noteq> VBytes v \<and> arg \<noteq> VString v"
    using that by (cases arg) simp_all
  moreover have "appendArg d buf arg = Inr (Some (buf @ execution_fragment d arg))"
    if "arg \<noteq> VNil \<and> arg \<noteq> VOther \<and> (\<forall>v. arg \<noteq> VBytes v \<and> arg \<noteq> VString v) \<and>
        (\<forall>t. arg = VTime t \<longrightarrow>
           IsZero t \<or> (0 \<le> Year (Add_ns (In_UTC t) 500) \<and> Year (Add_ns (In_UTC t) 500) < 10000))"
    using that by (intro appendArg_fragment) simp_all
  moreover have "appendArg d buf (VTime t) = Inl IndexOutOfRange"
    if "\<not> IsZero t \<and> \<not> (0 \<le> Year (Add_ns (In_UTC t) 500) \<and> Year (Add_ns (In_UTC t) 500) < 10000)"
    using that by (simp add: appendArg_def appendTime_eq)
  moreover have "interpolateParams d ''?'' [VNil] = Inr (execution_fragment d VNil, None)"
    by (simp add: interpolateParams_one)
  ultimately show ?thesis
    by (simp add: buildExecutionParams_eq appendArg_def)
qed

text \<open>
  Claim C3, amended, at arguments of each kind, at an argument of an unsupported type, at
  the zero time, and at the last second of the year -1.
\<close>

theorem buildExecutionParams_rules_witness:
  "buildExecutionParams test_deps
     [VNil, VInt64 (- 3), VUint64 7, VBool True, VBool False,
      VTime \<lparr>t_sec = 0, t_nsec = 0, t_offset = 0\<rparr>,
      VBytes [CHR ''a'', squote, CHR ''b''], VString [CHR ''c'', squote, CHR ''d'']]
     = ([''NULL'', ''-3'', ''7'', ''1'', ''0'', squote # ''0000-00-00'' @ [squote],
         [CHR ''a'', squote, CHR ''b''], [CHR ''c'', squote, CHR ''d'']], None) \<and>
   buildExecutionParams test_deps [VInt64 1, VOther] = ([], Some ErrQueryUnknownType) \<and>
   appendArg test_deps ''a = '' (VInt64 (- 3)) = Inr (Some ''a = -3'') \<and>
   appendArg test_deps ''a = '' (VTime \<lparr>t_sec = 0, t_nsec = 0, t_offset = 0\<rparr>)
     = Inr (Some (''a = '' @ squote # ''0000-00-00'' @ [squote])) \<and>
   \<not> IsZero \<lparr>t_sec = - 31622401, t_nsec = 0, t_offset = 0\<rparr> \<and>
   Year (Add_ns (In_UTC \<lparr>t_sec = - 31622401, t_nsec = 0, t_offset = 0\<rparr>) 500) = - 1 \<and>
   appendArg test_deps ''a = '' (VTime \<lparr>t_sec = - 31622401, t_nsec = 0, t_offset = 0\<rparr>)
     = Inl IndexOutOfRange"
proof -
  have z: "IsZero \<lparr>t_sec = 0, t_nsec = 0, t_offset = 0\<rparr>" by (simp add: IsZero_def)
  have s: "spec_timestamp \<lparr>t_sec = 0, t_nsec = 0, t_offset = 0\<rparr> = squote # ''0000-00-00'' @ [squote]"
    by (simp add: spec_timestamp_def z)
  have n: "\<not> IsZero \<lparr>t_sec = - 31622401, t_nsec = 0, t_offset = 0\<rparr>" by (simp add: IsZero_def)
  have y: "Year (Add_ns (In_UTC \<lparr>t_sec = - 31622401, t_nsec = 0, t_offset = 0\<rparr>) 500) = - 1"
    by (simp add: time_eval)
  from buildExecutionParams_rules [of
      "[VNil, VInt64 (- 3), VUint64 7, VBool True, VBool False,
        VTime \<lparr>t_sec = 0, t_nsec = 0, t_offset = 0\<rparr>,
        VBytes [CHR ''a'', squote, CHR ''b''], VString [CHR ''c'', squote, CHR ''d'']]"
      test_deps]
  have a: "buildExecutionParams test_deps
     [VNil, VInt64 (- 3), VUint64 7, VBool True, VBool False,
      VTime \<lparr>t_sec = 0, t_nsec = 0, t_offset = 0\<rparr>,
      VBytes [CHR ''a'', squote, CHR ''b''], VString [CHR ''c'', squote, CHR ''d'']]
     = ([''NULL'', ''-3'', ''7'', ''1'', ''0'', squote # ''0000-00-00'' @ [squote],
         [CHR ''a'', squote, CHR ''b''], [CHR ''c'', squote, CHR ''d'']], None)"
    by (simp add: dec_eval s)
  from buildExecutionParams_rules [of "[VInt64 1, VOther]" test_deps]
  have b: "buildExecutionParams test_deps [VInt64 1, VOther] = ([], Some ErrQueryUnknownType)"
    by simp
  from buildExecutionParams_rules [of _ test_deps _ "VInt64 (- 3)" "''a = ''"]
  have c: "appendArg test_deps ''a = '' (VInt64 (- 3)) = Inr (Some ''a = -3'')"
    by (simp add: dec_eval)
  from buildExecutionParams_rules [of _ test_deps _ "VTime \<lparr>t_sec = 0, t_nsec = 0, t_offset = 0\<rparr>"
      "''a = ''"] z
  have d: "appendArg test_deps ''a = '' (VTime \<lparr>t_sec = 0, t_nsec = 0, t_offset = 0\<rparr>)
     = Inr (Some (''a = '' @ squote # ''0000-00-00'' @ [squote]))"
    by (simp add: s)
  from buildExecutionParams_rules [of _ test_deps _ _ "''a = ''"
      "\<lparr>t_sec = - 31622401, t_nsec = 0, t_offset = 0\<rparr>"] n y
  have e: "appendArg test_deps ''a = '' (VTime \<lparr>t_sec = - 31622401, t_nsec = 0, t_offset = 0\<rparr>)
     = Inl IndexOutOfRange"
    by simp
  show ?thesis by (intro conjI a b c d n y e)
qed

lemma count_list_replicate_other: "x \<noteq> c \<Longrightarrow> count_list (replicate n x) c = 0"
  by (induction n) auto

lemma interpolateParams_tail_unchecked:
  assumes "CHR ''?'' \<notin> set tail" and "5 \<le> 10 * MAXQueryStringLength d"
  shows "interpolateParams d (CHR ''?'' # tail) [VBool True] = Inr (CHR ''1'' # tail, None)"
proof -
  have "count_list tail CHR ''?'' = 0" using assms(1) by (simp add: count_list_0)
  then show ?thesis using assms
    by (simp add: interpolateParams_def interpolate_loop_step interpolate_loop_no_placeholder
        appendArg_def)
qed

lemma buildExecutionParams_text_unchecked:
  "buildExecutionParams d [VString v] = ([v], None)"
  by (simp add: buildExecutionParams_def execution_literal_def)

text \<open>
  Claim C1 says that both operations fail with \<open>ErrQueryBufferOF\<close> rather than return
  more than 10 times \<open>MAXQueryStringLength\<close>. As stated it is false:
  \<open>buildExecutionParams\<close> has no such guard and returns a text of 2621441 bytes when the
  bound is 2621440; \<open>interpolateParams\<close> looks at the length only after it has written
  an argument that is not nil, and returns the 2621441 bytes of query text behind the last
  placeholder unchecked.
\<close>

theorem growth_guard_counterexample:
  "buildExecutionParams test_deps [VString (replicate 2621441 CHR ''a'')]
     = ([replicate 2621441 CHR ''a''], None) \<and>
   10 * MAXQueryStringLength test_deps < length (replicate 2621441 CHR ''a'') \<and>
   interpolateParams test_deps (CHR ''?'' # replicate 2621441 CHR ''a'') [VBool True]
     = Inr (CHR ''1'' # replicate 2621441 CHR ''a'', None) \<and>
   10 * MAXQueryStringLength test_deps < length (CHR ''1'' # replicate 2621441 CHR ''a'')"
proof -
  have "CHR ''?'' \<notin> set (replicate 2621441 CHR ''a'')" by simp
  moreover have "5 \<le> 10 * MAXQueryStringLength test_deps" by (simp add: test_deps_def)
  ultimately have "interpolateParams test_deps (CHR ''?'' # replicate 2621441 CHR ''a'') [VBool True]
     = Inr (CHR ''1'' # replicate 2621441 CHR ''a'', None)"
    by (rule interpolateParams_tail_unchecked)
  then show ?thesis
    by (simp add: buildExecutionParams_text_unchecked test_deps_def)
qed

lemma interpolateParams_overflow_iff:
  "interpolateParams d query args = Inr (s, Some ErrQueryBufferOF) \<longleftrightarrow>
     s = [] \<and>
     (\<exists>q1 q2 args1 arg args2 s1 b.
        query = q1 @ CHR ''?'' # q2 \<and> args = args1 @ arg # args2 \<and>
        count_list q2 CHR ''?'' = length args2 \<and>
        interpolateParams d q1 args1 = Inr (s1, None) \<and> arg \<noteq> VNil \<and>
        appendArg d s1 arg = Inr (Some b) \<and> 10 * MAXQueryStringLength d < length b + 4)"
  (is "?L \<longleftrightarrow> ?R")
proof
  assume l: ?L
  then have c: "count_list query CHR ''?'' = length args"
    and i: "interpolate_loop d query args [] = Inr (s, Some ErrQueryBufferOF)"
    by (auto simp add: interpolateParams_def split: if_splits)
  from interpolate_loop_overflow [OF i c] obtain q1 q2 args1 arg args2 s1 b where
    s: "s = []" and r: "query = q1 @ CHR ''?'' # q2" "args = args1 @ arg # args2"
    "count_list q1 CHR ''?'' = length args1"
    "interpolate_loop d q1 args1 [] = Inr (s1, None)" "arg \<noteq> VNil"
    "appendArg d s1 arg = Inr (Some b)" "10 * MAXQueryStringLength d < length b + 4"
    by blast
  have "count_list q2 CHR ''?'' = length args2" using c r(3) by (simp add: r(1,2))
  moreover have "interpolateParams d q1 args1 = Inr (s1, None)"
    using r(3,4) by (simp add: interpolateParams_def)
  ultimately show ?R using s r(1,2,5,6,7) by blast
next
  assume ?R
  then obtain q1 q2 args1 arg args2 s1 b where
    s: "s = []" and r: "query = q1 @ CHR ''?'' # q2" "args = args1 @ arg # args2"
    "count_list q2 CHR ''?'' = length args2"
    "interpolateParams d q1 args1 = Inr (s1, None)" "arg \<noteq> VNil"
    "appendArg d s1 arg = Inr (Some b)" "10 * MAXQueryStringLength d < length b + 4"
    by blast
  from r(4) have c1: "count_list q1 CHR ''?'' = length args1"
    and i1: "interpolate_loop d q1 args1 [] = Inr (s1, None)"
    by (auto simp add: interpolateParams_def split: if_splits)
  have c: "count_list query CHR ''?'' = length args" using c1 r(3) by (simp add: r(1,2))
  have "interpolate_loop d query args [] = Inr ([], Some ErrQueryBufferOF)"
    unfolding r(1,2) interpolate_loop_append [OF i1 c1]
    using r(5,6,7) by (simp add: interpolate_loop_at_placeholder)
  with c s show ?L by (simp add: interpolateParams_def)
qed

lemma execution_fragment_no_guard:
  "execution_fragment (d\<lparr>MAXQueryStringLength := m\<rparr>) arg = execution_fragment d arg"
  by (cases arg) simp_all

lemma buildExecutionParams_no_guard:
  "buildExecutionParams (d\<lparr>MAXQueryStringLength := m\<rparr>) args = buildExecutionParams d args"
  "snd (buildExecutionParams d args) \<noteq> Some ErrQueryBufferOF"
  by (simp_all add: buildExecutionParams_eq execution_fragment_no_guard)

text \<open>
  Claim C1, amended. \<open>interpolateParams\<close> looks at the length right after it has written
  an argument that is not nil, and only there. It fails with \<open>ErrQueryBufferOF\<close>, and
  returns the empty string, exactly when for some placeholder the query before it is
  interpolated without an error, its argument is not nil, and the buffer with the literal
  of the argument, plus 4, is longer than 10 times \<open>MAXQueryStringLength\<close>. So every
  string that it returns without an error is a part \<open>p\<close> that ends with the literal of
  the last argument that is not nil, at most 10 times \<open>MAXQueryStringLength\<close> less 4
  bytes long, followed by the query text behind that argument's placeholder, with \<open>NULL\<close>
  for each placeholder left; when all arguments are nil, nothing is bounded.
  \<open>buildExecutionParams\<close> has no guard: what it returns does not depend on
  \<open>MAXQueryStringLength\<close>, it never fails with \<open>ErrQueryBufferOF\<close>, and it returns a
  text of any length as it is.
\<close>

theorem interpolateParams_guard:
  "(interpolateParams d query args = Inr (s, None) \<longrightarrow>
      (\<exists>p. s = p @ null_fill (after_placeholders (checked_args args) query) \<and>
           (0 < checked_args args \<longrightarrow> length p + 4 \<le> 10 * MAXQueryStringLength d))) \<and>
   (interpolateParams d query args = Inr (s, Some ErrQueryBufferOF) \<longleftrightarrow>
      s = [] \<and>
      (\<exists>q1 q2 args1 arg args2 s1 b.
         query = q1 @ CHR ''?'' # q2 \<and> args = args1 @ arg # args2 \<and>
         count_list q2 CHR ''?'' = length args2 \<and>
         interpolateParams d q1 args1 = Inr (s1, None) \<and> arg \<noteq> VNil \<and>
         appendArg d s1 arg = Inr (Some b) \<and> 10 * MAXQueryStringLength d < length b + 4)) \<and>
   buildExecutionParams (d\<lparr>MAXQueryStringLength := m\<rparr>) args = buildExecutionParams d args \<and>
   snd (buildExecutionParams d args) \<noteq> Some ErrQueryBufferOF \<and>
   buildExecutionParams d [VString v] = ([v], None)"
proof -
  have "\<exists>p. s = p @ null_fill (after_placeholders (checked_args args) query) \<and>
           (0 < checked_args args \<longrightarrow> length p + 4 \<le> 10 * MAXQueryStringLength d)"
    if a: "interpolateParams d query args = Inr (s, None)"
  proof -
    from a have c: "count_list query CHR ''?'' = length args"
      and l: "interpolate_loop d query args [] = Inr (s, None)"
      by (auto simp add: interpolateParams_def split: if_splits)
    from interpolate_loop_bound [OF l c] show ?thesis by auto
  qed
  then show ?thesis
    using interpolateParams_overflow_iff [of d query args s] buildExecutionParams_no_guard(1) [where d = d and m = m and args = args]
      buildExecutionParams_no_guard(2) [where d = d and args = args]
      buildExecutionParams_text_unchecked [of d v]
    by blast
qed

text \<open>
  Claim C1, amended, at a query with two placeholders, the second one for nil, and at a
  query of 2621436 bytes before its placeholder, where the literal \<open>1\<close> makes the buffer,
  plus 4, one byte longer than the 2621440 allowed.
\<close>

theorem interpolateParams_guard_witness:
  "interpolateParams test_deps ''select ?, ? from t'' [VInt64 (- 5), VNil]
     = Inr (''select -5, NULL from t'', None) \<and>
   (\<exists>p. ''select -5, NULL from t'' = p @ '', NULL from t'' \<and> length p + 4 \<le> 2621440) \<and>
   interpolateParams test_deps (replicate 2621436 CHR ''a'') []
     = Inr (replicate 2621436 CHR ''a'', None) \<and>
   appendArg test_deps (replicate 2621436 CHR ''a'') (VBool True)
     = Inr (Some (replicate 2621436 CHR ''a'' @ ''1'')) \<and>
   10 * MAXQueryStringLength test_deps < length (replicate 2621436 CHR ''a'' @ ''1'') + 4 \<and>
   interpolateParams test_deps (replicate 2621436 CHR ''a'' @ ''?'') [VBool True]
     = Inr ([], Some ErrQueryBufferOF)"
proof -
  have r: "interpolateParams test_deps ''select ?, ? from t'' [VInt64 (- 5), VNil]
     = Inr (''select -5, NULL from t'', None)"
    by (simp add: interpolate_eval dec_eval test_deps_def)
  have m: "MAXQueryStringLength test_deps = 262144" by (simp add: test_deps_def)
  from interpolateParams_guard [of test_deps "''select ?, ? from t''" "[VInt64 (- 5), VNil]"
      "''select -5, NULL from t''"] r
  have b: "\<exists>p. ''select -5, NULL from t'' = p @ '', NULL from t'' \<and> length p + 4 \<le> 2621440"
    by (simp add: m null_fill_def)
  define pre where "pre = replicate 2621436 CHR ''a''"
  have np: "CHR ''?'' \<notin> set pre" by (simp add: pre_def)
  have i: "interpolateParams test_deps pre [] = Inr (pre, None)"
    using np by (simp add: interpolateParams_def interpolate_loop_no_placeholder count_list_0)
  have a: "appendArg test_deps pre (VBool True) = Inr (Some (pre @ ''1''))"
    by (simp add: appendArg_def)
  have l: "10 * MAXQueryStringLength test_deps < length (pre @ ''1'') + 4"
    by (simp add: m pre_def)
  have "\<exists>q1 q2 args1 arg args2 s1 b.
         pre @ ''?'' = q1 @ CHR ''?'' # q2 \<and> [VBool True] = args1 @ arg # args2 \<and>
         count_list q2 CHR ''?'' = length args2 \<and>
         interpolateParams test_deps q1 args1 = Inr (s1, None) \<and> arg \<noteq> VNil \<and>
         appendArg test_deps s1 arg = Inr (Some b) \<and>
         10 * MAXQueryStringLength test_deps < length b + 4"
    using i a l
    by (intro exI [of _ pre] exI [of _ "[]"] exI [of _ "VBool True"] exI [of _ "pre @ ''1''"]) simp
  with interpolateParams_guard [of test_deps "pre @ ''?''" "[VBool True]" "[]"]
  have g: "interpolateParams test_deps (pre @ ''?'') [VBool True] = Inr ([], Some ErrQueryBufferOF)"
    by blast
  show ?thesis by (intro conjI r b i [unfolded pre_def] a [unfolded pre_def] l [unfolded pre_def] g [unfolded pre_def])
qed

text \<open>
  The timestamp rule holds for \<open>interpolateParams\<close> when the year, after rounding and
  in UTC, is from 0 to 9999.
\<close>

lemma interpolateParams_time:
  assumes "IsZero v \<or> (0 \<le> Year (Add_ns (In_UTC v) 500) \<and> Year (Add_ns (In_UTC v) 500) < 10000)"
    and "length (spec_timestamp v) + 4 \<le> 10 * MAXQueryStringLength d"
  shows "interpolateParams d ''?'' [VTime v] = Inr (spec_timestamp v, None)"
  using assms by (simp add: interpolate_eval appendTime_eq interpolate_loop.simps [of _ "[]"])

text \<open>
  Claim C6 says that interpolation renders every \<open>time.Time\<close> by the timestamp rule.
  \<open>buildExecutionParams\<close> does (\<open>execution_time_literal_spec\<close>), and so does
  \<open>interpolateParams\<close> for the years from 0 to 9999 (\<open>appendTime_eq\<close>). For a year
  outside, \<open>interpolateParams\<close> indexes the tables of digits out of range and panics:
  at midnight of January 1 of the year 10000, where \<open>buildExecutionParams\<close> returns the
  literal, and at the last second of the year -1.
\<close>

theorem interpolateParams_time_out_of_range:
  "interpolateParams test_deps ''?'' [VTime \<lparr>t_sec = 315537897600, t_nsec = 0, t_offset = 0\<rparr>]
     = Inl IndexOutOfRange \<and>
   interpolateParams test_deps ''?'' [VTime \<lparr>t_sec = - 31622401, t_nsec = 0, t_offset = 0\<rparr>]
     = Inl IndexOutOfRange \<and>
   buildExecutionParams test_deps [VTime \<lparr>t_sec = 315537897600, t_nsec = 0, t_offset = 0\<rparr>]
     = ([squote # ''10000-01-01 00:00:00'' @ [squote]], None)"
proof -
  define u where "u = Add_ns (In_UTC \<lparr>t_sec = 315537897600, t_nsec = 0, t_offset = 0\<rparr>) 500"
  have u: "u = \<lparr>t_sec = 315537897600, t_nsec = 500, t_offset = 0\<rparr>"
    by (simp add: u_def Add_ns_def In_UTC_def)
  have f: "Year u = 10000" "Month u = 1" "Day u = 1" "Hour u = 0" "Minute u = 0" "Second u = 0"
    "Nanosecond u = 500"
    by (simp_all add: u time_eval)
  have z: "\<not> IsZero \<lparr>t_sec = 315537897600, t_nsec = 0, t_offset = 0\<rparr>"
    by (simp add: IsZero_def)
  have d: "appendInt 10000 4 = ''10000''" "appendInt 1 2 = ''01''" "appendInt 0 2 = ''00''"
    by (simp_all add: dec_eval)
  have "spec_timestamp \<lparr>t_sec = 315537897600, t_nsec = 0, t_offset = 0\<rparr>
      = squote # ''10000-01-01 00:00:00'' @ [squote]"
    by (simp add: spec_timestamp_def z u_def [symmetric] f d)
  then have "buildExecutionParams test_deps [VTime \<lparr>t_sec = 315537897600, t_nsec = 0, t_offset = 0\<rparr>]
     = ([squote # ''10000-01-01 00:00:00'' @ [squote]], None)"
    by (simp add: buildExecutionParams_eq)
  moreover have "interpolateParams test_deps ''?'' [VTime \<lparr>t_sec = 315537897600, t_nsec = 0, t_offset = 0\<rparr>]
     = Inl IndexOutOfRange"
    by (simp add: interpolate_eval appendTime_eq time_eval)
  moreover have "interpolateParams test_deps ''?'' [VTime \<lparr>t_sec = - 31622401, t_nsec = 0, t_offset = 0\<rparr>]
     = Inl IndexOutOfRange"
    by (simp add: interpolate_eval appendTime_eq time_eval)
  ultimately show ?thesis by simp
qed

section \<open>Properties of QueryContext\<close>

lemma new_calls_same [simp]: "new_calls w w = []"
  by (simp add: new_calls_def)

lemma new_calls_append: "calls w' = calls w @ cs \<Longrightarrow> new_calls w w' = cs"
  by (simp add: new_calls_def)

lemma calls_remote [simp]: "calls (remote c w) = calls w @ [c]"
  by (simp add: remote_def)

lemma getWG_calls:
  "getWG e w name = (r, w1) \<Longrightarrow> \<exists>cs. calls w1 = calls w @ cs \<and> (\<forall>c \<in> set cs. is_workgroup_call c)"
  by (auto simp add: getWG_def Let_def split: option.splits prod.splits if_splits)

lemma resolve_workgroup_calls:
  assumes "resolve_workgroup e cfg w = (r, w1)"
  shows "\<exists>cs. calls w1 = calls w @ cs \<and> (\<forall>c \<in> set cs. is_workgroup_call c)"
proof -
  obtain g wg where g: "getWG e w (GetWorkgroup_Name cfg) = (g, wg)" by force
  from getWG_calls [OF g] obtain cs where cs: "calls wg = calls w @ cs" "\<forall>c \<in> set cs. is_workgroup_call c"
    by blast
  show ?thesis
    using assms cs
    by (auto simp add: resolve_workgroup_def Let_def g CreateWGRemotely_def
        split: if_splits sum.splits option.splits prod.splits)
qed

lemma check_and_resolve_Inr:
  assumes "check_and_resolve e cfg w pc query qwp args = (Inr p, w1)"
  shows "p_pseudoCommand p = pc \<and> p_queryWithPlaceholders p = qwp \<and> p_args p = args \<and>
         (\<exists>cs. calls w1 = calls w @ cs \<and> (\<forall>c \<in> set cs. is_workgroup_call c))"
proof -
  obtain r wr where r: "resolve_workgroup e cfg w = (r, wr)" by force
  from resolve_workgroup_calls [OF r] obtain cs where
    cs: "calls wr = calls w @ cs" "\<forall>c \<in> set cs. is_workgroup_call c" by blast
  show ?thesis
    using assms cs
    by (auto simp add: check_and_resolve_def r split: if_splits sum.splits prod.splits)
qed

lemma interpolate_and_check_Inr:
  assumes "interpolate_and_check e cfg w pc query args = (Inr p, w1)"
  shows "p_pseudoCommand p = pc \<and> p_queryWithPlaceholders p = query \<and> p_args p = args \<and>
         (\<exists>cs. calls w1 = calls w @ cs \<and> (\<forall>c \<in> set cs. is_workgroup_call c))"
  using assms
  by (auto simp add: interpolate_and_check_def Let_def
      split: if_splits sum.splits prod.splits option.splits dest!: check_and_resolve_Inr)

lemma prepare_Inr:
  assumes "prepare e cfg w query args = (Inr p, w1)"
  shows "(\<exists>q. strip_pseudo_command query = PCParsed (p_pseudoCommand p) q \<and>
              p_queryWithPlaceholders p = q) \<and> p_args p = args \<and>
         (\<exists>cs. calls w1 = calls w @ cs \<and> (\<forall>c \<in> set cs. is_workgroup_call c))"
  using assms
  by (auto simp add: prepare_def split: parsed.splits if_splits dest!: interpolate_and_check_Inr)

lemma poll_once_keeps:
  "keeps_polling e cfg queryID n \<Longrightarrow>
     poll_once e cfg w queryID n = Inr (remote (CallGetQueryExecution queryID) w)"
  by (auto simp add: keeps_polling_def polled_def poll_once_def non_terminal_def Let_def
      split: option.splits prod.splits QueryExecutionState.splits)

lemma polling_until_less: "polling_until e cfg queryID n \<Longrightarrow> j < n \<Longrightarrow> keeps_polling e cfg queryID j"
  by (induction n) (auto simp add: less_Suc_eq)

text \<open>
  While every poll goes on, the loop only adds polls to the log: after \<open>k\<close> polls from
  poll \<open>m\<close> it stands at poll \<open>m + k\<close>.
\<close>

lemma WAITING_FOR_RESULT_skip:
  "(\<And>j. j < k \<Longrightarrow> keeps_polling e cfg queryID (m + j)) \<Longrightarrow>
     WAITING_FOR_RESULT (k + fuel) e cfg w queryID m =
     WAITING_FOR_RESULT fuel e cfg (w\<lparr>calls := calls w @ replicate k (CallGetQueryExecution queryID)\<rparr>)
       queryID (m + k)"
proof (induction k arbitrary: w m)
  case 0
  then show ?case by simp
next
  case (Suc k)
  have first: "keeps_polling e cfg queryID m" using Suc.prems [of 0] by simp
  have rest: "\<And>j. j < k \<Longrightarrow> keeps_polling e cfg queryID (Suc m + j)"
    using Suc.prems by (metis Suc_less_eq add_Suc_shift)
  show ?case
    using Suc.IH [OF rest, of "remote (CallGetQueryExecution queryID) w"]
    by (simp add: poll_once_keeps [OF first] remote_def replicate_append_same)
qed

lemma WAITING_FOR_RESULT_at:
  assumes "polling_until e cfg queryID n" and "n < fuel"
  shows "WAITING_FOR_RESULT fuel e cfg w queryID 0 =
     (case poll_once e cfg (w\<lparr>calls := calls w @ replicate n (CallGetQueryExecution queryID)\<rparr>)
             queryID n of
        Inl r \<Rightarrow> Some r
      | Inr w1 \<Rightarrow> WAITING_FOR_RESULT (fuel - Suc n) e cfg w1 queryID (Suc n))"
proof -
  from assms(2) obtain f where f: "fuel = n + Suc f" by (metis add_Suc_right less_iff_Suc_add)
  have "\<And>j. j < n \<Longrightarrow> keeps_polling e cfg queryID (0 + j)"
    using polling_until_less [OF assms(1)] by simp
  from WAITING_FOR_RESULT_skip [OF this, of n "Suc f" w] show ?thesis
    unfolding f by (simp cong: sum.case_cong)
qed

text \<open>What a call that gets as far as the poll loop returns.\<close>

lemma QueryContext_polling:
  assumes "prepare e cfg w query namedArgs = (Inr p, w1)"
    and "submit e cfg w1 p = (Inr queryID, w2)"
  shows "QueryContext fuel e cfg w query namedArgs = WAITING_FOR_RESULT fuel e cfg w2 queryID 0"
  using assms by (simp add: QueryContext_def)

lemma submit_Inr:
  assumes "submit e cfg w1 p = (Inr queryID, w2)"
  shows "\<exists>input. calls w2 = calls w1 @ [CallStartQueryExecution input]"
  using assms
  by (auto simp add: submit_def Let_def split: prod.splits option.splits if_splits)

lemma polling_calls:
  assumes "prepare e cfg w query namedArgs = (Inr p, w1)"
    and "submit e cfg w1 p = (Inr queryID, w2)"
  shows "\<exists>cs. calls w2 = calls w @ cs \<and> (\<forall>c \<in> set cs. \<not> is_stop_call c)"
proof -
  from prepare_Inr [OF assms(1)] obtain cs where
    cs: "calls w1 = calls w @ cs" "\<forall>c \<in> set cs. is_workgroup_call c" by blast
  from submit_Inr [OF assms(2)] obtain input where
    i: "calls w2 = calls w1 @ [CallStartQueryExecution input]" by blast
  have "\<forall>c \<in> set (cs @ [CallStartQueryExecution input]). \<not> is_stop_call c"
  proof
    fix c assume "c \<in> set (cs @ [CallStartQueryExecution input])"
    then consider "c \<in> set cs" | "c = CallStartQueryExecution input" by auto
    then show "\<not> is_stop_call c"
    proof cases
      case 1
      with cs(2) have "is_workgroup_call c" by blast
      then show ?thesis by (cases c) simp_all
    next
      case 2
      then show ?thesis by simp
    qed
  qed
  with cs(1) i show ?thesis by (intro exI [of _ "cs @ [CallStartQueryExecution input]"]) simp
qed

lemma QueryContext_at_poll:
  assumes "prepare e cfg w query namedArgs = (Inr p, w1)"
    and "submit e cfg w1 p = (Inr queryID, w2)"
    and "polling_until e cfg queryID n" and "n < fuel"
  shows "QueryContext fuel e cfg w query namedArgs =
     (case poll_once e cfg (w2\<lparr>calls := calls w2 @ replicate n (CallGetQueryExecution queryID)\<rparr>)
             queryID n of
        Inl r \<Rightarrow> Some r
      | Inr w3 \<Rightarrow> WAITING_FOR_RESULT (fuel - Suc n) e cfg w3 queryID (Suc n))"
  using QueryContext_polling [OF assms(1,2)] WAITING_FOR_RESULT_at [OF assms(3,4)] by simp

lemma polled_Some:
  assumes "polled e queryID n = Some (st, stt)"
  shows "\<exists>statusResp qe. GetQueryExecution (athenaClient e) n queryID = (Some statusResp, None) \<and>
           QueryExecution statusResp = Some qe \<and> Status qe = Some st \<and> StatementType qe = stt"
  using assms by (auto simp add: polled_def split: prod.splits option.splits)

lemma poll_once_cancel:
  assumes "polled e queryID n = Some (st, stt)" and "non_terminal (State st)"
    and "Done_received (ctx e) n"
  shows "\<exists>w' cs. poll_once e cfg w queryID n =
            Inl (Inr (None, Some (case StopQueryExecution (athenaClient e) queryID of
                                    None \<Rightarrow> ctx_Err (ctx e) | Some err \<Rightarrow> err)), w') \<and>
          calls w' = calls w @ cs \<and>
          filter is_stop_call cs = [CallStopQueryExecution queryID]"
proof -
  from polled_Some [OF assms(1)] obtain statusResp qe where
    g: "GetQueryExecution (athenaClient e) n queryID = (Some statusResp, None)"
      "QueryExecution statusResp = Some qe" "Status qe = Some st" by blast
  show ?thesis
    using assms(2,3)
    by (cases "State st"; cases "StopQueryExecution (athenaClient e) queryID")
       (simp_all add: poll_once_def Let_def g non_terminal_def)
qed

lemma poll_once_timeout:
  assumes "polled e queryID n = Some (st, stt)" and "non_terminal (State st)"
    and "\<not> Done_received (ctx e) n"
    and "isQueryTimeOut (hp e) (elapsed e n) stt (GetServiceLimitOverride cfg)"
  shows "poll_once e cfg w queryID n =
           Inl (Inr (None, Some ErrQueryTimeout), remote (CallGetQueryExecution queryID) w)"
proof -
  from polled_Some [OF assms(1)] obtain statusResp qe where
    g: "GetQueryExecution (athenaClient e) n queryID = (Some statusResp, None)"
      "QueryExecution statusResp = Some qe" "Status qe = Some st" "StatementType qe = stt" by blast
  show ?thesis
    using assms(2,3,4)
    by (cases "State st") (simp_all add: poll_once_def Let_def g non_terminal_def)
qed

lemma poll_once_failed:
  assumes "polled e queryID n = Some (st, stt)" and "State st = Failed"
  shows "poll_once e cfg w queryID n =
           Inl (case StateChangeReason st of
                  None \<Rightarrow> Inl NilDereference
                | Some reason \<Rightarrow> Inr (None, Some (ErrorsNew reason)),
                remote (CallGetQueryExecution queryID) w)"
proof -
  from polled_Some [OF assms(1)] obtain statusResp qe where
    g: "GetQueryExecution (athenaClient e) n queryID = (Some statusResp, None)"
      "QueryExecution statusResp = Some qe" "Status qe = Some st" by blast
  show ?thesis
    using assms(2)
    by (cases "StateChangeReason st") (simp_all add: poll_once_def Let_def g)
qed

lemma filter_stop_polls [simp]:
  "filter is_stop_call (replicate n (CallGetQueryExecution queryID)) = []"
  by (induction n) simp_all

lemma no_stop_filter: "\<forall>c \<in> set cs. \<not> is_stop_call c \<Longrightarrow> filter is_stop_call cs = []"
  by (induction cs) simp_all

lemma QueryContext_cancelled:
  assumes "prepare e cfg w query namedArgs = (Inr p, w1)"
    and "submit e cfg w1 p = (Inr queryID, w2)"
    and "polling_until e cfg queryID n"
    and "polled e queryID n = Some (st, stt)" and "non_terminal (State st)"
    and "Done_received (ctx e) n"
    and "n < fuel"
  shows "\<exists>w'. QueryContext fuel e cfg w query namedArgs =
            Some (Inr (None, Some (case StopQueryExecution (athenaClient e) queryID of
                                     None \<Rightarrow> ctx_Err (ctx e) | Some err \<Rightarrow> err)), w') \<and>
          filter is_stop_call (new_calls w w') = [CallStopQueryExecution queryID]"
proof -
  let ?wn = "w2\<lparr>calls := calls w2 @ replicate n (CallGetQueryExecution queryID)\<rparr>"
  from polling_calls [OF assms(1,2)] obtain cs where
    cs: "calls w2 = calls w @ cs" "\<forall>c \<in> set cs. \<not> is_stop_call c" by blast
  from poll_once_cancel [OF assms(4,5,6), of cfg ?wn] obtain w' cs' where
    w': "poll_once e cfg ?wn queryID n =
            Inl (Inr (None, Some (case StopQueryExecution (athenaClient e) queryID of
                                    None \<Rightarrow> ctx_Err (ctx e) | Some err \<Rightarrow> err)), w')"
      "calls w' = calls ?wn @ cs'"
      "filter is_stop_call cs' = [CallStopQueryExecution queryID]"
    by blast
  have "QueryContext fuel e cfg w query namedArgs =
          Some (Inr (None, Some (case StopQueryExecution (athenaClient e) queryID of
                                   None \<Rightarrow> ctx_Err (ctx e) | Some err \<Rightarrow> err)), w')"
    using QueryContext_at_poll [OF assms(1,2,3,7)] w'(1) by simp
  moreover have "new_calls w w' = cs @ replicate n (CallGetQueryExecution queryID) @ cs'"
    by (rule new_calls_append) (simp add: w'(2) cs(1))
  then have "filter is_stop_call (new_calls w w') = [CallStopQueryExecution queryID]"
    by (simp add: w'(3) no_stop_filter [OF cs(2)])
  ultimately show ?thesis by blast
qed


lemma QueryContext_timeout:
  assumes "prepare e cfg w query namedArgs = (Inr p, w1)"
    and "submit e cfg w1 p = (Inr queryID, w2)"
    and "polling_until e cfg queryID n"
    and "polled e queryID n = Some (st, stt)" and "non_terminal (State st)"
    and "\<not> Done_received (ctx e) n"
    and "isQueryTimeOut (hp e) (elapsed e n) stt (GetServiceLimitOverride cfg)"
    and "n < fuel"
  shows "\<exists>w'. QueryContext fuel e cfg w query namedArgs =
            Some (Inr (None, Some ErrQueryTimeout), w') \<and>
          filter is_stop_call (new_calls w w') = []"
proof -
  let ?wn = "w2\<lparr>calls := calls w2 @ replicate n (CallGetQueryExecution queryID)\<rparr>"
  let ?w' = "remote (CallGetQueryExecution queryID) ?wn"
  from polling_calls [OF assms(1,2)] obtain cs where
    cs: "calls w2 = calls w @ cs" "\<forall>c \<in> set cs. \<not> is_stop_call c" by blast
  have "QueryContext fuel e cfg w query namedArgs = Some (Inr (None, Some ErrQueryTimeout), ?w')"
    using QueryContext_at_poll [OF assms(1,2,3,8)]
      poll_once_timeout [OF assms(4,5,6,7), of ?wn] by simp
  moreover have "new_calls w ?w' =
      cs @ replicate n (CallGetQueryExecution queryID) @ [CallGetQueryExecution queryID]"
    by (rule new_calls_append) (simp add: cs(1))
  then have "filter is_stop_call (new_calls w ?w') = []"
    by (simp add: no_stop_filter [OF cs(2)])
  ultimately show ?thesis by blast
qed

lemma QueryContext_failed:
  assumes "prepare e cfg w query namedArgs = (Inr p, w1)"
    and "submit e cfg w1 p = (Inr queryID, w2)"
    and "polling_until e cfg queryID n"
    and "polled e queryID n = Some (st, stt)" and "State st = Failed"
    and "n < fuel"
  shows "\<exists>w'. QueryContext fuel e cfg w query namedArgs =
            Some (case StateChangeReason st of
                    None \<Rightarrow> Inl NilDereference
                  | Some reason \<Rightarrow> Inr (None, Some (ErrorsNew reason)), w')"
  using QueryContext_at_poll [OF assms(1,2,3,6)] poll_once_failed [OF assms(4,5)] by simp

lemma getHeaderlessSingleRowResultPage_eq:
  "getHeaderlessSingleRowResultPage v = one_cell_result v"
  by (simp add: getHeaderlessSingleRowResultPage_def NewNonOpsRows_def newHeaderlessResultPage_def
      one_cell_result_def)

lemma QueryContext_write_violation:
  assumes "IsReadOnly cfg" and "strip_pseudo_command query = PCParsed pc q"
    and "\<not> isReadOnlyStatement (hp e) q"
  shows "QueryContext fuel e cfg w query namedArgs = Some (Inr (None, Some ErrWriteViolation), w)"
  using assms by (simp add: QueryContext_def prepare_def)


lemma QueryContext_submit:
  assumes "prepare e cfg w query namedArgs = (Inr p, w1)"
  shows "QueryContext fuel e cfg w query namedArgs =
     (case submit e cfg w1 p of
        (Inl r, w2) \<Rightarrow> Some (r, w2)
      | (Inr queryID, w2) \<Rightarrow> WAITING_FOR_RESULT fuel e cfg w2 queryID 0)"
  using assms by (simp add: QueryContext_def)

lemma submit_error:
  assumes "buildExecutionParams (interpolation (hp e)) (p_args p) = (executionParams, None)"
    and "StartQueryExecution (athenaClient e) (start_input cfg p executionParams) = (resp, Some err)"
  shows "submit e cfg w1 p =
     (Inl (case (if p_pseudoCommand p = PCGetQID then errors_As_ResponseError err else None) of
             None \<Rightarrow> Inr (None, Some err)
           | Some rid \<Rightarrow> one_cell_result rid),
      remote (CallStartQueryExecution (start_input cfg p executionParams)) w1)"
  using assms
  by (simp add: submit_def Let_def getHeaderlessSingleRowResultPage_eq split: option.splits)

lemma submit_started:
  assumes "buildExecutionParams (interpolation (hp e)) (p_args p) = (executionParams, None)"
    and "StartQueryExecution (athenaClient e) (start_input cfg p executionParams)
           = (Some resp, None)"
    and "QueryExecutionId resp = Some queryID"
  shows "submit e cfg w1 p =
     (if p_pseudoCommand p = PCGetQID then Inl (one_cell_result queryID) else Inr queryID,
      remote (CallStartQueryExecution (start_input cfg p executionParams)) w1)"
  using assms
  by (simp add: submit_def Let_def getHeaderlessSingleRowResultPage_eq)

lemma no_poll_filter: "\<forall>c \<in> set cs. is_workgroup_call c \<Longrightarrow> filter is_poll_call cs = []"
proof (induction cs)
  case Nil
  then show ?case by simp
next
  case (Cons c cs)
  then show ?case by (cases c) simp_all
qed

lemma submit_new_calls:
  assumes "prepare e cfg w query namedArgs = (Inr p, w1)"
  shows "filter is_poll_call (new_calls w (remote (CallStartQueryExecution input) w1)) = []"
proof -
  from prepare_Inr [OF assms] obtain cs where
    cs: "calls w1 = calls w @ cs" "\<forall>c \<in> set cs. is_workgroup_call c" by blast
  have "new_calls w (remote (CallStartQueryExecution input) w1) = cs @ [CallStartQueryExecution input]"
    by (rule new_calls_append) (simp add: cs(1))
  then show ?thesis by (simp add: no_poll_filter [OF cs(2)])
qed

subsection \<open>Sessions against the mock client\<close>

lemmas strip_eval = strip_pseudo_command_def HasPrefix_def Trim_space_def Let_def
  PCGetQID_def PCGetQIDStatus_def PCStopQID_def PCGetDriverVersion_def

lemma test_env_simps [simp]:
  "hp (test_env done) = test_helpers"
  "athenaClient (test_env done) = mockAthenaClient True True False"
  "Done_received (ctx (test_env done)) = done"
  "ctx_Err (ctx (test_env done)) = ContextCanceled"
  "elapsed (test_env done) n = n"
  by (simp_all add: test_env_def)

lemma test_config_simps [simp]:
  "IsReadOnly (test_config ro mw) = ro"
  "GetWorkgroup_Name (test_config ro mw) = ''primary''"
  "IsMoneyWise (test_config ro mw) = mw"
  "GetServiceLimitOverride (test_config ro mw) = None"
  "GetDB (test_config ro mw) = ''sampledb''"
  "GetOutputBucket (test_config ro mw) = ''s3://bucket/''"
  by (simp_all add: test_config_def)

lemma mock_simps [simp]:
  "StartQueryExecution (mockAthenaClient a b c) = mock_StartQueryExecution"
  "GetQueryExecution (mockAthenaClient a b c) n = mock_GetQueryExecution"
  "StopQueryExecution (mockAthenaClient a b c) = mock_StopQueryExecution"
  by (simp_all add: mockAthenaClient_def)

lemma prepare_plain:
  assumes "hp e = test_helpers" and "GetWorkgroup_Name cfg = ''primary''"
    and "strip_pseudo_command query = PCParsed pc q"
    and "IsReadOnly cfg \<longrightarrow> isReadOnlyStatement test_helpers q"
    and "0 < length q" and "length q < 262144" and "length q \<noteq> 36"
  shows "prepare e cfg w query [] =
           (Inr \<lparr>p_pseudoCommand = pc, p_query = q, p_queryWithPlaceholders = q, p_args = [],
                 p_wgName = ''primary''\<rparr>, w)"
proof -
  have h: "isQueryValid test_helpers q" "\<not> IsQID test_helpers q"
    "DefaultWGName test_helpers = ''primary''"
    using assms(5,6,7) by (simp_all add: test_helpers_def)
  show ?thesis
    using assms(2,3,4)
    by (auto simp add: prepare_def interpolate_and_check_def check_and_resolve_def
        resolve_workgroup_def assms(1) h)
qed

lemma started_simps [simp]:
  "started qid = (Some \<lparr>QueryExecutionId = Some qid\<rparr>, None)"
  by (simp add: started_def)

lemma mock_start_cancel_ok:
  "QueryString s = ''SELECTQueryContext_CANCEL_OK'' \<Longrightarrow>
     mock_StartQueryExecution s = (Some \<lparr>QueryExecutionId = Some ''SELECTQueryContext_CANCEL_OK_QID''\<rparr>, None)"
  by (simp add: mock_StartQueryExecution_def ToLower_def)

lemma mock_start_timeout:
  "QueryString s = ''SELECTQueryContext_TIMEOUT'' \<Longrightarrow>
     mock_StartQueryExecution s = (Some \<lparr>QueryExecutionId = Some ''SELECTQueryContext_TIMEOUT_QID''\<rparr>, None)"
  by (simp add: mock_StartQueryExecution_def ToLower_def)

lemma mock_start_aws_fail:
  "QueryString s = ''SELECTQueryContext_AWS_FAIL'' \<Longrightarrow>
     mock_StartQueryExecution s = (Some \<lparr>QueryExecutionId = Some ''SELECTQueryContext_AWS_FAIL_QID''\<rparr>, None)"
  by (simp add: mock_StartQueryExecution_def ToLower_def)

lemma mock_start_failed_after:
  "QueryString s = ''FAILED_AFTER_GETQID'' \<Longrightarrow>
     mock_StartQueryExecution s = (Some \<lparr>QueryExecutionId = Some ''FAILED_AFTER_GETQID_123''\<rparr>,
       Some (ErrPlain ''FAILED_AFTER_GETQID_FAILED''))"
  by (simp add: mock_StartQueryExecution_def ToLower_def)

lemma mock_start_failed_after2:
  "QueryString s = ''FAILED_AFTER_GETQID2'' \<Longrightarrow>
     mock_StartQueryExecution s = (Some \<lparr>QueryExecutionId = Some ''FAILED_AFTER_GETQID_123''\<rparr>,
       Some (ResponseError ''unk'' ''FAILED_AFTER_GETQID_FAILED''))"
  by (simp add: mock_StartQueryExecution_def ToLower_def)

lemma mock_start_ping:
  "QueryString s = ''select 1'' \<Longrightarrow>
     mock_StartQueryExecution s = (Some \<lparr>QueryExecutionId = Some ''PING_OK_QID''\<rparr>, None)"
  by (simp add: mock_StartQueryExecution_def ToLower_def ToLower_byte_def)

section \<open>The claims about QueryContext\<close>

text \<open>
  Claim C7. In a read-only session, a query that, after its pseudo command is stripped,
  is not classified as a read-only statement fails at once with the write violation, and
  the log of remote calls is as it was: nothing is submitted and nothing else is called.
\<close>

theorem read_only_write_violation:
  assumes "IsReadOnly cfg" and "strip_pseudo_command query = PCParsed pc q"
    and "\<not> isReadOnlyStatement (hp e) q"
  shows "QueryContext fuel e cfg w query namedArgs = Some (Inr (None, Some ErrWriteViolation), w)"
  using assms by (rule QueryContext_write_violation)

text \<open>Claim C7 at the statement of the example \<open>readonly.go\<close>, with no poll allowed.\<close>

theorem read_only_write_violation_witness:
  "IsReadOnly (test_config True False) \<and>
   strip_pseudo_command
     ''CREATE TABLE sampledb.elb_logs_new AS SELECT * FROM sampledb.elb_logs limit 10;''
     = PCParsed [] ''CREATE TABLE sampledb.elb_logs_new AS SELECT * FROM sampledb.elb_logs limit 10;'' \<and>
   \<not> isReadOnlyStatement (hp (test_env (\<lambda>n. False)))
     ''CREATE TABLE sampledb.elb_logs_new AS SELECT * FROM sampledb.elb_logs limit 10;'' \<and>
   QueryContext 0 (test_env (\<lambda>n. False)) (test_config True False) empty_world
     ''CREATE TABLE sampledb.elb_logs_new AS SELECT * FROM sampledb.elb_logs limit 10;'' []
     = Some (Inr (None, Some ErrWriteViolation), empty_world) \<and>
   calls empty_world = []"
proof -
  let ?q = "''CREATE TABLE sampledb.elb_logs_new AS SELECT * FROM sampledb.elb_logs limit 10;''"
  have a: "IsReadOnly (test_config True False)" by simp
  have b: "strip_pseudo_command ?q = PCParsed [] ?q" by (simp add: strip_eval)
  have c: "\<not> isReadOnlyStatement (hp (test_env (\<lambda>n. False))) ?q"
    by (simp add: test_helpers_def HasPrefix_def ToLower_def ToLower_byte_def)
  from read_only_write_violation [OF a b c, of 0 empty_world "[]"] a b c show ?thesis
    by (simp add: empty_world_def)
qed

text \<open>
  Claim C2 says that, when \<open>StartQueryExecution\<close> returns an identifier together with an
  error, the call fails with that error and the identifier can be found in its result.
  As stated it is false. For the query \<open>FAILED_AFTER_GETQID\<close> the mock returns the
  identifier \<open>FAILED_AFTER_GETQID_123\<close> with an error; a client that returns another
  identifier with the same error gives the very same result, no rows and the error, so
  the result does not tell the identifier. And wrapped by \<open>pc:get_query_id\<close>, the query
  \<open>FAILED_AFTER_GETQID2\<close>, whose error is a response error, does not fail: it returns
  a row with the request identifier \<open>unk\<close> of the error.
\<close>

theorem returned_identifier_lost:
  "StartQueryExecution (athenaClient (test_env (\<lambda>n. False)))
     \<lparr>QueryString = ''FAILED_AFTER_GETQID'', ExecutionParameters = [], Database = ''sampledb'',
      OutputLocation = ''s3://bucket/'', WorkGroup = ''primary''\<rparr>
     = (Some \<lparr>QueryExecutionId = Some ''FAILED_AFTER_GETQID_123''\<rparr>,
        Some (ErrPlain ''FAILED_AFTER_GETQID_FAILED'')) \<and>
   QueryContext 1 (test_env (\<lambda>n. False)) (test_config False False) empty_world
     ''FAILED_AFTER_GETQID'' []
     = Some (Inr (None, Some (ErrPlain ''FAILED_AFTER_GETQID_FAILED'')),
             remote (CallStartQueryExecution
               \<lparr>QueryString = ''FAILED_AFTER_GETQID'', ExecutionParameters = [],
                Database = ''sampledb'', OutputLocation = ''s3://bucket/'',
                WorkGroup = ''primary''\<rparr>) empty_world) \<and>
   QueryContext 1
     ((test_env (\<lambda>n. False))\<lparr>athenaClient := (mockAthenaClient True True False)
        \<lparr>StartQueryExecution := (\<lambda>s. (Some \<lparr>QueryExecutionId = Some ''ANOTHER_QID''\<rparr>,
                                        Some (ErrPlain ''FAILED_AFTER_GETQID_FAILED'')))\<rparr>\<rparr>)
     (test_config False False) empty_world ''FAILED_AFTER_GETQID'' []
     = QueryContext 1 (test_env (\<lambda>n. False)) (test_config False False) empty_world
         ''FAILED_AFTER_GETQID'' [] \<and>
   (\<exists>w'. QueryContext 1 (test_env (\<lambda>n. False)) (test_config False False) empty_world
            ''pc:get_query_id FAILED_AFTER_GETQID2'' []
          = Some (one_cell_result ''unk'', w'))"
proof -
  define e2 where "e2 = (test_env (\<lambda>n. False))\<lparr>athenaClient := (mockAthenaClient True True False)
        \<lparr>StartQueryExecution := (\<lambda>s. (Some \<lparr>QueryExecutionId = Some ''ANOTHER_QID''\<rparr>,
                                        Some (ErrPlain ''FAILED_AFTER_GETQID_FAILED'')))\<rparr>\<rparr>"
  have h2: "hp e2 = test_helpers"
    "StartQueryExecution (athenaClient e2)
       = (\<lambda>s. (Some \<lparr>QueryExecutionId = Some ''ANOTHER_QID''\<rparr>,
                 Some (ErrPlain ''FAILED_AFTER_GETQID_FAILED'')))"
    by (simp_all add: e2_def test_env_def)
  let ?cfg = "test_config False False"
  let ?p = "\<lparr>p_pseudoCommand = [], p_query = ''FAILED_AFTER_GETQID'',
             p_queryWithPlaceholders = ''FAILED_AFTER_GETQID'', p_args = [],
             p_wgName = ''primary''\<rparr>"
  let ?input = "\<lparr>QueryString = ''FAILED_AFTER_GETQID'', ExecutionParameters = [],
      Database = ''sampledb'', OutputLocation = ''s3://bucket/'', WorkGroup = ''primary''\<rparr>"
  have s: "strip_pseudo_command ''FAILED_AFTER_GETQID'' = PCParsed [] ''FAILED_AFTER_GETQID''"
    by (simp add: strip_eval)
  have i: "start_input ?cfg ?p [] = ?input" by (simp add: start_input_def)
  have b: "\<And>d. buildExecutionParams d [] = ([], None)" by (simp add: buildExecutionParams_def)
  have p1: "prepare (test_env (\<lambda>n. False)) ?cfg empty_world ''FAILED_AFTER_GETQID'' []
      = (Inr ?p, empty_world)"
    by (rule prepare_plain [OF _ _ s]) simp_all
  have p2: "prepare e2 ?cfg empty_world ''FAILED_AFTER_GETQID'' [] = (Inr ?p, empty_world)"
    by (rule prepare_plain [OF h2(1) _ s]) simp_all
  have m: "mock_StartQueryExecution ?input
     = (Some \<lparr>QueryExecutionId = Some ''FAILED_AFTER_GETQID_123''\<rparr>,
        Some (ErrPlain ''FAILED_AFTER_GETQID_FAILED''))"
    by (rule mock_start_failed_after) simp
  have r1: "QueryContext 1 (test_env (\<lambda>n. False)) ?cfg empty_world ''FAILED_AFTER_GETQID'' []
     = Some (Inr (None, Some (ErrPlain ''FAILED_AFTER_GETQID_FAILED'')),
             remote (CallStartQueryExecution ?input) empty_world)"
    using submit_error [of "test_env (\<lambda>n. False)" ?p "[]" ?cfg _ _ empty_world] m
    by (simp add: QueryContext_submit [OF p1] b i PCGetQID_def)
  have r2: "QueryContext 1 e2 ?cfg empty_world ''FAILED_AFTER_GETQID'' []
     = Some (Inr (None, Some (ErrPlain ''FAILED_AFTER_GETQID_FAILED'')),
             remote (CallStartQueryExecution ?input) empty_world)"
    using submit_error [of e2 ?p "[]" ?cfg _ _ empty_world]
    by (simp add: QueryContext_submit [OF p2] b i PCGetQID_def h2)
  let ?p3 = "\<lparr>p_pseudoCommand = PCGetQID, p_query = ''FAILED_AFTER_GETQID2'',
             p_queryWithPlaceholders = ''FAILED_AFTER_GETQID2'', p_args = [],
             p_wgName = ''primary''\<rparr>"
  have s3: "strip_pseudo_command ''pc:get_query_id FAILED_AFTER_GETQID2''
      = PCParsed PCGetQID ''FAILED_AFTER_GETQID2''"
    by (simp add: strip_eval)
  have p3: "prepare (test_env (\<lambda>n. False)) ?cfg empty_world
      ''pc:get_query_id FAILED_AFTER_GETQID2'' [] = (Inr ?p3, empty_world)"
    by (rule prepare_plain [OF _ _ s3]) simp_all
  have m3: "mock_StartQueryExecution (start_input ?cfg ?p3 [])
     = (Some \<lparr>QueryExecutionId = Some ''FAILED_AFTER_GETQID_123''\<rparr>,
        Some (ResponseError ''unk'' ''FAILED_AFTER_GETQID_FAILED''))"
    by (rule mock_start_failed_after2) (simp add: start_input_def)
  have r3: "\<exists>w'. QueryContext 1 (test_env (\<lambda>n. False)) ?cfg empty_world
            ''pc:get_query_id FAILED_AFTER_GETQID2'' [] = Some (one_cell_result ''unk'', w')"
    using submit_error [of "test_env (\<lambda>n. False)" ?p3 "[]" ?cfg _ _ empty_world] m3
    by (simp add: QueryContext_submit [OF p3] b)
  show ?thesis using m r1 r2 [unfolded e2_def] r3 by simp
qed

text \<open>
  Claim C2, amended. When a call gets as far as the submission and \<open>StartQueryExecution\<close>
  returns an error, with an identifier or without, the call returns no rows and that
  error, and its result does not hold the identifier; only for a query wrapped by
  \<open>pc:get_query_id\<close> whose error is, or wraps, a response error the call returns a row
  with the request identifier of the error instead. Nothing is called after the
  submission.
\<close>

theorem submission_error_returned:
  assumes "prepare e cfg w query namedArgs = (Inr p, w1)"
    and "buildExecutionParams (interpolation (hp e)) (p_args p) = (executionParams, None)"
    and "StartQueryExecution (athenaClient e) (start_input cfg p executionParams) = (resp, Some err)"
  shows "QueryContext fuel e cfg w query namedArgs =
     Some (case (if p_pseudoCommand p = PCGetQID then errors_As_ResponseError err else None) of
             None \<Rightarrow> Inr (None, Some err)
           | Some rid \<Rightarrow> one_cell_result rid,
           remote (CallStartQueryExecution (start_input cfg p executionParams)) w1)"
  by (simp add: QueryContext_submit [OF assms(1)] submit_error [OF assms(2,3)])

text \<open>Claim C2, amended, at the query of the mock that fails with an identifier.\<close>

theorem submission_error_returned_witness:
  "prepare (test_env (\<lambda>n. False)) (test_config False False) empty_world ''FAILED_AFTER_GETQID'' []
     = (Inr \<lparr>p_pseudoCommand = [], p_query = ''FAILED_AFTER_GETQID'',
             p_queryWithPlaceholders = ''FAILED_AFTER_GETQID'', p_args = [],
             p_wgName = ''primary''\<rparr>, empty_world) \<and>
   buildExecutionParams (interpolation (hp (test_env (\<lambda>n. False)))) [] = ([], None) \<and>
   StartQueryExecution (athenaClient (test_env (\<lambda>n. False)))
     \<lparr>QueryString = ''FAILED_AFTER_GETQID'', ExecutionParameters = [], Database = ''sampledb'',
      OutputLocation = ''s3://bucket/'', WorkGroup = ''primary''\<rparr>
     = (Some \<lparr>QueryExecutionId = Some ''FAILED_AFTER_GETQID_123''\<rparr>,
        Some (ErrPlain ''FAILED_AFTER_GETQID_FAILED'')) \<and>
   QueryContext 0 (test_env (\<lambda>n. False)) (test_config False False) empty_world
     ''FAILED_AFTER_GETQID'' []
     = Some (Inr (None, Some (ErrPlain ''FAILED_AFTER_GETQID_FAILED'')),
             remote (CallStartQueryExecution
               \<lparr>QueryString = ''FAILED_AFTER_GETQID'', ExecutionParameters = [],
                Database = ''sampledb'', OutputLocation = ''s3://bucket/'',
                WorkGroup = ''primary''\<rparr>) empty_world)"
proof -
  let ?e = "test_env (\<lambda>n. False)"
  let ?cfg = "test_config False False"
  let ?p = "\<lparr>p_pseudoCommand = [], p_query = ''FAILED_AFTER_GETQID'',
             p_queryWithPlaceholders = ''FAILED_AFTER_GETQID'', p_args = [],
             p_wgName = ''primary''\<rparr>"
  let ?input = "\<lparr>QueryString = ''FAILED_AFTER_GETQID'', ExecutionParameters = [],
      Database = ''sampledb'', OutputLocation = ''s3://bucket/'', WorkGroup = ''primary''\<rparr>"
  have s: "strip_pseudo_command ''FAILED_AFTER_GETQID'' = PCParsed [] ''FAILED_AFTER_GETQID''"
    by (simp add: strip_eval)
  have i: "start_input ?cfg ?p [] = ?input" by (simp add: start_input_def)
  have b: "buildExecutionParams (interpolation (hp ?e)) (p_args ?p) = ([], None)"
    by (simp add: buildExecutionParams_def)
  have p: "prepare ?e ?cfg empty_world ''FAILED_AFTER_GETQID'' [] = (Inr ?p, empty_world)"
    by (rule prepare_plain [OF _ _ s]) simp_all
  have m: "StartQueryExecution (athenaClient ?e) (start_input ?cfg ?p [])
     = (Some \<lparr>QueryExecutionId = Some ''FAILED_AFTER_GETQID_123''\<rparr>,
        Some (ErrPlain ''FAILED_AFTER_GETQID_FAILED''))"
    by (simp add: i mock_start_failed_after)
  from submission_error_returned [OF p b m, of 0] p b m show ?thesis
    by (simp add: i PCGetQID_def)
qed

lemma submit_get_query_id:
  assumes "p_pseudoCommand p = PCGetQID"
    and "buildExecutionParams (interpolation (hp e)) (p_args p) = (executionParams, None)"
  shows "submit e cfg w1 p =
     (Inl (case StartQueryExecution (athenaClient e) (start_input cfg p executionParams) of
             (resp, Some err) \<Rightarrow>
               (case errors_As_ResponseError err of
                  Some rid \<Rightarrow> one_cell_result rid
                | None \<Rightarrow> Inr (None, Some err))
           | (None, None) \<Rightarrow> Inl NilDereference
           | (Some resp, None) \<Rightarrow>
               (case QueryExecutionId resp of
                  None \<Rightarrow> Inl NilDereference
                | Some queryID \<Rightarrow> one_cell_result queryID)),
      remote (CallStartQueryExecution (start_input cfg p executionParams)) w1)"
  using assms
  by (simp add: submit_def Let_def getHeaderlessSingleRowResultPage_eq
      split: prod.splits option.splits)

text \<open>
  Claim C9 says that a query wrapped by \<open>pc:get_query_id\<close> returns a row with the
  execution identifier when the submission succeeds, without polling, and a row with the
  request identifier when it fails. As stated it is false: the submission of
  \<open>pc:get_query_id FAILED_AFTER_GETQID\<close> fails with an error that is not a response error,
  and the call returns no row, but that error.
\<close>

theorem get_query_id_failure_counterexample:
  "QueryContext 1 (test_env (\<lambda>n. False)) (test_config False False) empty_world
     ''pc:get_query_id FAILED_AFTER_GETQID'' []
     = Some (Inr (None, Some (ErrPlain ''FAILED_AFTER_GETQID_FAILED'')),
             remote (CallStartQueryExecution
               \<lparr>QueryString = ''FAILED_AFTER_GETQID'', ExecutionParameters = [],
                Database = ''sampledb'', OutputLocation = ''s3://bucket/'',
                WorkGroup = ''primary''\<rparr>) empty_world)"
proof -
  let ?e = "test_env (\<lambda>n. False)"
  let ?cfg = "test_config False False"
  let ?p = "\<lparr>p_pseudoCommand = PCGetQID, p_query = ''FAILED_AFTER_GETQID'',
             p_queryWithPlaceholders = ''FAILED_AFTER_GETQID'', p_args = [],
             p_wgName = ''primary''\<rparr>"
  have s: "strip_pseudo_command ''pc:get_query_id FAILED_AFTER_GETQID''
      = PCParsed PCGetQID ''FAILED_AFTER_GETQID''"
    by (simp add: strip_eval)
  have p: "prepare ?e ?cfg empty_world ''pc:get_query_id FAILED_AFTER_GETQID'' []
      = (Inr ?p, empty_world)"
    by (rule prepare_plain [OF _ _ s]) simp_all
  have b: "buildExecutionParams (interpolation (hp ?e)) (p_args ?p) = ([], None)"
    by (simp add: buildExecutionParams_def)
  have m: "mock_StartQueryExecution (start_input ?cfg ?p [])
     = (Some \<lparr>QueryExecutionId = Some ''FAILED_AFTER_GETQID_123''\<rparr>,
        Some (ErrPlain ''FAILED_AFTER_GETQID_FAILED''))"
    by (rule mock_start_failed_after) (simp add: start_input_def)
  show ?thesis
    using submit_get_query_id [of ?p ?e "[]" ?cfg empty_world, OF _ b] m
    by (simp add: QueryContext_submit [OF p] start_input_def)
qed

text \<open>
  Claim C9, amended. A query wrapped by \<open>pc:get_query_id\<close> that gets as far as the
  submission returns without polling: a row with the execution identifier when
  \<open>StartQueryExecution\<close> returns one and no error; a row with the request identifier when
  it returns an error that is, or wraps, a response error; and no row, but the error, when
  it returns any other error.
\<close>

theorem get_query_id_short_circuit:
  assumes "prepare e cfg w query namedArgs = (Inr p, w1)"
    and "strip_pseudo_command query = PCParsed PCGetQID q"
    and "buildExecutionParams (interpolation (hp e)) (p_args p) = (executionParams, None)"
  shows "\<exists>r w'. QueryContext fuel e cfg w query namedArgs = Some (r, w') \<and>
      filter is_poll_call (new_calls w w') = [] \<and>
      (\<forall>resp queryID.
         StartQueryExecution (athenaClient e) (start_input cfg p executionParams) = (Some resp, None) \<and>
         QueryExecutionId resp = Some queryID \<longrightarrow> r = one_cell_result queryID) \<and>
      (\<forall>resp err rid.
         StartQueryExecution (athenaClient e) (start_input cfg p executionParams) = (resp, Some err) \<and>
         errors_As_ResponseError err = Some rid \<longrightarrow> r = one_cell_result rid) \<and>
      (\<forall>resp err.
         StartQueryExecution (athenaClient e) (start_input cfg p executionParams) = (resp, Some err) \<and>
         errors_As_ResponseError err = None \<longrightarrow> r = Inr (None, Some err))"
proof -
  from prepare_Inr [OF assms(1)] assms(2) have pc: "p_pseudoCommand p = PCGetQID" by auto
  let ?w' = "remote (CallStartQueryExecution (start_input cfg p executionParams)) w1"
  let ?start = "StartQueryExecution (athenaClient e) (start_input cfg p executionParams)"
  define r where "r =
     (case ?start of
        (resp, Some err) \<Rightarrow>
          (case errors_As_ResponseError err of
             Some rid \<Rightarrow> one_cell_result rid
           | None \<Rightarrow> Inr (None, Some err))
      | (None, None) \<Rightarrow> Inl NilDereference
      | (Some resp, None) \<Rightarrow>
          (case QueryExecutionId resp of
             None \<Rightarrow> Inl NilDereference
           | Some queryID \<Rightarrow> one_cell_result queryID))"
  have sub: "submit e cfg w1 p = (Inl r, ?w')"
    using submit_get_query_id [OF pc assms(3), of cfg w1] by (simp add: r_def)
  have qc: "QueryContext fuel e cfg w query namedArgs = Some (r, ?w')"
    by (simp add: QueryContext_submit [OF assms(1)] sub)
  have np: "filter is_poll_call (new_calls w ?w') = []"
    by (rule submit_new_calls [OF assms(1)])
  have a: "\<forall>resp queryID. ?start = (Some resp, None) \<and> QueryExecutionId resp = Some queryID
             \<longrightarrow> r = one_cell_result queryID"
    by (auto simp add: r_def)
  have b: "\<forall>resp err rid. ?start = (resp, Some err) \<and> errors_As_ResponseError err = Some rid
             \<longrightarrow> r = one_cell_result rid"
    by (auto simp add: r_def split: option.splits)
  have c: "\<forall>resp err. ?start = (resp, Some err) \<and> errors_As_ResponseError err = None
             \<longrightarrow> r = Inr (None, Some err)"
    by (auto simp add: r_def split: option.splits)
  from qc np a b c show ?thesis by blast
qed

text \<open>Claim C9, amended, at the probe query, which the mock starts as \<open>PING_OK_QID\<close>.\<close>

theorem get_query_id_short_circuit_witness:
  "strip_pseudo_command ''pc:get_query_id select 1'' = PCParsed PCGetQID ''select 1'' \<and>
   StartQueryExecution (athenaClient (test_env (\<lambda>n. False)))
     \<lparr>QueryString = ''select 1'', ExecutionParameters = [], Database = ''sampledb'',
      OutputLocation = ''s3://bucket/'', WorkGroup = ''primary''\<rparr>
     = (Some \<lparr>QueryExecutionId = Some ''PING_OK_QID''\<rparr>, None) \<and>
   (\<exists>w'. QueryContext 0 (test_env (\<lambda>n. False)) (test_config False False) empty_world
            ''pc:get_query_id select 1'' [] = Some (one_cell_result ''PING_OK_QID'', w') \<and>
         filter is_poll_call (new_calls empty_world w') = [])"
proof -
  let ?e = "test_env (\<lambda>n. False)"
  let ?cfg = "test_config False False"
  let ?p = "\<lparr>p_pseudoCommand = PCGetQID, p_query = ''select 1'',
             p_queryWithPlaceholders = ''select 1'', p_args = [], p_wgName = ''primary''\<rparr>"
  let ?input = "\<lparr>QueryString = ''select 1'', ExecutionParameters = [],
      Database = ''sampledb'', OutputLocation = ''s3://bucket/'', WorkGroup = ''primary''\<rparr>"
  have s: "strip_pseudo_command ''pc:get_query_id select 1'' = PCParsed PCGetQID ''select 1''"
    by (simp add: strip_eval)
  have p: "prepare ?e ?cfg empty_world ''pc:get_query_id select 1'' [] = (Inr ?p, empty_world)"
    by (rule prepare_plain [OF _ _ s]) simp_all
  have b: "buildExecutionParams (interpolation (hp ?e)) (p_args ?p) = ([], None)"
    by (simp add: buildExecutionParams_def)
  have i: "start_input ?cfg ?p [] = ?input" by (simp add: start_input_def)
  have m: "StartQueryExecution (athenaClient ?e) ?input
     = (Some \<lparr>QueryExecutionId = Some ''PING_OK_QID''\<rparr>, None)"
    by (simp add: mock_start_ping)
  from get_query_id_short_circuit [OF p s b, of 0] obtain r w' where
    r: "QueryContext 0 ?e ?cfg empty_world ''pc:get_query_id select 1'' [] = Some (r, w')"
      "filter is_poll_call (new_calls empty_world w') = []"
      "\<forall>resp queryID.
         StartQueryExecution (athenaClient ?e) (start_input ?cfg ?p []) = (Some resp, None) \<and>
         QueryExecutionId resp = Some queryID \<longrightarrow> r = one_cell_result queryID"
    by blast
  from r(3) m have "r = one_cell_result ''PING_OK_QID''" by (simp add: i)
  with r(1,2) s m show ?thesis by blast
qed

lemma mock_polled:
  "polled (test_env done) ''SELECTQueryContext_CANCEL_OK_QID'' n
     = Some (\<lparr>State = Queued, StateChangeReason = None\<rparr>, ''DDL'')"
  "polled (test_env done) ''SELECTQueryContext_TIMEOUT_QID'' n
     = Some (\<lparr>State = Queued, StateChangeReason = None\<rparr>, ''TIMEOUT_NOW'')"
  "polled (test_env done) ''SELECTQueryContext_AWS_FAIL_QID'' n
     = Some (\<lparr>State = Failed, StateChangeReason = Some ''something_broken''\<rparr>, [])"
  by (simp_all add: polled_def mock_GetQueryExecution_def status_of_def)

lemma prepare_submit_plain:
  assumes "hp e = test_helpers" and "GetWorkgroup_Name cfg = ''primary''" and "\<not> IsReadOnly cfg"
    and "strip_pseudo_command query = PCParsed [] query"
    and "0 < length query" and "length query < 262144" and "length query \<noteq> 36"
    and "StartQueryExecution (athenaClient e)
           \<lparr>QueryString = query, ExecutionParameters = [], Database = GetDB cfg,
            OutputLocation = GetOutputBucket cfg, WorkGroup = ''primary''\<rparr>
         = (Some \<lparr>QueryExecutionId = Some queryID\<rparr>, None)"
  shows "prepare e cfg w query [] =
           (Inr \<lparr>p_pseudoCommand = [], p_query = query, p_queryWithPlaceholders = query,
                 p_args = [], p_wgName = ''primary''\<rparr>, w)"
    and "submit e cfg w \<lparr>p_pseudoCommand = [], p_query = query, p_queryWithPlaceholders = query,
                          p_args = [], p_wgName = ''primary''\<rparr> =
           (Inr queryID, remote (CallStartQueryExecution
              \<lparr>QueryString = query, ExecutionParameters = [], Database = GetDB cfg,
               OutputLocation = GetOutputBucket cfg, WorkGroup = ''primary''\<rparr>) w)"
proof -
  show "prepare e cfg w query [] =
           (Inr \<lparr>p_pseudoCommand = [], p_query = query, p_queryWithPlaceholders = query,
                 p_args = [], p_wgName = ''primary''\<rparr>, w)"
    using assms(3) by (intro prepare_plain [OF assms(1,2,4)] assms(5,6,7)) simp
  let ?p = "\<lparr>p_pseudoCommand = [], p_query = query, p_queryWithPlaceholders = query,
                          p_args = [], p_wgName = ''primary''\<rparr>"
  have b: "buildExecutionParams (interpolation (hp e)) (p_args ?p) = ([], None)"
    by (simp add: buildExecutionParams_def)
  have i: "start_input cfg ?p [] = \<lparr>QueryString = query, ExecutionParameters = [], Database = GetDB cfg,
            OutputLocation = GetOutputBucket cfg, WorkGroup = ''primary''\<rparr>"
    by (simp add: start_input_def)
  show "submit e cfg w ?p =
           (Inr queryID, remote (CallStartQueryExecution
              \<lparr>QueryString = query, ExecutionParameters = [], Database = GetDB cfg,
               OutputLocation = GetOutputBucket cfg, WorkGroup = ''primary''\<rparr>) w)"
    using submit_started [OF b, of cfg "\<lparr>QueryExecutionId = Some queryID\<rparr>" queryID w] assms(8)
    by (simp add: i PCGetQID_def)
qed

text \<open>
  Claim C4. When the context is done in a poll that observes a state that is not terminal,
  after polls that all went on (no terminal state, no timeout, context not done), then
  \<open>QueryContext\<close> calls \<open>StopQueryExecution\<close> for the execution identifier, once, and
  returns the error of that call if it fails and \<open>ctx.Err()\<close> otherwise.
\<close>

theorem cancellation_stops_execution:
  assumes "prepare e cfg w query namedArgs = (Inr p, w1)"
    and "submit e cfg w1 p = (Inr queryID, w2)"
    and "polling_until e cfg queryID n"
    and "polled e queryID n = Some (st, stt)" and "non_terminal (State st)"
    and "Done_received (ctx e) n"
    and "n < fuel"
  shows "\<exists>w'. QueryContext fuel e cfg w query namedArgs =
            Some (Inr (None, Some (case StopQueryExecution (athenaClient e) queryID of
                                     None \<Rightarrow> ctx_Err (ctx e) | Some err \<Rightarrow> err)), w') \<and>
          filter is_stop_call (new_calls w w') = [CallStopQueryExecution queryID]"
  using assms by (rule QueryContext_cancelled)

text \<open>
  Claim C4 at the two queries of the mock that stay queued, with the context done in the
  third poll: the stop of the first succeeds, the stop of the second fails.
\<close>

theorem cancellation_stops_execution_witness:
  "polling_until (test_env (\<lambda>n. n = 2)) (test_config False True)
     ''SELECTQueryContext_CANCEL_OK_QID'' 2 \<and>
   polled (test_env (\<lambda>n. n = 2)) ''SELECTQueryContext_CANCEL_OK_QID'' 2
     = Some (\<lparr>State = Queued, StateChangeReason = None\<rparr>, ''DDL'') \<and>
   Done_received (ctx (test_env (\<lambda>n. n = 2))) 2 \<and>
   (\<exists>w'. QueryContext 3 (test_env (\<lambda>n. n = 2)) (test_config False True) empty_world
            ''SELECTQueryContext_CANCEL_OK'' [] = Some (Inr (None, Some ContextCanceled), w') \<and>
         filter is_stop_call (new_calls empty_world w')
           = [CallStopQueryExecution ''SELECTQueryContext_CANCEL_OK_QID'']) \<and>
   StopQueryExecution (athenaClient (test_env (\<lambda>n. n = 2))) ''SELECTQueryContext_CANCEL_FAIL_QID''
     = Some ErrTestMockGeneric \<and>
   (\<exists>w'. QueryContext 3 (test_env (\<lambda>n. n = 2)) (test_config False True) empty_world
            ''SELECTQueryContext_CANCEL_FAIL'' [] = Some (Inr (None, Some ErrTestMockGeneric), w') \<and>
         filter is_stop_call (new_calls empty_world w')
           = [CallStopQueryExecution ''SELECTQueryContext_CANCEL_FAIL_QID''])"
proof -
  let ?e = "test_env (\<lambda>n. n = 2)"
  let ?cfg = "test_config False True"
  have t: "\<And>t stt. isQueryTimeOut test_helpers t stt None \<longleftrightarrow> stt = ''TIMEOUT_NOW'' \<or> 1800 < t"
    by (simp add: test_helpers_def)
  have d: "Done_received (ctx ?e) 2" by simp
  have n: "non_terminal (State \<lparr>State = Queued, StateChangeReason = None\<rparr>)"
    by (simp add: non_terminal_def)
  have s: "strip_pseudo_command ''SELECTQueryContext_CANCEL_OK''
      = PCParsed [] ''SELECTQueryContext_CANCEL_OK''"
    by (simp add: strip_eval)
  note ps = prepare_submit_plain [of ?e ?cfg "''SELECTQueryContext_CANCEL_OK''"
      "''SELECTQueryContext_CANCEL_OK_QID''" empty_world, OF _ _ _ s]
  have p: "prepare ?e ?cfg empty_world ''SELECTQueryContext_CANCEL_OK'' [] =
           (Inr \<lparr>p_pseudoCommand = [], p_query = ''SELECTQueryContext_CANCEL_OK'',
                 p_queryWithPlaceholders = ''SELECTQueryContext_CANCEL_OK'',
                 p_args = [], p_wgName = ''primary''\<rparr>, empty_world)"
    by (rule ps(1)) (simp_all add: mock_start_cancel_ok)
  have sb: "submit ?e ?cfg empty_world \<lparr>p_pseudoCommand = [], p_query = ''SELECTQueryContext_CANCEL_OK'',
                 p_queryWithPlaceholders = ''SELECTQueryContext_CANCEL_OK'',
                 p_args = [], p_wgName = ''primary''\<rparr> =
           (Inr ''SELECTQueryContext_CANCEL_OK_QID'', remote (CallStartQueryExecution
              \<lparr>QueryString = ''SELECTQueryContext_CANCEL_OK'', ExecutionParameters = [],
               Database = GetDB ?cfg, OutputLocation = GetOutputBucket ?cfg,
               WorkGroup = ''primary''\<rparr>) empty_world)"
    by (rule ps(2)) (simp_all add: mock_start_cancel_ok)
  have u: "polling_until ?e ?cfg ''SELECTQueryContext_CANCEL_OK_QID'' 2"
    by (simp add: numeral_2_eq_2 keeps_polling_def mock_polled non_terminal_def t)
  from cancellation_stops_execution [OF p sb u mock_polled(1) n d, of 3]
  have a: "\<exists>w'. QueryContext 3 ?e ?cfg empty_world ''SELECTQueryContext_CANCEL_OK'' []
             = Some (Inr (None, Some ContextCanceled), w') \<and>
           filter is_stop_call (new_calls empty_world w')
             = [CallStopQueryExecution ''SELECTQueryContext_CANCEL_OK_QID'']"
    by (simp add: mock_StopQueryExecution_def)
  have s2: "strip_pseudo_command ''SELECTQueryContext_CANCEL_FAIL''
      = PCParsed [] ''SELECTQueryContext_CANCEL_FAIL''"
    by (simp add: strip_eval)
  have m2: "\<And>i. QueryString i = ''SELECTQueryContext_CANCEL_FAIL'' \<Longrightarrow>
      mock_StartQueryExecution i
        = (Some \<lparr>QueryExecutionId = Some ''SELECTQueryContext_CANCEL_FAIL_QID''\<rparr>, None)"
    by (simp add: mock_StartQueryExecution_def ToLower_def)
  have pl2: "\<And>done k. polled (test_env done) ''SELECTQueryContext_CANCEL_FAIL_QID'' k
      = Some (\<lparr>State = Queued, StateChangeReason = None\<rparr>, [])"
    by (simp add: polled_def mock_GetQueryExecution_def status_of_def)
  have st2: "StopQueryExecution (athenaClient ?e) ''SELECTQueryContext_CANCEL_FAIL_QID''
      = Some ErrTestMockGeneric"
    by (simp add: mock_StopQueryExecution_def)
  note ps2 = prepare_submit_plain [of ?e ?cfg "''SELECTQueryContext_CANCEL_FAIL''"
      "''SELECTQueryContext_CANCEL_FAIL_QID''" empty_world, OF _ _ _ s2]
  have p2: "prepare ?e ?cfg empty_world ''SELECTQueryContext_CANCEL_FAIL'' [] =
           (Inr \<lparr>p_pseudoCommand = [], p_query = ''SELECTQueryContext_CANCEL_FAIL'',
                 p_queryWithPlaceholders = ''SELECTQueryContext_CANCEL_FAIL'',
                 p_args = [], p_wgName = ''primary''\<rparr>, empty_world)"
    by (rule ps2(1)) (simp_all add: m2)
  have sb2: "submit ?e ?cfg empty_world \<lparr>p_pseudoCommand = [], p_query = ''SELECTQueryContext_CANCEL_FAIL'',
                 p_queryWithPlaceholders = ''SELECTQueryContext_CANCEL_FAIL'',
                 p_args = [], p_wgName = ''primary''\<rparr> =
           (Inr ''SELECTQueryContext_CANCEL_FAIL_QID'', remote (CallStartQueryExecution
              \<lparr>QueryString = ''SELECTQueryContext_CANCEL_FAIL'', ExecutionParameters = [],
               Database = GetDB ?cfg, OutputLocation = GetOutputBucket ?cfg,
               WorkGroup = ''primary''\<rparr>) empty_world)"
    by (rule ps2(2)) (simp_all add: m2)
  have u2: "polling_until ?e ?cfg ''SELECTQueryContext_CANCEL_FAIL_QID'' 2"
    by (simp add: numeral_2_eq_2 keeps_polling_def pl2 non_terminal_def t)
  from cancellation_stops_execution [OF p2 sb2 u2 pl2 n d, of 3]
  have b: "\<exists>w'. QueryContext 3 ?e ?cfg empty_world ''SELECTQueryContext_CANCEL_FAIL'' []
             = Some (Inr (None, Some ErrTestMockGeneric), w') \<and>
           filter is_stop_call (new_calls empty_world w')
             = [CallStopQueryExecution ''SELECTQueryContext_CANCEL_FAIL_QID'']"
    by (simp add: mock_StopQueryExecution_def)
  show ?thesis by (intro conjI u mock_polled(1) d a st2 b)
qed

lemma test_timeout_policy:
  "isQueryTimeOut test_helpers t stt None \<longleftrightarrow> stt = ''TIMEOUT_NOW'' \<or> 1800 < t"
  by (simp add: test_helpers_def)

text \<open>
  Claim C5 says that a poll that observes a state that is not terminal, when the time
  since submission exceeds the timeout of the policy, ends the call with \<open>ErrQueryTimeout\<close>
  and without \<open>StopQueryExecution\<close>. As stated it is false: the timeout is looked at only
  when the timer is received in the \<open>select\<close>. In the first poll of the query of the mock
  that stays queued, 5000 seconds after the submission and against a timeout of 1800
  seconds, with the context done, the call stops the execution and returns \<open>ctx.Err()\<close>.
\<close>

theorem timeout_with_cancellation_counterexample:
  "polled ((test_env (\<lambda>n. True))\<lparr>elapsed := (\<lambda>n. 5000)\<rparr>) ''SELECTQueryContext_CANCEL_OK_QID'' 0
     = Some (\<lparr>State = Queued, StateChangeReason = None\<rparr>, ''DDL'') \<and>
   isQueryTimeOut (hp ((test_env (\<lambda>n. True))\<lparr>elapsed := (\<lambda>n. 5000)\<rparr>))
     (elapsed ((test_env (\<lambda>n. True))\<lparr>elapsed := (\<lambda>n. 5000)\<rparr>) 0) ''DDL''
     (GetServiceLimitOverride (test_config False False)) \<and>
   (\<exists>w'. QueryContext 1 ((test_env (\<lambda>n. True))\<lparr>elapsed := (\<lambda>n. 5000)\<rparr>)
            (test_config False False) empty_world ''SELECTQueryContext_CANCEL_OK'' []
          = Some (Inr (None, Some ContextCanceled), w') \<and>
         filter is_stop_call (new_calls empty_world w')
           = [CallStopQueryExecution ''SELECTQueryContext_CANCEL_OK_QID''])"
proof -
  define e where "e = (test_env (\<lambda>n. True))\<lparr>elapsed := (\<lambda>n. 5000)\<rparr>"
  let ?cfg = "test_config False False"
  have h: "hp e = test_helpers" "athenaClient e = mockAthenaClient True True False"
    "Done_received (ctx e) 0" "ctx_Err (ctx e) = ContextCanceled" "elapsed e 0 = 5000"
    by (simp_all add: e_def test_env_def)
  have s: "strip_pseudo_command ''SELECTQueryContext_CANCEL_OK''
      = PCParsed [] ''SELECTQueryContext_CANCEL_OK''"
    by (simp add: strip_eval)
  note ps = prepare_submit_plain [of e ?cfg "''SELECTQueryContext_CANCEL_OK''"
      "''SELECTQueryContext_CANCEL_OK_QID''" empty_world, OF h(1) _ _ s]
  have p: "prepare e ?cfg empty_world ''SELECTQueryContext_CANCEL_OK'' [] =
           (Inr \<lparr>p_pseudoCommand = [], p_query = ''SELECTQueryContext_CANCEL_OK'',
                 p_queryWithPlaceholders = ''SELECTQueryContext_CANCEL_OK'',
                 p_args = [], p_wgName = ''primary''\<rparr>, empty_world)"
    by (rule ps(1)) (simp_all add: h mock_start_cancel_ok)
  have sb: "submit e ?cfg empty_world \<lparr>p_pseudoCommand = [], p_query = ''SELECTQueryContext_CANCEL_OK'',
                 p_queryWithPlaceholders = ''SELECTQueryContext_CANCEL_OK'',
                 p_args = [], p_wgName = ''primary''\<rparr> =
           (Inr ''SELECTQueryContext_CANCEL_OK_QID'', remote (CallStartQueryExecution
              \<lparr>QueryString = ''SELECTQueryContext_CANCEL_OK'', ExecutionParameters = [],
               Database = GetDB ?cfg, OutputLocation = GetOutputBucket ?cfg,
               WorkGroup = ''primary''\<rparr>) empty_world)"
    by (rule ps(2)) (simp_all add: h mock_start_cancel_ok)
  have pl: "polled e ''SELECTQueryContext_CANCEL_OK_QID'' 0
     = Some (\<lparr>State = Queued, StateChangeReason = None\<rparr>, ''DDL'')"
    by (simp add: polled_def h mock_GetQueryExecution_def status_of_def)
  have n: "non_terminal (State \<lparr>State = Queued, StateChangeReason = None\<rparr>)"
    by (simp add: non_terminal_def)
  have u: "polling_until e ?cfg ''SELECTQueryContext_CANCEL_OK_QID'' 0" by simp
  have t: "isQueryTimeOut (hp e) (elapsed e 0) ''DDL'' (GetServiceLimitOverride ?cfg)"
    by (simp add: h test_timeout_policy)
  from QueryContext_cancelled [OF p sb u pl n h(3), of 1]
  have r: "\<exists>w'. QueryContext 1 e ?cfg empty_world ''SELECTQueryContext_CANCEL_OK'' []
          = Some (Inr (None, Some ContextCanceled), w') \<and>
         filter is_stop_call (new_calls empty_world w')
           = [CallStopQueryExecution ''SELECTQueryContext_CANCEL_OK_QID'']"
    by (simp add: h mock_StopQueryExecution_def)
  show ?thesis by (intro conjI pl [unfolded e_def] t [unfolded e_def] r [unfolded e_def])
qed

text \<open>
  Claim C5, amended. When a poll observes a state that is not terminal and the timer is
  received rather than \<open>ctx.Done()\<close>, after polls that all went on, and the time since
  submission exceeds the timeout of the policy for the statement type and the override,
  then \<open>QueryContext\<close> stops polling and returns \<open>ErrQueryTimeout\<close>, and the call has not
  called \<open>StopQueryExecution\<close>.
\<close>

theorem timeout_without_stop:
  assumes "prepare e cfg w query namedArgs = (Inr p, w1)"
    and "submit e cfg w1 p = (Inr queryID, w2)"
    and "polling_until e cfg queryID n"
    and "polled e queryID n = Some (st, stt)" and "non_terminal (State st)"
    and "\<not> Done_received (ctx e) n"
    and "isQueryTimeOut (hp e) (elapsed e n) stt (GetServiceLimitOverride cfg)"
    and "n < fuel"
  shows "\<exists>w'. QueryContext fuel e cfg w query namedArgs =
            Some (Inr (None, Some ErrQueryTimeout), w') \<and>
          filter is_stop_call (new_calls w w') = []"
  using assms by (rule QueryContext_timeout)

text \<open>Claim C5, amended, at the query of the mock that times out at once.\<close>

theorem timeout_without_stop_witness:
  "polled (test_env (\<lambda>n. False)) ''SELECTQueryContext_TIMEOUT_QID'' 0
     = Some (\<lparr>State = Queued, StateChangeReason = None\<rparr>, ''TIMEOUT_NOW'') \<and>
   \<not> Done_received (ctx (test_env (\<lambda>n. False))) 0 \<and>
   isQueryTimeOut (hp (test_env (\<lambda>n. False))) (elapsed (test_env (\<lambda>n. False)) 0) ''TIMEOUT_NOW''
     (GetServiceLimitOverride (test_config False False)) \<and>
   (\<exists>w'. QueryContext 1 (test_env (\<lambda>n. False)) (test_config False False) empty_world
            ''SELECTQueryContext_TIMEOUT'' [] = Some (Inr (None, Some ErrQueryTimeout), w') \<and>
         filter is_stop_call (new_calls empty_world w') = [])"
proof -
  let ?e = "test_env (\<lambda>n. False)"
  let ?cfg = "test_config False False"
  have s: "strip_pseudo_command ''SELECTQueryContext_TIMEOUT''
      = PCParsed [] ''SELECTQueryContext_TIMEOUT''"
    by (simp add: strip_eval)
  note ps = prepare_submit_plain [of ?e ?cfg "''SELECTQueryContext_TIMEOUT''"
      "''SELECTQueryContext_TIMEOUT_QID''" empty_world, OF _ _ _ s]
  have p: "prepare ?e ?cfg empty_world ''SELECTQueryContext_TIMEOUT'' [] =
           (Inr \<lparr>p_pseudoCommand = [], p_query = ''SELECTQueryContext_TIMEOUT'',
                 p_queryWithPlaceholders = ''SELECTQueryContext_TIMEOUT'',
                 p_args = [], p_wgName = ''primary''\<rparr>, empty_world)"
    by (rule ps(1)) (simp_all add: mock_start_timeout)
  have sb: "submit ?e ?cfg empty_world \<lparr>p_pseudoCommand = [], p_query = ''SELECTQueryContext_TIMEOUT'',
                 p_queryWithPlaceholders = ''SELECTQueryContext_TIMEOUT'',
                 p_args = [], p_wgName = ''primary''\<rparr> =
           (Inr ''SELECTQueryContext_TIMEOUT_QID'', remote (CallStartQueryExecution
              \<lparr>QueryString = ''SELECTQueryContext_TIMEOUT'', ExecutionParameters = [],
               Database = GetDB ?cfg, OutputLocation = GetOutputBucket ?cfg,
               WorkGroup = ''primary''\<rparr>) empty_world)"
    by (rule ps(2)) (simp_all add: mock_start_timeout)
  have n: "non_terminal (State \<lparr>State = Queued, StateChangeReason = None\<rparr>)"
    by (simp add: non_terminal_def)
  have u: "polling_until ?e ?cfg ''SELECTQueryContext_TIMEOUT_QID'' 0" by simp
  have d: "\<not> Done_received (ctx ?e) 0" by simp
  have t: "isQueryTimeOut (hp ?e) (elapsed ?e 0) ''TIMEOUT_NOW'' (GetServiceLimitOverride ?cfg)"
    by (simp add: test_timeout_policy)
  from timeout_without_stop [OF p sb u mock_polled(2) n d t, of 1]
  have r: "\<exists>w'. QueryContext 1 ?e ?cfg empty_world ''SELECTQueryContext_TIMEOUT'' []
             = Some (Inr (None, Some ErrQueryTimeout), w') \<and>
           filter is_stop_call (new_calls empty_world w') = []"
    by simp
  show ?thesis by (intro conjI mock_polled(2) d t r)
qed

text \<open>
  Claim C10. A poll that observes the state \<open>Failed\<close> follows the pointer to the reason of
  the state change: with a reason, \<open>QueryContext\<close> returns the reason as its error;
  without one, it panics, dereferencing \<open>nil\<close>.
\<close>

theorem failed_status_reason:
  assumes "prepare e cfg w query namedArgs = (Inr p, w1)"
    and "submit e cfg w1 p = (Inr queryID, w2)"
    and "polling_until e cfg queryID n"
    and "polled e queryID n = Some (st, stt)" and "State st = Failed"
    and "n < fuel"
  shows "(StateChangeReason st = None \<longrightarrow>
            (\<exists>w'. QueryContext fuel e cfg w query namedArgs = Some (Inl NilDereference, w'))) \<and>
         (\<forall>reason. StateChangeReason st = Some reason \<longrightarrow>
            (\<exists>w'. QueryContext fuel e cfg w query namedArgs =
                     Some (Inr (None, Some (ErrorsNew reason)), w')))"
  using QueryContext_failed [OF assms] by auto

text \<open>
  Claim C10 at the query of the mock that fails with the reason \<open>something_broken\<close>, and
  at the same query against a client whose status has no reason.
\<close>

theorem failed_status_reason_witness:
  "polled (test_env (\<lambda>n. False)) ''SELECTQueryContext_AWS_FAIL_QID'' 0
     = Some (\<lparr>State = Failed, StateChangeReason = Some ''something_broken''\<rparr>, []) \<and>
   (\<exists>w'. QueryContext 1 (test_env (\<lambda>n. False)) (test_config False False) empty_world
            ''SELECTQueryContext_AWS_FAIL'' []
          = Some (Inr (None, Some (ErrorsNew ''something_broken'')), w')) \<and>
   polled ((test_env (\<lambda>n. False))\<lparr>athenaClient := (mockAthenaClient True True False)
            \<lparr>GetQueryExecution := (\<lambda>n qid. status_of Failed None [])\<rparr>\<rparr>)
          ''SELECTQueryContext_AWS_FAIL_QID'' 0
     = Some (\<lparr>State = Failed, StateChangeReason = None\<rparr>, []) \<and>
   (\<exists>w'. QueryContext 1
            ((test_env (\<lambda>n. False))\<lparr>athenaClient := (mockAthenaClient True True False)
               \<lparr>GetQueryExecution := (\<lambda>n qid. status_of Failed None [])\<rparr>\<rparr>)
            (test_config False False) empty_world ''SELECTQueryContext_AWS_FAIL'' []
          = Some (Inl NilDereference, w'))"
proof -
  let ?e = "test_env (\<lambda>n. False)"
  define e2 where "e2 = (test_env (\<lambda>n. False))\<lparr>athenaClient := (mockAthenaClient True True False)
            \<lparr>GetQueryExecution := (\<lambda>n qid. status_of Failed None [])\<rparr>\<rparr>"
  let ?cfg = "test_config False False"
  let ?p = "\<lparr>p_pseudoCommand = [], p_query = ''SELECTQueryContext_AWS_FAIL'',
                 p_queryWithPlaceholders = ''SELECTQueryContext_AWS_FAIL'',
                 p_args = [], p_wgName = ''primary''\<rparr>"
  let ?w2 = "remote (CallStartQueryExecution
              \<lparr>QueryString = ''SELECTQueryContext_AWS_FAIL'', ExecutionParameters = [],
               Database = GetDB ?cfg, OutputLocation = GetOutputBucket ?cfg,
               WorkGroup = ''primary''\<rparr>) empty_world"
  have h2: "hp e2 = test_helpers" "StartQueryExecution (athenaClient e2) = mock_StartQueryExecution"
    "GetQueryExecution (athenaClient e2) = (\<lambda>n qid. status_of Failed None [])"
    by (simp_all add: e2_def test_env_def mockAthenaClient_def)
  have s: "strip_pseudo_command ''SELECTQueryContext_AWS_FAIL''
      = PCParsed [] ''SELECTQueryContext_AWS_FAIL''"
    by (simp add: strip_eval)
  note ps = prepare_submit_plain [of _ ?cfg "''SELECTQueryContext_AWS_FAIL''"
      "''SELECTQueryContext_AWS_FAIL_QID''" empty_world, OF _ _ _ s]
  have p: "prepare ?e ?cfg empty_world ''SELECTQueryContext_AWS_FAIL'' [] = (Inr ?p, empty_world)"
    by (rule ps(1)) (simp_all add: mock_start_aws_fail)
  have sb: "submit ?e ?cfg empty_world ?p = (Inr ''SELECTQueryContext_AWS_FAIL_QID'', ?w2)"
    by (rule ps(2)) (simp_all add: mock_start_aws_fail)
  have p2: "prepare e2 ?cfg empty_world ''SELECTQueryContext_AWS_FAIL'' [] = (Inr ?p, empty_world)"
    by (rule ps(1)) (simp_all add: h2 mock_start_aws_fail)
  have sb2: "submit e2 ?cfg empty_world ?p = (Inr ''SELECTQueryContext_AWS_FAIL_QID'', ?w2)"
    by (rule ps(2)) (simp_all add: h2 mock_start_aws_fail)
  have pl2: "polled e2 ''SELECTQueryContext_AWS_FAIL_QID'' 0
     = Some (\<lparr>State = Failed, StateChangeReason = None\<rparr>, [])"
    by (simp add: polled_def h2 status_of_def)
  have f: "\<And>r. State \<lparr>State = Failed, StateChangeReason = r\<rparr> = Failed" by simp
  have u: "\<And>e. polling_until e ?cfg ''SELECTQueryContext_AWS_FAIL_QID'' 0" by simp
  from failed_status_reason [OF p sb u mock_polled(3) f, of 1]
  have a: "\<exists>w'. QueryContext 1 ?e ?cfg empty_world ''SELECTQueryContext_AWS_FAIL'' []
          = Some (Inr (None, Some (ErrorsNew ''something_broken'')), w')"
    by simp
  from failed_status_reason [OF p2 sb2 u pl2 f, of 1]
  have b: "\<exists>w'. QueryContext 1 e2 ?cfg empty_world ''SELECTQueryContext_AWS_FAIL'' []
          = Some (Inl NilDereference, w')"
    by simp
  show ?thesis by (intro conjI mock_polled(3) a b [unfolded e2_def] pl2 [unfolded e2_def])
qed

subsection \<open>Queries with placeholders and no arguments\<close>











end
